theory Spec2Isabelle
  imports Complex_Main
begin

section \<open>JavaScript numbers\<close>

text \<open>
  The program computes with JavaScript numbers. They are modelled in exact arithmetic:
  a finite number is a real (\<open>Fin\<close>), and the three non-finite values a division or
  \<open>Math.pow\<close> can produce are kept apart, so that a division by zero is a value of the
  model as it is one of the program. Rounding and the sign of zero are not modelled
  (a zero divisor is taken as \<open>+0\<close>, which is what \<open>x - x\<close> and a literal \<open>0\<close> give).
\<close>

datatype jsnum = Fin real | PInf | NInf | NaN

fun js_neg :: "jsnum \<Rightarrow> jsnum" where
  "js_neg (Fin x) = Fin (- x)"
| "js_neg PInf = NInf"
| "js_neg NInf = PInf"
| "js_neg NaN = NaN"

fun js_add :: "jsnum \<Rightarrow> jsnum \<Rightarrow> jsnum" where
  "js_add (Fin x) (Fin y) = Fin (x + y)"
| "js_add NaN b = NaN"
| "js_add a NaN = NaN"
| "js_add PInf NInf = NaN"
| "js_add NInf PInf = NaN"
| "js_add PInf b = PInf"
| "js_add a PInf = PInf"
| "js_add NInf b = NInf"
| "js_add a NInf = NInf"

definition js_sub :: "jsnum \<Rightarrow> jsnum \<Rightarrow> jsnum" where
  "js_sub a b = js_add a (js_neg b)"

text \<open>The sign of a number other than \<open>NaN\<close>: \<open>1\<close>, \<open>0\<close> or \<open>-1\<close>.\<close>

fun js_sgn :: "jsnum \<Rightarrow> real" where
  "js_sgn (Fin x) = sgn x"
| "js_sgn PInf = 1"
| "js_sgn NInf = - 1"
| "js_sgn NaN = 0"

definition js_inf :: "real \<Rightarrow> jsnum" where
  "js_inf s = (if s = 0 then NaN else if 0 < s then PInf else NInf)"

fun js_mul :: "jsnum \<Rightarrow> jsnum \<Rightarrow> jsnum" where
  "js_mul (Fin x) (Fin y) = Fin (x * y)"
| "js_mul NaN b = NaN"
| "js_mul a NaN = NaN"
| "js_mul a b = js_inf (js_sgn a * js_sgn b)"

fun js_div :: "jsnum \<Rightarrow> jsnum \<Rightarrow> jsnum" where
  "js_div (Fin x) (Fin y) = (if y = 0 then js_inf (sgn x) else Fin (x / y))"
| "js_div NaN b = NaN"
| "js_div a NaN = NaN"
| "js_div (Fin x) b = Fin 0"
| "js_div a (Fin y) = js_inf (js_sgn a * (if y < 0 then - 1 else 1))"
| "js_div a b = NaN"

fun js_gt :: "jsnum \<Rightarrow> jsnum \<Rightarrow> bool" where
  "js_gt (Fin x) (Fin y) = (y < x)"
| "js_gt NaN b = False"
| "js_gt a NaN = False"
| "js_gt PInf PInf = False"
| "js_gt PInf b = True"
| "js_gt (Fin x) NInf = True"
| "js_gt a b = False"

text \<open>
  \<open>Math.pow\<close> with a finite exponent. A negative base has a power only for an integer
  exponent; a zero base with a negative exponent gives \<open>Infinity\<close>.
\<close>

fun js_pow :: "jsnum \<Rightarrow> real \<Rightarrow> jsnum" where
  "js_pow (Fin b) e =
     (if e = 0 then Fin 1
      else if 0 < b then Fin (b powr e)
      else if b = 0 then (if 0 < e then Fin 0 else PInf)
      else if e = of_int \<lfloor>e\<rfloor> then Fin (b powi \<lfloor>e\<rfloor>)
      else NaN)"
| "js_pow PInf e = (if e = 0 then Fin 1 else if 0 < e then PInf else Fin 0)"
| "js_pow NInf e =
     (if e = 0 then Fin 1
      else if e < 0 then Fin 0
      else if e = of_int \<lfloor>e\<rfloor> \<and> odd \<lfloor>e\<rfloor> then NInf
      else PInf)"
| "js_pow NaN e = (if e = 0 then Fin 1 else NaN)"

text \<open>\<open>x || 0\<close> on a finite number: \<open>0\<close> is the only falsy one.\<close>

definition or0 :: "real \<Rightarrow> real" where
  "or0 x = (if x = 0 then 0 else x)"

section \<open>The annuity helper\<close>

text \<open>
  \<open>pmt(rate, nper, pv)\<close>. The rate and the number of periods are finite numbers; the
  principal is any number, since the second phase of the loan passes the balance the
  first phase left.
\<close>

definition pmt :: "real \<Rightarrow> real \<Rightarrow> jsnum \<Rightarrow> jsnum" where
  "pmt rate nper pv =
     (if \<bar>rate\<bar> < 1 / 10 ^ 9 then js_neg (js_div pv (Fin nper))
      else js_div (js_neg (js_mul pv (Fin rate)))
             (js_sub (Fin 1) (js_pow (Fin (1 + rate)) (- nper))))"

section \<open>The depreciation rate of a year\<close>

text \<open>
  \<open>String.prototype.includes\<close>: the argument occurs as a contiguous part of the text.
\<close>

fun str_includes :: "string \<Rightarrow> string \<Rightarrow> bool" where
  "str_includes [] t = (t = [])"
| "str_includes (c # cs) t = (take (length t) (c # cs) = t \<or> str_includes cs t)"

text \<open>
  \<open>afaRate(afaArt, year, lifetimeYears = 50)\<close>. The identifier is \<open>None\<close> when the
  caller passes \<open>undefined\<close> or \<open>null\<close>, and so is the lifetime when it is left out.
  In the \<open>default\<close> branch, \<open>afaArt && \<dots>\<close> skips the test for a missing or empty text.
\<close>

definition afaRate :: "string option \<Rightarrow> int \<Rightarrow> real option \<Rightarrow> jsnum" where
  "afaRate afaArt year lifetime =
     (let lifetimeYears = (case lifetime of None \<Rightarrow> 50 | Some l \<Rightarrow> l); y = year in
      if afaArt = Some ''Degressiv 5% + Linear 3%'' then (if y \<le> 6 then Fin 0.05 else Fin 0.03)
      else if afaArt = Some ''Degressiv 5% + Linear 2%'' then (if y \<le> 6 then Fin 0.05 else Fin 0.02)
      else if afaArt = Some ''Linear 3 % p.a.'' \<or> afaArt = Some ''Linear 3%''
        then (if y \<le> 33 then Fin 0.03 else Fin 0)
      else if afaArt = Some ''Linear 2 % p.a.'' \<or> afaArt = Some ''Linear 2%''
        then (if y \<le> 50 then Fin 0.02 else Fin 0)
      else if afaArt = Some ''Linear x%''
        then (if of_int y \<le> lifetimeYears then js_div (Fin 1) (Fin lifetimeYears) else Fin 0)
      else (case afaArt of
              None \<Rightarrow> Fin 0.02
            | Some s \<Rightarrow>
                if s \<noteq> [] \<and> str_includes s ''3'' then Fin 0.03
                else if s \<noteq> [] \<and> str_includes s ''2'' then Fin 0.02
                else Fin 0.02))"

section \<open>The parameters and the result of a simulation\<close>

text \<open>
  The parameter sheet. The amounts, the rates and the year counts are finite numbers: a
  loan term or a fixed-rate period need not be a whole number of years.
  \<open>interestRate2\<close> and \<open>buildingLifetimeYears\<close> may be left out, and so may the scheme
  identifier.
\<close>

record params =
  startYear :: real
  buildingValue :: real
  landValue :: real
  grEStRate :: real
  maklerRate :: real
  grundbuchRate :: real
  notaryRate :: real
  companyCost :: real
  fittingUp :: real
  initialRepairs :: real
  buildingLossRate :: real
  landGrowthRate :: real
  constructionCostGrowth :: real
  annualMaintenance :: real
  maintenanceGrowth :: real
  monthlyRent :: real
  vacancyRate :: real
  rentGrowth :: real
  taxRate :: real
  equity :: real
  loanTermYears :: real
  fixRateYears :: real
  discountRate :: real
  interestRate1 :: real
  interestRate2 :: "real option"
  afaArt :: "string option"
  buildingLifetimeYears :: "real option"

record options =
  opt_horizonYears :: "real option"

record loanEntry =
  restStart :: jsnum
  interest :: jsnum
  annuity :: jsnum
  principal :: jsnum
  cumPrincipal :: jsnum

record yearResult =
  yearIndex :: int
  calendarYear :: "real option"
  restDebtStart :: jsnum
  interestPaid :: jsnum
  principalPaid :: jsnum
  grossRent :: jsnum
  netRent :: jsnum
  maintenance :: jsnum
  depreciation :: jsnum
  taxable :: jsnum
  taxCash :: jsnum
  cashBeforeTax :: jsnum
  cashAfterTax :: jsnum
  cumulativeCF :: jsnum
  propertyValue :: real
  cumulativePrincipal :: jsnum
  wealthFromCFAndLoan :: jsnum
  equityPosition :: jsnum

record meta =
  meta_startYear :: real
  meta_horizonYears :: real
  meta_totalInvest :: real
  meta_finanzbedarf :: real
  meta_auszahlung :: real
  meta_disagio :: real
  meta_afaBasis :: real

record kpis =
  equityInvested :: real
  equityPositionEnd :: jsnum
  roiOnInvestment :: jsnum
  roeTotal :: jsnum
  roeAnnualized :: jsnum
  propertyValueEnd :: real
  restDebtStartLastYear :: jsnum
  kpi_cumulativeCF :: jsnum

record result =
  res_meta :: meta
  res_loanSchedule :: "real \<rightharpoonup> loanEntry"
  res_years :: "yearResult list"
  res_kpis :: kpis

text \<open>Reading a property of \<open>undefined\<close> throws.\<close>

datatype error = TypeError

section \<open>Investment and financing values\<close>

text \<open>
  Section 3.1 of \<open>simulateExcelModel\<close>. Every value here is a sum or product of finite
  parameters, or a quotient behind a guard on its divisor, hence a finite number.
\<close>

definition purchasePrice :: "params \<Rightarrow> real" where
  "purchasePrice p = or0 (buildingValue p) + or0 (landValue p)"

definition sideCostRate :: "params \<Rightarrow> real" where
  "sideCostRate p =
     or0 (grEStRate p) + or0 (maklerRate p) + or0 (grundbuchRate p) + or0 (notaryRate p)"

definition sideCostsVar :: "params \<Rightarrow> real" where
  "sideCostsVar p = purchasePrice p * sideCostRate p"

definition sideCostsTotal :: "params \<Rightarrow> real" where
  "sideCostsTotal p = sideCostsVar p + or0 (companyCost p)"

definition totalInvest :: "params \<Rightarrow> real" where
  "totalInvest p =
     purchasePrice p + or0 (fittingUp p) + or0 (initialRepairs p) + sideCostsTotal p"

definition finanzbedarf :: "params \<Rightarrow> real" where
  "finanzbedarf p = totalInvest p - or0 (equity p)"

definition auszahlungsKurs :: "params \<Rightarrow> real" where
  "auszahlungsKurs p = 1 - or0 (discountRate p)"

definition auszahlung :: "params \<Rightarrow> real" where
  "auszahlung p =
     (if 1 / 10 ^ 12 < \<bar>auszahlungsKurs p\<bar> then finanzbedarf p / auszahlungsKurs p
      else finanzbedarf p)"

definition disagio :: "params \<Rightarrow> real" where
  "disagio p = auszahlung p - finanzbedarf p"

definition buildingShare :: "params \<Rightarrow> real" where
  "buildingShare p =
     (if 0 < purchasePrice p then or0 (buildingValue p) / purchasePrice p else 0)"

definition afaBasis :: "params \<Rightarrow> real" where
  "afaBasis p =
     or0 (buildingValue p) + or0 (fittingUp p) + sideCostsVar p * buildingShare p"

section \<open>The loan schedule\<close>

text \<open>
  Section 3.2. The state of the loops is the triple of \<open>remaining\<close>, \<open>cumPrincipal\<close>
  and \<open>loanSchedule\<close>, an object keyed by the year. A key is the number the loop
  computes, whole or not; the projection later reads the whole years.
\<close>

type_synonym lstate = "jsnum \<times> jsnum \<times> (real \<rightharpoonup> loanEntry)"

text \<open>The body both phases share: one year at rate \<open>r\<close> with the payment \<open>ann\<close>.\<close>

definition amortStep :: "real \<Rightarrow> jsnum \<Rightarrow> real \<Rightarrow> lstate \<Rightarrow> lstate" where
  "amortStep r ann year st =
     (case st of (remaining, cumP, sched) \<Rightarrow>
        let restStart = remaining;
            interestPaid = js_mul (js_neg restStart) (Fin r);
            principalPaid = js_sub ann interestPaid;
            remaining' = js_add remaining principalPaid;
            cumP' = js_add cumP (js_neg principalPaid)
        in (remaining', cumP',
            sched(year \<mapsto> \<lparr>restStart = restStart, interest = interestPaid, annuity = ann,
                              principal = principalPaid, cumPrincipal = cumP'\<rparr>)))"

text \<open>
  \<open>for (let n = from; n <= cnt; n++)\<close> writing the year \<open>off + n\<close>. Phase 1 is the loop
  with \<open>off = 0\<close> (its counter is the year), phase 2 the one with \<open>off = firstPhaseYears\<close>.
  The counter starts at 1 and is a whole number; the bound and the offset are any
  numbers.
\<close>

function amortLoop :: "real \<Rightarrow> jsnum \<Rightarrow> real \<Rightarrow> real \<Rightarrow> int \<Rightarrow> lstate \<Rightarrow> lstate" where
  "amortLoop r ann off cnt n st =
     (if of_int n \<le> cnt
      then amortLoop r ann off cnt (n + 1) (amortStep r ann (off + of_int n) st)
      else st)"
  by pat_completeness auto
termination
  by (relation "measure (\<lambda>(r, ann, off, cnt, n, st). nat (\<lfloor>cnt\<rfloor> + 1 - n))")
    (auto simp: le_floor_iff)

text \<open>
  The rows after the loan term: zeros, and \<open>cumPrincipal\<close> as the phases left it. The
  loop starts at \<open>loanYears + 1\<close> and steps by one year.
\<close>

definition zeroEntry :: "jsnum \<Rightarrow> loanEntry" where
  "zeroEntry cumP =
     \<lparr>restStart = Fin 0, interest = Fin 0, annuity = Fin 0, principal = Fin 0,
      cumPrincipal = cumP\<rparr>"

function extendLoop ::
  "real \<Rightarrow> jsnum \<Rightarrow> real \<Rightarrow> (real \<rightharpoonup> loanEntry) \<Rightarrow> (real \<rightharpoonup> loanEntry)" where
  "extendLoop horizonYears cumP year sched =
     (if year \<le> horizonYears
      then extendLoop horizonYears cumP (year + 1) (sched(year \<mapsto> zeroEntry cumP))
      else sched)"
  by pat_completeness auto
termination
proof (relation "measure (\<lambda>(h, c, year, s). nat (\<lfloor>h - year\<rfloor> + 1))", goal_cases)
  case 1
  show ?case by simp
next
  case (2 horizonYears cumP year sched)
  have e: "horizonYears - (year + 1) = (horizonYears - year) - 1" by simp
  have a: "\<lfloor>horizonYears - (year + 1)\<rfloor> = \<lfloor>horizonYears - year\<rfloor> - 1"
    unfolding e by simp
  have b: "0 \<le> \<lfloor>horizonYears - year\<rfloor>" using 2 by simp
  show ?case using a b by simp
qed

definition firstPhaseYears :: "params \<Rightarrow> real" where
  "firstPhaseYears p = min (fixRateYears p) (loanTermYears p)"

definition rate1 :: "params \<Rightarrow> real" where
  "rate1 p = or0 (interestRate1 p)"

definition rate2 :: "params \<Rightarrow> real" where
  "rate2 p = (case interestRate2 p of Some x \<Rightarrow> x | None \<Rightarrow> rate1 p)"

definition remainingYears :: "params \<Rightarrow> real" where
  "remainingYears p = max (loanTermYears p - firstPhaseYears p) 0"

text \<open>The state after phase 1 and after phase 2.\<close>

definition phase1 :: "params \<Rightarrow> lstate" where
  "phase1 p =
     (let annuity1 = pmt (rate1 p) (loanTermYears p) (Fin (auszahlung p))
      in amortLoop (rate1 p) annuity1 0 (firstPhaseYears p) 1
           (Fin (auszahlung p), Fin 0, Map.empty))"

definition phase2 :: "params \<Rightarrow> lstate" where
  "phase2 p =
     (let st1 = phase1 p; restAtFix = fst st1 in
      if 0 < remainingYears p
      then (let annuity2 = pmt (rate2 p) (remainingYears p) restAtFix
            in amortLoop (rate2 p) annuity2 (firstPhaseYears p) (remainingYears p) 1 st1)
      else st1)"

definition buildLoanSchedule :: "params \<Rightarrow> real \<Rightarrow> (real \<rightharpoonup> loanEntry)" where
  "buildLoanSchedule p horizonYears =
     (case phase2 p of (remaining, cumP, sched) \<Rightarrow>
        extendLoop horizonYears cumP (loanTermYears p + 1) sched)"

section \<open>The year-by-year projection\<close>

text \<open>
  Sections 3.3 and 3.4. The state of the loop is \<open>cumCF\<close>, \<open>buildingVal\<close>, \<open>landVal\<close>
  and the array \<open>years\<close>; \<open>propertyVal\<close> is recomputed from the two values in every
  year. The property values are products of finite parameters. The year runs over the
  whole numbers from 1; where the schedule has no entry under it, \<open>loan\<close> is \<open>undefined\<close>
  and reading \<open>loan.restStart\<close> throws.
\<close>

type_synonym pstate = "jsnum \<times> real \<times> real \<times> yearResult list"

definition projectYear ::
  "params \<Rightarrow> (real \<rightharpoonup> loanEntry) \<Rightarrow> int \<Rightarrow> pstate \<Rightarrow> error + pstate" where
  "projectYear p sched year st =
     (case st of (cumCF, buildingVal, landVal, years) \<Rightarrow>
      case sched (of_int year) of
        None \<Rightarrow> Inl TypeError
      | Some loan \<Rightarrow>
        let restStart' = restStart loan;
            interestPaid' = interest loan;
            principalPaid' = principal loan;
            cumPrincipalYear = cumPrincipal loan;
            grossRent' = js_mul (Fin (or0 (monthlyRent p) * 12))
                           (js_pow (Fin (1 + or0 (rentGrowth p))) (of_int (year - 1)));
            netRent' = js_mul grossRent' (Fin (1 - or0 (vacancyRate p)));
            maintenance' =
              (if year = 1 then Fin (- (or0 (annualMaintenance p) + or0 (initialRepairs p)))
               else js_mul (Fin (- or0 (annualMaintenance p)))
                      (js_pow (Fin (1 + or0 (maintenanceGrowth p))) (of_int year)));
            afaR = afaRate (afaArt p) year
                     (Some (case buildingLifetimeYears p of None \<Rightarrow> 50 | Some l \<Rightarrow> l));
            afaAmount = js_mul (Fin (- afaBasis p)) afaR;
            taxable' =
              (if year = 1
               then js_sub (js_add (js_add (js_add netRent' maintenance') interestPaid') afaAmount)
                      (Fin (or0 (disagio p)))
               else js_add (js_add (js_add netRent' maintenance') interestPaid') afaAmount);
            taxCash' = js_mul (Fin (- or0 (taxRate p))) taxable';
            cashBeforeTax' = js_add (js_add (js_add netRent' maintenance') interestPaid') principalPaid';
            cashAfterTax' = js_add cashBeforeTax' taxCash';
            cumCF' = js_add cumCF cashAfterTax';
            landVal' = landVal * (1 + or0 (landGrowthRate p));
            buildingVal' =
              buildingVal * (1 - or0 (buildingLossRate p) + or0 (constructionCostGrowth p));
            propertyVal = buildingVal' + landVal';
            Zverm = js_add cumCF' cumPrincipalYear;
            equityPosition' = js_sub (js_add (Fin propertyVal) Zverm) (Fin (totalInvest p))
        in Inr (cumCF', buildingVal', landVal',
                years @
                [\<lparr>yearIndex = year,
                  calendarYear = (if startYear p \<noteq> 0 then Some (startYear p + of_int year) else None),
                  restDebtStart = restStart',
                  interestPaid = interestPaid',
                  principalPaid = principalPaid',
                  grossRent = grossRent',
                  netRent = netRent',
                  maintenance = maintenance',
                  depreciation = afaAmount,
                  taxable = taxable',
                  taxCash = taxCash',
                  cashBeforeTax = cashBeforeTax',
                  cashAfterTax = cashAfterTax',
                  cumulativeCF = cumCF',
                  propertyValue = propertyVal,
                  cumulativePrincipal = cumPrincipalYear,
                  wealthFromCFAndLoan = Zverm,
                  equityPosition = equityPosition'\<rparr>]))"

function projectLoop ::
  "params \<Rightarrow> (real \<rightharpoonup> loanEntry) \<Rightarrow> real \<Rightarrow> int \<Rightarrow> pstate \<Rightarrow> error + pstate" where
  "projectLoop p sched horizonYears year st =
     (if of_int year \<le> horizonYears
      then (case projectYear p sched year st of
              Inl e \<Rightarrow> Inl e
            | Inr st' \<Rightarrow> projectLoop p sched horizonYears (year + 1) st')
      else Inr st)"
  by pat_completeness auto
termination
  by (relation "measure (\<lambda>(p, s, h, year, st). nat (\<lfloor>h\<rfloor> + 1 - year))")
    (auto simp: le_floor_iff)

section \<open>The summary figures\<close>

text \<open>Section 3.5, from \<open>last\<close>, the last element of \<open>years\<close>.\<close>

definition computeKpis :: "params \<Rightarrow> real \<Rightarrow> yearResult \<Rightarrow> kpis" where
  "computeKpis p horizonYears last_year =
     (let equityInvested' = or0 (equity p);
          totalProfitOnInvestment = equityPosition last_year;
          roiOnInvestment' =
            (if 0 < totalInvest p then js_div totalProfitOnInvestment (Fin (totalInvest p))
             else Fin 0);
          roeTotal' =
            (if 0 < equityInvested' then js_div totalProfitOnInvestment (Fin equityInvested')
             else Fin 0);
          yearsCount = (if 0 < horizonYears then horizonYears else 1);
          roeAnnualized' =
            (if js_gt roeTotal' (Fin (- 1))
             then js_sub (js_pow (js_add (Fin 1) roeTotal') (1 / yearsCount)) (Fin 1)
             else NaN)
      in \<lparr>equityInvested = equityInvested',
          equityPositionEnd = equityPosition last_year,
          roiOnInvestment = roiOnInvestment',
          roeTotal = roeTotal',
          roeAnnualized = roeAnnualized',
          propertyValueEnd = propertyValue last_year,
          restDebtStartLastYear = restDebtStart last_year,
          kpi_cumulativeCF = cumulativeCF last_year\<rparr>)"

section \<open>The simulation\<close>

definition horizonOf :: "params \<Rightarrow> options \<Rightarrow> real" where
  "horizonOf p opts = (case opt_horizonYears opts of None \<Rightarrow> loanTermYears p | Some h \<Rightarrow> h)"

text \<open>
  \<open>simulateExcelModel(params, options)\<close>. With no year simulated \<open>last\<close> is \<open>undefined\<close>
  and reading \<open>last.equityPosition\<close> throws.
\<close>

definition simulateExcelModel :: "params \<Rightarrow> options \<Rightarrow> error + result" where
  "simulateExcelModel p opts =
     (let horizonYears = horizonOf p opts;
          loanSchedule = buildLoanSchedule p horizonYears;
          buildingVal = or0 (buildingValue p) + or0 (fittingUp p);
          landVal = or0 (landValue p)
      in case projectLoop p loanSchedule horizonYears 1 (Fin 0, buildingVal, landVal, []) of
           Inl e \<Rightarrow> Inl e
         | Inr (cumCF, buildingVal', landVal', years) \<Rightarrow>
             (case years of
                [] \<Rightarrow> Inl TypeError
              | y # ys \<Rightarrow>
                  Inr \<lparr>res_meta =
                         \<lparr>meta_startYear = startYear p,
                          meta_horizonYears = horizonYears,
                          meta_totalInvest = totalInvest p,
                          meta_finanzbedarf = finanzbedarf p,
                          meta_auszahlung = auszahlung p,
                          meta_disagio = disagio p,
                          meta_afaBasis = afaBasis p\<rparr>,
                       res_loanSchedule = loanSchedule,
                       res_years = years,
                       res_kpis = computeKpis p horizonYears (last years)\<rparr>))"

section \<open>The simplified variant of the user interface\<close>

text \<open>
  \<open>runSimulation(inputs)\<close> of \<open>app.js\<close>, which takes percentages and divides them by
  100. Its two year counts are finite numbers as well.
\<close>

record inputs =
  in_purchasePrice :: real
  in_purchaseCostRate :: real
  in_appreciationRate :: real
  in_sellingCostRate :: real
  in_equity :: real
  in_interestRate :: real
  in_loanTermYears :: real
  in_investmentYears :: real
  in_monthlyRent :: real
  in_vacancyRate :: real
  in_maintenanceRate :: real
  in_otherCostsAnnual :: real
  in_taxRate :: real
  in_depreciationRate :: real

record costBreakdown =
  cb_rent :: real
  cb_maintenance :: real
  cb_other :: real
  cb_interest :: real
  cb_taxes :: real

record simResult =
  yearLabels :: "string list"
  annualCashflows :: "real list"
  cumulativeCashflows :: "real list"
  roeOverTime :: "real list"
  year1CostBreakdown :: "costBreakdown option"
  rs_cumulativeCF :: real
  netSaleProceeds :: jsnum
  totalProfit :: jsnum
  totalROE :: jsnum
  annualizedROE :: jsnum
  equityMultiple :: jsnum
  remainingDebtEnd :: real
  purchasingCosts :: real
  loanAmount :: real
  totalInitialCost :: real

definition rs_purchasingCosts :: "inputs \<Rightarrow> real" where
  "rs_purchasingCosts i = in_purchasePrice i * (in_purchaseCostRate i / 100)"

definition rs_totalInitialCost :: "inputs \<Rightarrow> real" where
  "rs_totalInitialCost i = in_purchasePrice i + rs_purchasingCosts i"

definition rs_loanAmount :: "inputs \<Rightarrow> real" where
  "rs_loanAmount i = max (rs_totalInitialCost i - in_equity i) 0"

text \<open>
  The constant payment. Behind the guard the base \<open>1 + r\<close> exceeds \<open>1\<close> and \<open>n\<close> is
  positive, so \<open>Math.pow\<close> is the real power, a number between 0 and 1, and the divisor
  is not zero.
\<close>

definition annualDebtService :: "inputs \<Rightarrow> real" where
  "annualDebtService i =
     (let interestRate = in_interestRate i / 100; loanTermYears' = in_loanTermYears i in
      if 0 < interestRate \<and> 0 < loanTermYears'
      then (let r = interestRate; n = loanTermYears';
                annuityFactor = r / (1 - (1 + r) powr (- n))
            in rs_loanAmount i * annuityFactor)
      else if 0 < loanTermYears' then rs_loanAmount i / loanTermYears'
      else 0)"

definition annualGrossRent :: "inputs \<Rightarrow> real" where
  "annualGrossRent i = in_monthlyRent i * 12 * (1 - in_vacancyRate i / 100)"

definition rs_annualMaintenance :: "inputs \<Rightarrow> real" where
  "rs_annualMaintenance i = annualGrossRent i * (in_maintenanceRate i / 100)"

definition annualDepreciation :: "inputs \<Rightarrow> real" where
  "annualDepreciation i = in_purchasePrice i * (in_depreciationRate i / 100)"

text \<open>The constants a year of the loop computes from the debt at its start.\<close>

definition interestPayment :: "inputs \<Rightarrow> real \<Rightarrow> real" where
  "interestPayment i remainingDebt = remainingDebt * (in_interestRate i / 100)"

definition principalRepayment :: "inputs \<Rightarrow> real \<Rightarrow> real" where
  "principalRepayment i remainingDebt =
     max (annualDebtService i - interestPayment i remainingDebt) 0"

definition taxableIncome :: "inputs \<Rightarrow> real \<Rightarrow> real" where
  "taxableIncome i remainingDebt =
     annualGrossRent i - rs_annualMaintenance i - in_otherCostsAnnual i
       - interestPayment i remainingDebt - annualDepreciation i"

definition taxes :: "inputs \<Rightarrow> real \<Rightarrow> real" where
  "taxes i remainingDebt = max (taxableIncome i remainingDebt * (in_taxRate i / 100)) 0"

definition cashflowAfterTax :: "inputs \<Rightarrow> real \<Rightarrow> real" where
  "cashflowAfterTax i remainingDebt =
     annualGrossRent i - rs_annualMaintenance i - in_otherCostsAnnual i
       - interestPayment i remainingDebt - taxes i remainingDebt"

text \<open>The decimal text of a year number, for the label \<open>Year n\<close>.\<close>

fun decimal :: "nat \<Rightarrow> string" where
  "decimal n =
     (if n < 10 then [char_of (48 + n)] else decimal (n div 10) @ [char_of (48 + n mod 10)])"

text \<open>
  The state of the loop: \<open>remainingDebt\<close>, \<open>cumulativeCF\<close>, the four arrays and
  \<open>year1CostBreakdown\<close>.
\<close>

type_synonym rstate =
  "real \<times> real \<times> string list \<times> real list \<times> real list \<times> real list \<times> costBreakdown option"

definition runYear :: "inputs \<Rightarrow> int \<Rightarrow> rstate \<Rightarrow> rstate" where
  "runYear i year st =
     (case st of (remainingDebt, cumulativeCF', labels, cfs, cumCfs, roes, breakdown) \<Rightarrow>
        let interestPayment' = interestPayment i remainingDebt;
            remainingDebt' = max (remainingDebt - principalRepayment i remainingDebt) 0;
            taxes' = taxes i remainingDebt;
            cashflowAfterTax' = cashflowAfterTax i remainingDebt;
            cumulativeCF'' = cumulativeCF' + cashflowAfterTax';
            propertyValueThisYear =
              in_purchasePrice i * (1 + in_appreciationRate i / 100) ^ nat year;
            equityAtYear = propertyValueThisYear - remainingDebt' - in_equity i + cumulativeCF'';
            roeToDate = (if 0 < in_equity i then equityAtYear / in_equity i * 100 else 0)
        in (remainingDebt', cumulativeCF'',
            labels @ [''Year '' @ decimal (nat year)],
            cfs @ [cashflowAfterTax'],
            cumCfs @ [cumulativeCF''],
            roes @ [roeToDate],
            (if year = 1
             then Some \<lparr>cb_rent = annualGrossRent i, cb_maintenance = rs_annualMaintenance i,
                        cb_other = in_otherCostsAnnual i, cb_interest = interestPayment',
                        cb_taxes = taxes'\<rparr>
             else breakdown)))"

function runLoop :: "inputs \<Rightarrow> real \<Rightarrow> int \<Rightarrow> rstate \<Rightarrow> rstate" where
  "runLoop i years year st =
     (if of_int year \<le> years then runLoop i years (year + 1) (runYear i year st) else st)"
  by pat_completeness auto
termination
  by (relation "measure (\<lambda>(i, years, year, st). nat (\<lfloor>years\<rfloor> + 1 - year))")
    (auto simp: le_floor_iff)

definition runSimulation :: "inputs \<Rightarrow> simResult" where
  "runSimulation i =
     (let equity' = in_equity i;
          investmentYears = in_investmentYears i;
          years = min investmentYears
                    (if in_loanTermYears i \<noteq> 0 then in_loanTermYears i else investmentYears)
      in case runLoop i years 1 (rs_loanAmount i, 0, [], [], [], [], None) of
           (remainingDebt, cumulativeCF', labels, cfs, cumCfs, roes, breakdown) \<Rightarrow>
        let propertyValueEnd =
              js_mul (Fin (in_purchasePrice i))
                (js_pow (Fin (1 + in_appreciationRate i / 100)) investmentYears);
            sellingCosts = js_mul propertyValueEnd (Fin (in_sellingCostRate i / 100));
            netSaleProceeds' = js_sub (js_sub propertyValueEnd sellingCosts) (Fin remainingDebt);
            totalProfit' = js_sub (js_add (Fin cumulativeCF') netSaleProceeds') (Fin equity');
            totalROE' =
              (if 0 < equity' then js_mul (js_div totalProfit' (Fin equity')) (Fin 100) else Fin 0);
            equityMultiple' =
              (if 0 < equity' then js_div (js_add (Fin equity') totalProfit') (Fin equity')
               else Fin 0);
            annualizedROE' =
              (if 0 < equity' \<and> 0 < investmentYears
               then js_mul
                      (js_sub (js_pow (js_div (js_add (Fin equity') totalProfit') (Fin equity'))
                                 (1 / investmentYears))
                         (Fin 1))
                      (Fin 100)
               else Fin 0)
        in \<lparr>yearLabels = labels,
            annualCashflows = cfs,
            cumulativeCashflows = cumCfs,
            roeOverTime = roes,
            year1CostBreakdown = breakdown,
            rs_cumulativeCF = cumulativeCF',
            netSaleProceeds = netSaleProceeds',
            totalProfit = totalProfit',
            totalROE = totalROE',
            annualizedROE = annualizedROE',
            equityMultiple = equityMultiple',
            remainingDebtEnd = remainingDebt,
            purchasingCosts = rs_purchasingCosts i,
            loanAmount = rs_loanAmount i,
            totalInitialCost = rs_totalInitialCost i\<rparr>)"

section \<open>The recurrence of an amortising balance\<close>

text \<open>
  The balance after \<open>k\<close> periods, each of which adds the interest at rate \<open>r\<close> and the
  (negative) payment: \<open>balance\<^sub>k = balance\<^sub>k\<^sub>-\<^sub>1 \<sqdot> (1 + r) + payment\<close>. This is the
  recurrence the annuity is specified against, not a function of the program.
\<close>

fun amortize :: "real \<Rightarrow> real \<Rightarrow> nat \<Rightarrow> real \<Rightarrow> real" where
  "amortize r pay 0 b = b"
| "amortize r pay (Suc k) b = amortize r pay k (b * (1 + r) + pay)"

text \<open>
  The balance after \<open>k\<close> years of a schedule in two phases: \<open>F\<close> years at rate \<open>r1\<close>
  with payment \<open>a1\<close>, then the rate \<open>r2\<close> with payment \<open>a2\<close> on what the first phase
  left of the amount \<open>A\<close>.
\<close>

definition twoPhase :: "real \<Rightarrow> real \<Rightarrow> real \<Rightarrow> real \<Rightarrow> int \<Rightarrow> real \<Rightarrow> int \<Rightarrow> real" where
  "twoPhase r1 a1 r2 a2 F A k =
     (if k \<le> F then amortize r1 a1 (nat k) A
      else amortize r2 a2 (nat (k - F)) (amortize r1 a1 (nat F) A))"

text \<open>
  The same for the loan of a parameter sheet, with the payments \<open>a1\<close> and \<open>a2\<close> of its
  two phases, and the rate and the payment that apply in year \<open>k\<close>.
\<close>

definition balanceAfter :: "params \<Rightarrow> real \<Rightarrow> real \<Rightarrow> int \<Rightarrow> real" where
  "balanceAfter p a1 a2 k =
     twoPhase (rate1 p) a1 (rate2 p) a2 \<lfloor>firstPhaseYears p\<rfloor> (auszahlung p) k"

definition rateOfYear :: "params \<Rightarrow> int \<Rightarrow> real" where
  "rateOfYear p k = (if of_int k \<le> firstPhaseYears p then rate1 p else rate2 p)"

definition paymentOfYear :: "params \<Rightarrow> real \<Rightarrow> real \<Rightarrow> int \<Rightarrow> real" where
  "paymentOfYear p a1 a2 k = (if of_int k \<le> firstPhaseYears p then a1 else a2)"

text \<open>
  The last phase of a loan over whole years: the second phase when there is one, else
  the first. Its number of years, and the balance it starts from, given the balance
  \<open>bal k\<close> after the payment of each year \<open>k\<close>: the balance the first phase left, or
  the amount paid out.
\<close>

definition lastPhaseYears :: "params \<Rightarrow> int" where
  "lastPhaseYears p =
     (if firstPhaseYears p < loanTermYears p
      then \<lfloor>loanTermYears p\<rfloor> - \<lfloor>firstPhaseYears p\<rfloor>
      else \<lfloor>loanTermYears p\<rfloor>)"

definition lastPhaseStart :: "params \<Rightarrow> (int \<Rightarrow> real) \<Rightarrow> real" where
  "lastPhaseStart p bal =
     (if 1 \<le> firstPhaseYears p \<and> firstPhaseYears p < loanTermYears p
      then bal \<lfloor>firstPhaseYears p\<rfloor>
      else auszahlung p)"

text \<open>
  What the row of year \<open>y\<close> records, given the loan entry \<open>e\<close> of the year and the
  building and land values \<open>bv\<close> and \<open>lv\<close> at its start.
\<close>

definition yearRow :: "params \<Rightarrow> loanEntry \<Rightarrow> int \<Rightarrow> real \<Rightarrow> real \<Rightarrow> yearResult \<Rightarrow> bool" where
  "yearRow p e y bv lv yr \<longleftrightarrow>
     yearIndex yr = y
     \<and> restDebtStart yr = restStart e
     \<and> interestPaid yr = interest e
     \<and> principalPaid yr = principal e
     \<and> cumulativePrincipal yr = cumPrincipal e
     \<and> grossRent yr =
         js_mul (Fin (monthlyRent p * 12)) (js_pow (Fin (1 + rentGrowth p)) (of_int (y - 1)))
     \<and> netRent yr = js_mul (grossRent yr) (Fin (1 - vacancyRate p))
     \<and> maintenance yr =
         (if y = 1 then Fin (- (annualMaintenance p + initialRepairs p))
          else js_mul (Fin (- annualMaintenance p))
                 (js_pow (Fin (1 + maintenanceGrowth p)) (of_int y)))
     \<and> depreciation yr =
         js_mul (Fin (- afaBasis p))
           (afaRate (afaArt p) y
              (Some (case buildingLifetimeYears p of None \<Rightarrow> 50 | Some l \<Rightarrow> l)))
     \<and> taxable yr =
         (if y = 1
          then js_sub (js_add (js_add (js_add (netRent yr) (maintenance yr)) (interest e))
                         (depreciation yr))
                 (Fin (disagio p))
          else js_add (js_add (js_add (netRent yr) (maintenance yr)) (interest e))
                 (depreciation yr))
     \<and> taxCash yr = js_mul (Fin (- taxRate p)) (taxable yr)
     \<and> cashBeforeTax yr =
         js_add (js_add (js_add (netRent yr) (maintenance yr)) (interest e)) (principal e)
     \<and> cashAfterTax yr = js_add (cashBeforeTax yr) (taxCash yr)
     \<and> propertyValue yr =
         bv * (1 - buildingLossRate p + constructionCostGrowth p) + lv * (1 + landGrowthRate p)"

section \<open>Sample inputs\<close>

text \<open>A purchase financed over two years, one of them at the fixed rate.\<close>

definition sample :: params where
  "sample =
     \<lparr>startYear = 2024, buildingValue = 200000, landValue = 50000,
      grEStRate = 0, maklerRate = 0, grundbuchRate = 0, notaryRate = 0, companyCost = 0,
      fittingUp = 0, initialRepairs = 2000,
      buildingLossRate = 0, landGrowthRate = 2 / 100, constructionCostGrowth = 1 / 100,
      annualMaintenance = 1000, maintenanceGrowth = 2 / 100,
      monthlyRent = 1000, vacancyRate = 0, rentGrowth = 1 / 100,
      taxRate = 3 / 10,
      equity = 50000, loanTermYears = 2, fixRateYears = 1,
      discountRate = 0, interestRate1 = 3 / 100, interestRate2 = None,
      afaArt = Some ''Linear 2%'', buildingLifetimeYears = None\<rparr>"

text \<open>The same purchase with a loan term of two and a half years.\<close>

definition fractional :: params where
  "fractional = sample\<lparr>loanTermYears := 5 / 2\<rparr>"

text \<open>A loan of 100 over one year at a rate below the threshold of the annuity helper.\<close>

definition tiny :: params where
  "tiny =
     \<lparr>startYear = 0, buildingValue = 100, landValue = 0,
      grEStRate = 0, maklerRate = 0, grundbuchRate = 0, notaryRate = 0, companyCost = 0,
      fittingUp = 0, initialRepairs = 0,
      buildingLossRate = 0, landGrowthRate = 0, constructionCostGrowth = 0,
      annualMaintenance = 0, maintenanceGrowth = 0,
      monthlyRent = 0, vacancyRate = 0, rentGrowth = 0,
      taxRate = 0,
      equity = 0, loanTermYears = 1, fixRateYears = 1,
      discountRate = 0, interestRate1 = 1 / (2 * 10 ^ 9), interestRate2 = None,
      afaArt = None, buildingLifetimeYears = None\<rparr>"

text \<open>The same loan over two years at the rate \<open>-2\<close>.\<close>

definition minus2 :: params where
  "minus2 = tiny\<lparr>loanTermYears := 2, fixRateYears := 2, interestRate1 := - 2\<rparr>"

text \<open>The same loan over 4000 years at the rate \<open>9 \<sqdot> 10\<^sup>-\<^sup>1\<^sup>0\<close>.\<close>

definition longterm :: params where
  "longterm = tiny\<lparr>loanTermYears := 4000, fixRateYears := 4000, interestRate1 := 9 / 10 ^ 10\<rparr>"

text \<open>
  The same loan over two years, the first at the rate \<open>-2.0001\<close> and the second at the
  rate \<open>9 \<sqdot> 10\<^sup>-\<^sup>1\<^sup>0\<close>.
\<close>

definition steep :: params where
  "steep = tiny\<lparr>loanTermYears := 2, fixRateYears := 1, interestRate1 := - (20001 / 10000),
                 interestRate2 := Some (9 / 10 ^ 10)\<rparr>"

text \<open>A purchase from equity alone, with no rent: only the depreciation is taxable.\<close>

definition sample_inputs :: inputs where
  "sample_inputs =
     \<lparr>in_purchasePrice = 100000, in_purchaseCostRate = 0, in_appreciationRate = 0,
      in_sellingCostRate = 0, in_equity = 100000, in_interestRate = 0,
      in_loanTermYears = 1, in_investmentYears = 1, in_monthlyRent = 0, in_vacancyRate = 0,
      in_maintenanceRate = 0, in_otherCostsAnnual = 0, in_taxRate = 30,
      in_depreciationRate = 3\<rparr>"

section \<open>Basic facts\<close>

lemma or0_id [simp]: "or0 x = x"
  by (simp add: or0_def)

lemma js_sub_Fin [simp]: "js_sub (Fin a) (Fin b) = Fin (a - b)"
  by (simp add: js_sub_def)

lemma str_includes_single: "str_includes s [c] \<longleftrightarrow> c \<in> set s"
  by (induction s) auto

lemma js_pow_nonneg: "0 \<le> n \<Longrightarrow> js_pow (Fin b) (of_int n) = Fin (b ^ nat n)"
proof -
  assume n: "0 \<le> n"
  show ?thesis
  proof (cases "n = 0")
    case True
    then show ?thesis by simp
  next
    case False
    with n have pos: "0 < n" by simp
    have fl: "\<lfloor>(of_int n :: real)\<rfloor> = n" by simp
    have p1: "0 < b \<Longrightarrow> b powr of_int n = b ^ nat n"
      using pos by (simp add: powr_real_of_int)
    have p2: "b powi n = b ^ nat n"
      using n by (simp add: power_int_def)
    have z: "b = 0 \<Longrightarrow> b ^ nat n = 0"
      using pos by simp
    show ?thesis using pos p1 p2 z by (auto simp: fl)
  qed
qed

lemma js_pow_int: "b \<noteq> 0 \<Longrightarrow> js_pow (Fin b) (of_int n) = Fin (b powi n)"
proof -
  assume b: "b \<noteq> 0"
  have "0 < b \<Longrightarrow> b powr of_int n = b powi n"
    by (simp add: powr_real_of_int power_int_def power_inverse)
  then show ?thesis using b by auto
qed

section \<open>The depreciation table\<close>

text \<open>
  C5, as amended. The resolver follows the table of schemes for the identifiers the
  program compares against, in exactly their spelling: \<open>Degressiv 5% + Linear 3%\<close> and
  \<open>Degressiv 5% + Linear 2%\<close> give 0.05 up to year 6 and then 0.03 or 0.02;
  \<open>Linear 3 % p.a.\<close> and \<open>Linear 3%\<close> give 0.03 up to year 33 and 0 afterwards;
  \<open>Linear 2 % p.a.\<close> and \<open>Linear 2%\<close> give 0.02 up to year 50 and 0 afterwards;
  \<open>Linear x%\<close>, the scheme by remaining lifetime, gives \<open>1 / l\<close> for a 1-based year up
  to the lifetime \<open>l\<close> and 0 afterwards, which is 0.02 in the years 1 to 50 of a
  lifetime of 50, also when the lifetime is left to its default. Every other text,
  a scheme name in another spelling included, is an unrecognised identifier: it gives
  0.03 if it contains the character 3, else 0.02 (whether or not it contains the
  character 2).
\<close>

theorem afaRate_table:
  "afaRate (Some ''Degressiv 5% + Linear 3%'') y L = (if y \<le> 6 then Fin 0.05 else Fin 0.03)
   \<and> afaRate (Some ''Degressiv 5% + Linear 2%'') y L = (if y \<le> 6 then Fin 0.05 else Fin 0.02)
   \<and> afaRate (Some ''Linear 3 % p.a.'') y L = (if y \<le> 33 then Fin 0.03 else Fin 0)
   \<and> afaRate (Some ''Linear 3%'') y L = (if y \<le> 33 then Fin 0.03 else Fin 0)
   \<and> afaRate (Some ''Linear 2 % p.a.'') y L = (if y \<le> 50 then Fin 0.02 else Fin 0)
   \<and> afaRate (Some ''Linear 2%'') y L = (if y \<le> 50 then Fin 0.02 else Fin 0)
   \<and> (1 \<le> y \<longrightarrow> afaRate (Some ''Linear x%'') y (Some l) =
         (if of_int y \<le> l then Fin (1 / l) else Fin 0))
   \<and> (1 \<le> y \<and> y \<le> 50 \<longrightarrow> afaRate (Some ''Linear x%'') y (Some 50) = Fin 0.02
         \<and> afaRate (Some ''Linear x%'') y None = Fin 0.02)
   \<and> (s \<notin> {''Degressiv 5% + Linear 3%'', ''Degressiv 5% + Linear 2%'', ''Linear 3 % p.a.'',
             ''Linear 3%'', ''Linear 2 % p.a.'', ''Linear 2%'', ''Linear x%''} \<longrightarrow>
        afaRate (Some s) y L =
          (if CHR ''3'' \<in> set s then Fin 0.03 else if CHR ''2'' \<in> set s then Fin 0.02 else Fin 0.02))"
  by (auto simp: afaRate_def str_includes_single)

theorem afaRate_table_witness:
  "afaRate (Some ''Linear 2%'') 7 None = Fin 0.02
   \<and> afaRate (Some ''Degressiv 5% + Linear 3%'') 7 None = Fin 0.03
   \<and> (1::int) \<le> 7 \<and> afaRate (Some ''Linear x%'') 7 (Some 40) = Fin (1 / 40)
   \<and> (7::int) \<le> 50 \<and> afaRate (Some ''Linear x%'') 7 None = Fin 0.02
   \<and> ''AfA 3 Prozent'' \<notin> {''Degressiv 5% + Linear 3%'', ''Degressiv 5% + Linear 2%'',
         ''Linear 3 % p.a.'', ''Linear 3%'', ''Linear 2 % p.a.'', ''Linear 2%'', ''Linear x%''}
   \<and> afaRate (Some ''AfA 3 Prozent'') 7 None = Fin 0.03"
  using afaRate_table [where y = 7 and L = None and l = 40 and s = "''AfA 3 Prozent''"]
  by simp

text \<open>
  The identifiers are compared as the program writes them, capital letter included.
  Under the scheme names \<open>linear 2%\<close>, \<open>linear 3%\<close>, \<open>declining 5%+linear 3%\<close> and
  \<open>linear by remaining lifetime\<close> the resolver takes the fallback: the rate of linear 2%
  is 0.02 in year 51 and not 0, that of linear 3% is 0.03 in year 34 and not 0, that of
  the declining scheme is 0.03 in year 1 and not 0.05, and that of the remaining
  lifetime of 40 years is 0.02 in year 1 and not \<open>1 / 40\<close>.
\<close>

theorem afaRate_counterexample:
  "afaRate (Some ''linear 2%'') 51 None = Fin 0.02
   \<and> afaRate (Some ''linear 2%'') 51 None \<noteq> Fin 0
   \<and> afaRate (Some ''linear 3%'') 34 None = Fin 0.03
   \<and> afaRate (Some ''linear 3%'') 34 None \<noteq> Fin 0
   \<and> afaRate (Some ''declining 5%+linear 3%'') 1 None = Fin 0.03
   \<and> afaRate (Some ''declining 5%+linear 3%'') 1 None \<noteq> Fin 0.05
   \<and> afaRate (Some ''linear by remaining lifetime'') 1 (Some 40) = Fin 0.02
   \<and> afaRate (Some ''linear by remaining lifetime'') 1 (Some 40) \<noteq> Fin (1 / 40)"
  by (simp add: afaRate_def)

section \<open>The annuity\<close>

lemma amortize_zero_rate: "amortize 0 pay k b = b + of_nat k * pay"
  by (induction k arbitrary: b) (simp_all add: algebra_simps)

lemma amortize_closed:
  "r \<noteq> 0 \<Longrightarrow> amortize r pay k b = b * (1 + r) ^ k + pay * (((1 + r) ^ k - 1) / r)"
  by (induction k arbitrary: b) (simp_all add: field_simps)

lemma pmt_small:
  assumes "\<bar>r\<bar> < 1 / 10 ^ 9" "m \<noteq> 0"
  shows "pmt r m (Fin pv) = Fin (- (pv / m))"
  using assms by (simp add: pmt_def)

lemma powi_neg_eq_one:
  fixes q :: real
  assumes "q \<noteq> 0" "0 < n"
  shows "q powi (- n) = 1 \<longleftrightarrow> q ^ nat n = 1"
proof -
  have "q powi (- n) = inverse (q ^ nat n)"
    using assms by (simp add: power_int_def power_inverse)
  then show ?thesis by (simp add: inverse_eq_1_iff)
qed

lemma pmt_regular:
  assumes r: "1 / 10 ^ 9 \<le> \<bar>r\<bar>" and q: "1 + r \<noteq> 0" and n: "0 < n" and ne: "(1 + r) ^ nat n \<noteq> 1"
  shows "pmt r (of_int n) (Fin pv) = Fin (- (pv * r) / (1 - (1 + r) powi (- n)))"
proof -
  have p: "js_pow (Fin (1 + r)) (- of_int n) = Fin ((1 + r) powi (- n))"
    using js_pow_int[OF q, of "- n"] by simp
  have d: "1 - (1 + r) powi (- n) \<noteq> 0"
    using powi_neg_eq_one[OF q n] ne by simp
  have "\<not> \<bar>r\<bar> < 1 / 10 ^ 9" using r by simp
  then show ?thesis
    unfolding pmt_def using d by (simp only: p if_False js_mul.simps js_neg.simps js_sub_Fin js_div.simps)
qed


lemma pow_ne_one:
  fixes q :: real
  assumes "0 < q" "q \<noteq> 1" "0 < k"
  shows "q ^ k \<noteq> 1"
proof (cases "q < 1")
  case True
  then have "q ^ k < 1" using assms by (simp add: power_Suc_less_one power_less_one_iff)
  then show ?thesis by simp
next
  case False
  then have "1 < q" using assms by simp
  then have "1 < q ^ k" using assms by (simp add: one_less_power)
  then show ?thesis by simp
qed

lemma pmt_negative:
  assumes r: "- 1 < r" and n: "0 < n" and pv: "0 < pv"
  shows "\<exists>pay. pmt r (of_int n) (Fin pv) = Fin pay \<and> pay < 0"
proof (cases "\<bar>r\<bar> < 1 / 10 ^ 9")
  case True
  then have "pmt r (of_int n) (Fin pv) = Fin (- (pv / of_int n))"
    using n by (simp add: pmt_small)
  moreover have "- (pv / of_int n) < 0" using n pv by simp
  ultimately show ?thesis by blast
next
  case False
  then have big: "1 / 10 ^ 9 \<le> \<bar>r\<bar>" by simp
  then have r0: "r \<noteq> 0" by auto
  have q: "0 < 1 + r" using r by simp
  have k: "0 < nat n" using n by simp
  have ne: "(1 + r) ^ nat n \<noteq> 1"
    using pow_ne_one[OF q _ k] r0 by simp
  have eq: "pmt r (of_int n) (Fin pv) = Fin (- (pv * r) / (1 - (1 + r) powi (- n)))"
    using pmt_regular[OF big _ n ne] q by simp
  have inv: "(1 + r) powi (- n) = inverse ((1 + r) ^ nat n)"
    using n by (simp add: power_int_def power_inverse)
  have "- (pv * r) / (1 - (1 + r) powi (- n)) < 0"
  proof (cases "0 < r")
    case True
    then have "1 < (1 + r) ^ nat n" using k by (simp add: one_less_power)
    then have "inverse ((1 + r) ^ nat n) < 1" by (simp add: inverse_less_1_iff)
    then have "0 < 1 - (1 + r) powi (- n)" using inv by simp
    moreover have "- (pv * r) < 0" using True pv by simp
    ultimately show ?thesis by (simp only: divide_neg_pos)
  next
    case False
    then have neg: "r < 0" using r0 by simp
    then have "(1 + r) ^ nat n < 1" using q k by (simp add: power_less_one_iff)
    moreover have "0 < (1 + r) ^ nat n" using q by simp
    ultimately have "1 < inverse ((1 + r) ^ nat n)" by (simp add: one_less_inverse_iff)
    then have "1 - (1 + r) powi (- n) < 0" using inv by simp
    moreover have "0 < - (pv * r)" using neg pv by (simp add: mult_pos_neg)
    ultimately show ?thesis by (simp only: divide_pos_neg)
  qed
  with eq show ?thesis by blast
qed

lemma amortize_annuity:
  fixes r :: real
  assumes r0: "r \<noteq> 0" and q: "1 + r \<noteq> 0" and n: "0 < n" and ne: "(1 + r) ^ nat n \<noteq> 1"
  shows "amortize r (- (pv * r) / (1 - (1 + r) powi (- n))) (nat n) pv = 0"
proof -
  define Q where "Q = (1 + r) ^ nat n"
  have Q0: "Q \<noteq> 0" using q by (simp add: Q_def)
  have Q1: "Q - 1 \<noteq> 0" using ne by (simp add: Q_def)
  have "(1 + r) powi (- n) = inverse ((1 + r) ^ nat n)"
    using n by (simp add: power_int_def power_inverse)
  then have inv: "(1 + r) powi (- n) = 1 / Q"
    by (simp only: Q_def inverse_eq_divide)
  have den: "1 - 1 / Q = (Q - 1) / Q" using Q0 by (simp add: field_simps)
  have "amortize r (- (pv * r) / (1 - (1 + r) powi (- n))) (nat n) pv
        = pv * Q + (- (pv * r) / (1 - (1 + r) powi (- n))) * ((Q - 1) / r)"
    unfolding Q_def using r0 by (rule amortize_closed)
  also have "\<dots> = pv * Q + (- (pv * r) / ((Q - 1) / Q)) * ((Q - 1) / r)"
    by (simp only: inv den)
  also have "\<dots> = 0" using r0 Q0 Q1 by (simp add: field_simps)
  finally show ?thesis .
qed

lemma amortize_linear:
  assumes n: "0 < n"
  shows "amortize 0 (- (pv / of_int n)) (nat n) pv = 0"
  using n by (simp add: amortize_zero_rate)


text \<open>
  C2, as amended. For \<open>n > 0\<close> periods: below the threshold \<open>10\<^sup>-\<^sup>9\<close> the payment is
  \<open>-(pv / n)\<close>; from the threshold on it is the annuity formula, wherever that formula
  divides by no zero; the payment is negative for a positive principal when the rate is
  above \<open>-1\<close>; and the recurrence of the balance reaches exactly zero after \<open>n\<close>
  periods when the rate is zero or the annuity formula applies. Between zero and the
  threshold the linear payment is used at a nonzero rate and leaves a balance.
\<close>

theorem pmt_amortizes:
  assumes n: "0 < n"
  shows "(\<bar>r\<bar> < 1 / 10 ^ 9 \<longrightarrow> pmt r (of_int n) (Fin pv) = Fin (- (pv / of_int n)))
    \<and> (1 / 10 ^ 9 \<le> \<bar>r\<bar> \<and> 1 + r \<noteq> 0 \<and> (1 + r) ^ nat n \<noteq> 1 \<longrightarrow>
         pmt r (of_int n) (Fin pv) = Fin (- (pv * r) / (1 - (1 + r) powi (- n))))
    \<and> (- 1 < r \<and> 0 < pv \<longrightarrow> (\<exists>pay. pmt r (of_int n) (Fin pv) = Fin pay \<and> pay < 0))
    \<and> (r = 0 \<or> 1 / 10 ^ 9 \<le> \<bar>r\<bar> \<and> 1 + r \<noteq> 0 \<and> (1 + r) ^ nat n \<noteq> 1 \<longrightarrow>
         (\<exists>pay. pmt r (of_int n) (Fin pv) = Fin pay \<and> amortize r pay (nat n) pv = 0))"
proof (intro conjI impI)
  assume "\<bar>r\<bar> < 1 / 10 ^ 9"
  then show "pmt r (of_int n) (Fin pv) = Fin (- (pv / of_int n))"
    using n by (simp add: pmt_small)
next
  assume "1 / 10 ^ 9 \<le> \<bar>r\<bar> \<and> 1 + r \<noteq> 0 \<and> (1 + r) ^ nat n \<noteq> 1"
  then show "pmt r (of_int n) (Fin pv) = Fin (- (pv * r) / (1 - (1 + r) powi (- n)))"
    using n by (simp add: pmt_regular)
next
  assume "- 1 < r \<and> 0 < pv"
  then show "\<exists>pay. pmt r (of_int n) (Fin pv) = Fin pay \<and> pay < 0"
    using n by (simp add: pmt_negative)
next
  assume h: "r = 0 \<or> 1 / 10 ^ 9 \<le> \<bar>r\<bar> \<and> 1 + r \<noteq> 0 \<and> (1 + r) ^ nat n \<noteq> 1"
  show "\<exists>pay. pmt r (of_int n) (Fin pv) = Fin pay \<and> amortize r pay (nat n) pv = 0"
  proof (cases "r = 0")
    case True
    then have "pmt r (of_int n) (Fin pv) = Fin (- (pv / of_int n))"
      using n by (simp add: pmt_small)
    moreover have "amortize r (- (pv / of_int n)) (nat n) pv = 0"
      using True amortize_linear[OF n] by simp
    ultimately show ?thesis by blast
  next
    case False
    with h have big: "1 / 10 ^ 9 \<le> \<bar>r\<bar>" and q: "1 + r \<noteq> 0" and ne: "(1 + r) ^ nat n \<noteq> 1"
      by simp_all
    have "pmt r (of_int n) (Fin pv) = Fin (- (pv * r) / (1 - (1 + r) powi (- n)))"
      using pmt_regular[OF big q n ne] .
    moreover have "amortize r (- (pv * r) / (1 - (1 + r) powi (- n))) (nat n) pv = 0"
      using amortize_annuity[OF False q n ne] .
    ultimately show ?thesis by blast
  qed
qed

theorem pmt_amortizes_witness:
  "(0::int) < 2 \<and> 1 / 10 ^ 9 \<le> \<bar>3 / 100 :: real\<bar> \<and> (1 + 3 / 100 :: real) \<noteq> 0
   \<and> (1 + 3 / 100 :: real) ^ nat 2 \<noteq> 1 \<and> (- 1 :: real) < 3 / 100 \<and> (0::real) < 100
   \<and> pmt (3 / 100) 2 (Fin 100) = Fin (- (100 * (3 / 100)) / (1 - (1 + 3 / 100) powi (- 2)))
   \<and> (\<exists>pay. pmt (3 / 100) 2 (Fin 100) = Fin pay \<and> pay < 0)
   \<and> (\<exists>pay. pmt (3 / 100) 2 (Fin 100) = Fin pay \<and> amortize (3 / 100) pay (nat 2) 100 = 0)"
proof -
  have n: "(0::int) < 2" by simp
  have p: "(1 + 3 / 100 :: real) ^ nat 2 \<noteq> 1" by (simp add: power2_eq_square)
  have e: "(of_int 2 :: real) = 2" by simp
  note t = pmt_amortizes [OF n, of "3 / 100" 100, unfolded e]
  have h2: "1 / 10 ^ 9 \<le> \<bar>3 / 100 :: real\<bar> \<and> (1 + 3 / 100 :: real) \<noteq> 0
            \<and> (1 + 3 / 100 :: real) ^ nat 2 \<noteq> 1"
    using p by simp
  have h3: "(- 1 :: real) < 3 / 100 \<and> (0::real) < 100"
    by simp
  have a: "pmt (3 / 100) 2 (Fin 100) = Fin (- (100 * (3 / 100)) / (1 - (1 + 3 / 100) powi (- 2)))"
    using t h2 by blast
  have b: "\<exists>pay. pmt (3 / 100) 2 (Fin 100) = Fin pay \<and> pay < 0"
    using t h3 by blast
  have c: "\<exists>pay. pmt (3 / 100) 2 (Fin 100) = Fin pay \<and> amortize (3 / 100) pay (nat 2) 100 = 0"
    using t h2 by blast
  show ?thesis by (intro conjI a b c) (simp_all add: power2_eq_square)
qed

text \<open>
  At the rate \<open>10\<^sup>-\<^sup>1\<^sup>0\<close> the payment for one period on a principal of 1 is \<open>-1\<close>, and
  the balance after the period is the interest, not zero. At the rate \<open>-3\<close> the payment
  on a positive principal is positive.
\<close>

theorem pmt_counterexample:
  "pmt (1 / 10 ^ 10) 1 (Fin 1) = Fin (- 1)
   \<and> amortize (1 / 10 ^ 10) (- 1) 1 1 = 1 / 10 ^ 10
   \<and> amortize (1 / 10 ^ 10) (- 1) 1 1 \<noteq> 0
   \<and> pmt (- 3) 1 (Fin 1) = Fin 2 \<and> \<not> (2 :: real) < 0"
  by (simp add: pmt_def floor_minus power_int_minus)

section \<open>The loops of the loan schedule\<close>

declare amortLoop.simps [simp del] extendLoop.simps [simp del] projectLoop.simps [simp del]
  runLoop.simps [simp del]

lemma amortStep_sched:
  "snd (snd (amortStep r ann y st)) k = (if k = y then snd (snd (amortStep r ann y st)) y else snd (snd st) k)"
  by (cases st) (simp add: amortStep_def Let_def)

lemma amortStep_written:
  "amortStep r ann y st = (rem', cum', s') \<Longrightarrow>
     \<exists>e. s' y = Some e \<and> cumPrincipal e = cum' \<and> js_add (restStart e) (principal e) = rem'
        \<and> restStart e = fst st \<and> annuity e = ann"
  by (cases st) (auto simp: amortStep_def Let_def)

text \<open>The loop writes the keys \<open>off + j\<close> of the whole numbers \<open>j\<close> from \<open>n\<close> to \<open>cnt\<close> only.\<close>

lemma amortLoop_outside:
  "\<forall>j. n \<le> j \<and> of_int j \<le> cnt \<longrightarrow> k \<noteq> off + of_int j \<Longrightarrow>
     snd (snd (amortLoop r ann off cnt n st)) k = snd (snd st) k"
proof (induction r ann off cnt n st rule: amortLoop.induct)
  case (1 r ann off cnt n st)
  show ?case
  proof (cases "of_int n \<le> cnt")
    case True
    have later: "\<forall>j. n + 1 \<le> j \<and> of_int j \<le> cnt \<longrightarrow> k \<noteq> off + of_int j"
      using "1.prems" by auto
    have now: "k \<noteq> off + of_int n"
      using "1.prems" True by blast
    have "snd (snd (amortLoop r ann off cnt n st)) k
          = snd (snd (amortLoop r ann off cnt (n + 1) (amortStep r ann (off + of_int n) st))) k"
      using True by (subst amortLoop.simps) simp
    also have "\<dots> = snd (snd (amortStep r ann (off + of_int n) st)) k"
      using "1.IH"[OF True later] .
    also have "\<dots> = snd (snd st) k"
      using now by (subst amortStep_sched) simp
    finally show ?thesis .
  next
    case False
    then show ?thesis by (subst amortLoop.simps) simp
  qed
qed

lemma amortLoop_last:
  "of_int n \<le> cnt \<Longrightarrow> amortLoop r ann off cnt n st = (rem', cum', s') \<Longrightarrow>
     \<exists>e. s' (off + of_int \<lfloor>cnt\<rfloor>) = Some e \<and> cumPrincipal e = cum'
        \<and> js_add (restStart e) (principal e) = rem'"
proof (induction r ann off cnt n st rule: amortLoop.induct)
  case (1 r ann off cnt n st)
  have unf: "amortLoop r ann off cnt n st
             = amortLoop r ann off cnt (n + 1) (amortStep r ann (off + of_int n) st)"
    using "1.prems"(1) by (subst amortLoop.simps) simp
  show ?case
  proof (cases "of_int (n + 1) \<le> cnt")
    case True
    show ?thesis using "1.IH"[OF "1.prems"(1) True] "1.prems"(2) unf by simp
  next
    case False
    then have "cnt < of_int n + 1" by simp
    then have n: "\<lfloor>cnt\<rfloor> = n" using "1.prems"(1) by (simp add: floor_unique)
    have "amortLoop r ann off cnt (n + 1) (amortStep r ann (off + of_int n) st)
          = amortStep r ann (off + of_int n) st"
      using False by (subst amortLoop.simps) simp
    then have "amortStep r ann (off + of_int \<lfloor>cnt\<rfloor>) st = (rem', cum', s')"
      using unf "1.prems"(2) n by simp
    then show ?thesis using amortStep_written by blast
  qed
qed

lemma amortLoop_defined:
  "(\<exists>j. n \<le> j \<and> of_int j \<le> cnt \<and> k = off + of_int j) \<or> snd (snd st) k \<noteq> None \<Longrightarrow>
     snd (snd (amortLoop r ann off cnt n st)) k \<noteq> None"
proof (induction r ann off cnt n st rule: amortLoop.induct)
  case (1 r ann off cnt n st)
  show ?case
  proof (cases "of_int n \<le> cnt")
    case True
    have unf: "amortLoop r ann off cnt n st
               = amortLoop r ann off cnt (n + 1) (amortStep r ann (off + of_int n) st)"
      using True by (subst amortLoop.simps) simp
    have w: "snd (snd (amortStep r ann (off + of_int n) st)) (off + of_int n) \<noteq> None"
      by (cases st) (simp add: amortStep_def Let_def)
    have "(\<exists>j. n + 1 \<le> j \<and> of_int j \<le> cnt \<and> k = off + of_int j)
          \<or> snd (snd (amortStep r ann (off + of_int n) st)) k \<noteq> None"
    proof (cases "k = off + of_int n")
      case True
      then show ?thesis using w by simp
    next
      case False
      have "(\<exists>j. n + 1 \<le> j \<and> of_int j \<le> cnt \<and> k = off + of_int j) \<or> snd (snd st) k \<noteq> None"
      proof (cases "snd (snd st) k \<noteq> None")
        case True
        then show ?thesis by simp
      next
        case nd: False
        with "1.prems" obtain j where j: "n \<le> j" "of_int j \<le> cnt" "k = off + of_int j"
          by blast
        have "j \<noteq> n" using j(3) False by auto
        then have "n + 1 \<le> j" using j(1) by simp
        then show ?thesis using j by blast
      qed
      then show ?thesis using False by (subst amortStep_sched) simp
    qed
    then show ?thesis using "1.IH"[OF True] unf by simp
  next
    case False
    then show ?thesis using "1.prems" by (subst amortLoop.simps) auto
  qed
qed

text \<open>
  The rows after the loan term are written under \<open>y\<close>, \<open>y + 1\<close>, \<open>y + 2\<close> and so on up
  to the horizon: no key below \<open>y\<close>, and among the whole years those from \<open>y\<close> on when
  \<open>y\<close> is a whole number.
\<close>

lemma extendLoop_below:
  "k < y \<Longrightarrow> extendLoop h c y s k = s k"
proof (induction h c y s rule: extendLoop.induct)
  case (1 h c y s)
  show ?case
  proof (cases "y \<le> h")
    case True
    have "extendLoop h c y s k = extendLoop h c (y + 1) (s(y \<mapsto> zeroEntry c)) k"
      using True by (subst extendLoop.simps) simp
    also have "\<dots> = (s(y \<mapsto> zeroEntry c)) k"
    proof -
      have "k < y + 1" using "1.prems" by simp
      then show ?thesis by (rule "1.IH"[OF True])
    qed
    also have "\<dots> = s k" using "1.prems" by simp
    finally show ?thesis .
  next
    case False
    then show ?thesis by (subst extendLoop.simps) simp
  qed
qed

lemma extendLoop_past:
  "h < y \<Longrightarrow> extendLoop h c y s = s"
  by (subst extendLoop.simps) simp

lemma extendLoop_apply:
  "extendLoop h c (of_int y) s (of_int k) =
     (if y \<le> k \<and> of_int k \<le> h then Some (zeroEntry c) else s (of_int k))"
proof (induction h c "of_int y :: real" s arbitrary: y rule: extendLoop.induct)
  case (1 h c s)
  show ?case
  proof (cases "(of_int y :: real) \<le> h")
    case True
    have y1: "(of_int y :: real) + 1 = of_int (y + 1)" by simp
    have "extendLoop h c (of_int y) s (of_int k)
          = extendLoop h c (of_int (y + 1)) (s(of_int y \<mapsto> zeroEntry c)) (of_int k)"
      using True by (subst extendLoop.simps) simp
    also have "\<dots> = (if y + 1 \<le> k \<and> of_int k \<le> h then Some (zeroEntry c)
                      else (s(of_int y \<mapsto> zeroEntry c)) (of_int k))"
      using "1.hyps"[OF True y1] .
    also have "\<dots> = (if y \<le> k \<and> of_int k \<le> h then Some (zeroEntry c) else s (of_int k))"
      using True by auto
    finally show ?thesis .
  next
    case False
    have n: "\<not> (y \<le> k \<and> of_int k \<le> h)"
    proof
      assume a: "y \<le> k \<and> of_int k \<le> h"
      then have "(of_int y :: real) \<le> of_int k" by simp
      with a False show False by simp
    qed
    have e: "extendLoop h c (of_int y) s = s"
      using False by (intro extendLoop_past) simp
    show ?thesis unfolding e by (simp only: n if_False)
  qed
qed

lemma amortStep_Fin:
  "amortStep r (Fin a) y (Fin b, Fin c, s) =
     (Fin (b * (1 + r) + a), Fin (c + b - (b * (1 + r) + a)),
      s(y \<mapsto> \<lparr>restStart = Fin b, interest = Fin (- (b * r)), annuity = Fin a,
                principal = Fin (a + b * r), cumPrincipal = Fin (c + b - (b * (1 + r) + a))\<rparr>))"
proof -
  show ?thesis
    by (simp add: amortStep_def Let_def algebra_simps)
qed

text \<open>
  With a finite payment the loop computes the recurrence of the balance: it runs over
  the whole numbers from \<open>n\<close> to the whole part of \<open>cnt\<close>.
\<close>

lemma amortLoop_Fin:
  "amortLoop r (Fin a) off cnt n (Fin b, Fin c, s) = (rem', cum', s') \<Longrightarrow>
     rem' = Fin (amortize r a (nat (\<lfloor>cnt\<rfloor> + 1 - n)) b)
     \<and> cum' = Fin (c + b - amortize r a (nat (\<lfloor>cnt\<rfloor> + 1 - n)) b)
     \<and> (\<forall>j. n \<le> j \<and> j \<le> \<lfloor>cnt\<rfloor> \<longrightarrow>
          s' (off + of_int j) =
            Some \<lparr>restStart = Fin (amortize r a (nat (j - n)) b),
                  interest = Fin (- (amortize r a (nat (j - n)) b * r)),
                  annuity = Fin a,
                  principal = Fin (a + amortize r a (nat (j - n)) b * r),
                  cumPrincipal = Fin (c + b - amortize r a (nat (j + 1 - n)) b)\<rparr>)"
proof (induction r "Fin a" off cnt n "(Fin b, Fin c, s)" arbitrary: b c s rule: amortLoop.induct)
  case (1 r off cnt n)
  let ?b = "b * (1 + r) + a"
  let ?c = "c + b - ?b"
  let ?e = "\<lparr>restStart = Fin b, interest = Fin (- (b * r)), annuity = Fin a,
             principal = Fin (a + b * r), cumPrincipal = Fin ?c\<rparr>"
  let ?y = "off + of_int n"
  show ?case
  proof (cases "of_int n \<le> cnt")
    case False
    then have nf: "\<not> n \<le> \<lfloor>cnt\<rfloor>" by (simp add: le_floor_iff)
    have "amortLoop r (Fin a) off cnt n (Fin b, Fin c, s) = (Fin b, Fin c, s)"
      using False by (subst amortLoop.simps) simp
    with "1.prems" nf show ?thesis by auto
  next
    case True
    then have nf: "n \<le> \<lfloor>cnt\<rfloor>" by (simp add: le_floor_iff)
    have st: "amortStep r (Fin a) ?y (Fin b, Fin c, s) = (Fin ?b, Fin ?c, s(?y \<mapsto> ?e))"
      by (rule amortStep_Fin)
    have unf: "amortLoop r (Fin a) off cnt (n + 1) (Fin ?b, Fin ?c, s(?y \<mapsto> ?e)) = (rem', cum', s')"
      using "1.prems" True st by (subst (asm) amortLoop.simps) simp
    note ih = "1.hyps"[OF True st unf]
    have k: "nat (\<lfloor>cnt\<rfloor> + 1 - n) = Suc (nat (\<lfloor>cnt\<rfloor> + 1 - (n + 1)))" using nf by simp
    have am: "amortize r a (nat (\<lfloor>cnt\<rfloor> + 1 - n)) b = amortize r a (nat (\<lfloor>cnt\<rfloor> + 1 - (n + 1))) ?b"
      by (simp only: k amortize.simps)
    have r1: "rem' = Fin (amortize r a (nat (\<lfloor>cnt\<rfloor> + 1 - n)) b)"
      using ih am by simp
    have r2: "cum' = Fin (c + b - amortize r a (nat (\<lfloor>cnt\<rfloor> + 1 - n)) b)"
      using ih am by simp
    have r3: "s' (off + of_int j) =
            Some \<lparr>restStart = Fin (amortize r a (nat (j - n)) b),
                  interest = Fin (- (amortize r a (nat (j - n)) b * r)),
                  annuity = Fin a,
                  principal = Fin (a + amortize r a (nat (j - n)) b * r),
                  cumPrincipal = Fin (c + b - amortize r a (nat (j + 1 - n)) b)\<rparr>"
      if j: "n \<le> j \<and> j \<le> \<lfloor>cnt\<rfloor>" for j
    proof (cases "j = n")
      case True
      have "\<forall>i. n + 1 \<le> i \<and> of_int i \<le> cnt \<longrightarrow> ?y \<noteq> off + of_int i"
        by auto
      then have "snd (snd (amortLoop r (Fin a) off cnt (n + 1) (Fin ?b, Fin ?c, s(?y \<mapsto> ?e)))) ?y
                 = snd (snd (Fin ?b, Fin ?c, s(?y \<mapsto> ?e))) ?y"
        by (rule amortLoop_outside)
      then have "s' ?y = (s(?y \<mapsto> ?e)) ?y"
        using unf by simp
      then show ?thesis using True by simp
    next
      case False
      then have j': "n + 1 \<le> j \<and> j \<le> \<lfloor>cnt\<rfloor>" using j by simp
      have kj: "nat (j - n) = Suc (nat (j - (n + 1)))" using j' by arith
      have kj': "nat (j + 1 - n) = Suc (nat (j + 1 - (n + 1)))" using j' by arith
      have a1: "amortize r a (nat (j - n)) b = amortize r a (nat (j - (n + 1))) ?b"
        by (simp only: kj amortize.simps)
      have a2: "amortize r a (nat (j + 1 - n)) b = amortize r a (nat (j + 1 - (n + 1))) ?b"
        by (simp only: kj' amortize.simps)
      show ?thesis using ih j' by (simp add: a1 a2)
    qed
    show ?thesis using r1 r2 r3 by blast
  qed
qed

section \<open>The balance of the two phases\<close>

lemma amortize_Suc_back: "amortize r a (Suc k) b = amortize r a k b * (1 + r) + a"
  by (induction k arbitrary: b) simp_all

lemma twoPhase_step:
  assumes k: "1 \<le> k"
  shows "twoPhase r1 a1 r2 a2 F A k =
           twoPhase r1 a1 r2 a2 F A (k - 1) * (1 + (if k \<le> F then r1 else r2))
             + (if k \<le> F then a1 else a2)"
proof (cases "k \<le> F")
  case True
  have "nat k = Suc (nat (k - 1))" using k by arith
  then show ?thesis using True by (simp add: twoPhase_def amortize_Suc_back del: amortize.simps(2))
next
  case False
  have n: "nat (k - F) = Suc (nat (k - 1 - F))" using False by arith
  show ?thesis
  proof (cases "k - 1 \<le> F")
    case True
    then have e: "k - 1 = F" using False by simp
    then have "nat (k - F) = Suc 0" by arith
    then show ?thesis using False True by (simp add: twoPhase_def e)
  next
    case b: False
    show ?thesis using False b by (simp add: twoPhase_def n amortize_Suc_back del: amortize.simps(2))
  qed
qed

text \<open>
  A power of a real number is 1 only for the base 1, or for the base \<open>-1\<close> with an even
  exponent. So the annuity formula divides by zero only at the rate \<open>-2\<close> over an even
  number of periods.
\<close>

lemma pow_eq_one_cases:
  fixes q :: real
  assumes p: "q ^ k = 1" and k: "0 < k"
  shows "q = 1 \<or> (q = - 1 \<and> even k)"
proof -
  have "\<bar>q\<bar> ^ k = 1 ^ k" using p by (simp add: power_abs [symmetric])
  then have "\<bar>q\<bar> = 1" using k power_eq_imp_eq_base[of "\<bar>q\<bar>" k 1] by simp
  then have c: "q = 1 \<or> q = - 1" by (simp add: abs_if split: if_splits)
  show ?thesis
  proof (cases "q = 1")
    case True
    then show ?thesis by simp
  next
    case False
    with c have m: "q = - 1" by simp
    have "even k"
    proof (rule ccontr)
      assume "odd k"
      then have "q ^ k = - 1" using m by simp
      with p show False by simp
    qed
    with m show ?thesis by simp
  qed
qed

lemma amortize_zero: "amortize r 0 k 0 = 0"
  by (induction k) simp_all

lemma pmt_minus_one:
  assumes n: "0 < n"
  shows "pmt (- 1) (of_int n) (Fin pv) = Fin 0"
  using n by (simp add: pmt_def js_sub_def)

lemma pmt_finite:
  assumes n: "0 < n" and ev: "\<not> (r = - 2 \<and> even n)"
  shows "\<exists>a. pmt r (of_int n) (Fin pv) = Fin a"
proof (cases "\<bar>r\<bar> < 1 / 10 ^ 9")
  case True
  then show ?thesis using n by (simp add: pmt_small)
next
  case False
  then have big: "1 / 10 ^ 9 \<le> \<bar>r\<bar>" by simp
  then have r0: "r \<noteq> 0" by auto
  show ?thesis
  proof (cases "1 + r = 0")
    case True
    then have "r = - 1" by simp
    then show ?thesis using pmt_minus_one[OF n] by simp
  next
    case q: False
    have ne: "(1 + r) ^ nat n \<noteq> 1"
    proof
      assume "(1 + r) ^ nat n = 1"
      moreover have "0 < nat n" using n by simp
      ultimately have "1 + r = 1 \<or> (1 + r = - 1 \<and> even (nat n))"
        by (rule pow_eq_one_cases)
      then have "r = - 2 \<and> even n" using r0 n by (auto simp: even_nat_iff)
      with ev show False by simp
    qed
    show ?thesis using pmt_regular[OF big q n ne] by simp
  qed
qed

lemma pmt_zero_balance:
  assumes n: "0 < n" and ev: "\<not> (r = - 2 \<and> even n)" and reg: "r = 0 \<or> 1 / 10 ^ 9 \<le> \<bar>r\<bar>"
    and p: "pmt r (of_int n) (Fin pv) = Fin a"
  shows "amortize r a (nat n) pv = 0"
proof (cases "r = 0")
  case True
  then have "pmt r (of_int n) (Fin pv) = Fin (- (pv / of_int n))"
    using n by (simp add: pmt_small)
  with p have "a = - (pv / of_int n)" by simp
  then show ?thesis using True amortize_linear[OF n] by simp
next
  case False
  with reg have big: "1 / 10 ^ 9 \<le> \<bar>r\<bar>" by simp
  show ?thesis
  proof (cases "1 + r = 0")
    case True
    then have r: "r = - 1" by simp
    then have a: "a = 0" using pmt_minus_one[OF n, of pv] p by simp
    have k: "nat n = Suc (nat (n - 1))" using n by arith
    show ?thesis by (simp only: k amortize.simps r a) (simp add: amortize_zero)
  next
    case q0: False
    have ne: "(1 + r) ^ nat n \<noteq> 1"
    proof
      assume "(1 + r) ^ nat n = 1"
      moreover have "0 < nat n" using n by simp
      ultimately have "1 + r = 1 \<or> (1 + r = - 1 \<and> even (nat n))"
        by (rule pow_eq_one_cases)
      then have "r = - 2 \<and> even n" using False n by (auto simp: even_nat_iff)
      with ev show False by simp
    qed
    have "pmt r (of_int n) (Fin pv) = Fin (- (pv * r) / (1 - (1 + r) powi (- n)))"
      using pmt_regular[OF big q0 n ne] .
    with p have "a = - (pv * r) / (1 - (1 + r) powi (- n))" by simp
    then show ?thesis using amortize_annuity[OF False q0 n ne] by simp
  qed
qed

text \<open>
  The first phase with a finite payment. The payment is computed in any case and used
  only when the phase has a year.
\<close>

lemma phase1_Fin:
  assumes a1: "1 \<le> firstPhaseYears p \<Longrightarrow>
               pmt (rate1 p) (loanTermYears p) (Fin (auszahlung p)) = Fin a1"
  shows "\<exists>s1. phase1 p =
           (Fin (amortize (rate1 p) a1 (nat \<lfloor>firstPhaseYears p\<rfloor>) (auszahlung p)),
            Fin (auszahlung p - amortize (rate1 p) a1 (nat \<lfloor>firstPhaseYears p\<rfloor>) (auszahlung p)),
            s1)
         \<and> (\<forall>j. 1 \<le> j \<and> j \<le> \<lfloor>firstPhaseYears p\<rfloor> \<longrightarrow>
               s1 (of_int j) = Some \<lparr>restStart = Fin (amortize (rate1 p) a1 (nat (j - 1)) (auszahlung p)),
                  interest = Fin (- (amortize (rate1 p) a1 (nat (j - 1)) (auszahlung p) * rate1 p)),
                  annuity = Fin a1,
                  principal = Fin (a1 + amortize (rate1 p) a1 (nat (j - 1)) (auszahlung p) * rate1 p),
                  cumPrincipal = Fin (auszahlung p - amortize (rate1 p) a1 (nat j) (auszahlung p))\<rparr>)"
proof (cases "1 \<le> firstPhaseYears p")
  case True
  obtain rem cum s where e: "phase1 p = (rem, cum, s)" by (cases "phase1 p")
  then have l: "amortLoop (rate1 p) (Fin a1) 0 (firstPhaseYears p) 1
                  (Fin (auszahlung p), Fin 0, Map.empty) = (rem, cum, s)"
    by (simp add: phase1_def a1[OF True])
  note f = amortLoop_Fin[OF l]
  show ?thesis using f e by simp
next
  case False
  then have "\<not> of_int 1 \<le> firstPhaseYears p" by simp
  then have e: "phase1 p = (Fin (auszahlung p), Fin 0, Map.empty)"
    unfolding phase1_def Let_def by (subst amortLoop.simps) (simp only: if_False)
  have lt: "\<lfloor>firstPhaseYears p\<rfloor> < 1" using False by (simp add: floor_less_iff)
  have n: "nat \<lfloor>firstPhaseYears p\<rfloor> = 0" using lt by arith
  have v: "\<not> (1 \<le> j \<and> j \<le> \<lfloor>firstPhaseYears p\<rfloor>)" for j using lt by arith
  show ?thesis unfolding e n by (simp add: v)
qed

lemma firstPhase_le: "firstPhaseYears p \<le> loanTermYears p"
  by (simp add: firstPhaseYears_def)

lemma remainingYears_eq: "remainingYears p = loanTermYears p - firstPhaseYears p"
  using firstPhase_le[of p] by (simp add: remainingYears_def)

text \<open>
  Whole year counts: the first phase then ends with a whole year as well.
\<close>

lemma firstPhase_whole:
  assumes "loanTermYears p \<in> \<int>" "fixRateYears p \<in> \<int>"
  shows "firstPhaseYears p \<in> \<int>"
  using assms by (simp add: firstPhaseYears_def min_def)

lemma whole_floor: "(x :: real) \<in> \<int> \<Longrightarrow> x = of_int \<lfloor>x\<rfloor>"
  by (auto elim: Ints_cases)

lemma phase2_rows:
  assumes Li: "loanTermYears p = of_int L" and Fi: "firstPhaseYears p = of_int F"
    and a1: "1 \<le> F \<Longrightarrow> pmt (rate1 p) (loanTermYears p) (Fin (auszahlung p)) = Fin a1"
    and a2: "0 < remainingYears p \<Longrightarrow>
             pmt (rate2 p) (remainingYears p)
               (Fin (amortize (rate1 p) a1 (nat F) (auszahlung p))) = Fin a2"
  shows "\<exists>s. phase2 p =
           (Fin (balanceAfter p a1 a2 L),
            Fin (auszahlung p - balanceAfter p a1 a2 L), s)
         \<and> (\<forall>k. 1 \<le> k \<and> k \<le> L \<longrightarrow>
               s (of_int k) = Some \<lparr>restStart = Fin (balanceAfter p a1 a2 (k - 1)),
                  interest = Fin (- (balanceAfter p a1 a2 (k - 1) * rateOfYear p k)),
                  annuity = Fin (paymentOfYear p a1 a2 k),
                  principal = Fin (paymentOfYear p a1 a2 k
                                   + balanceAfter p a1 a2 (k - 1) * rateOfYear p k),
                  cumPrincipal = Fin (auszahlung p - balanceAfter p a1 a2 k)\<rparr>)"
proof -
  define A where "A = auszahlung p"
  define r1 where "r1 = rate1 p"
  define r2 where "r2 = rate2 p"
  define b1 where "b1 = amortize r1 a1 (nat F) A"
  have fl: "\<lfloor>firstPhaseYears p\<rfloor> = F" by (simp add: Fi)
  have FL: "F \<le> L" using firstPhase_le[of p] by (simp add: Fi Li)
  have R: "remainingYears p = of_int (L - F)" using remainingYears_eq[of p] by (simp add: Fi Li)
  have tp: "balanceAfter p a1 a2 k =
              (if k \<le> F then amortize r1 a1 (nat k) A else amortize r2 a2 (nat (k - F)) b1)" for k
    by (simp add: balanceAfter_def twoPhase_def A_def fl r1_def r2_def b1_def)
  have ry: "rateOfYear p k = (if k \<le> F then r1 else r2)" for k
    by (simp add: rateOfYear_def Fi r1_def r2_def)
  have py: "paymentOfYear p a1 a2 k = (if k \<le> F then a1 else a2)" for k
    by (simp add: paymentOfYear_def Fi)
  have a1': "1 \<le> firstPhaseYears p \<Longrightarrow>
               pmt (rate1 p) (loanTermYears p) (Fin (auszahlung p)) = Fin a1"
    using a1 by (simp add: Fi)
  from phase1_Fin[OF a1'] obtain s1 where
    p1: "phase1 p = (Fin b1, Fin (A - b1), s1)" and
    rows1: "\<And>j. 1 \<le> j \<and> j \<le> F \<Longrightarrow>
       s1 (of_int j) = Some \<lparr>restStart = Fin (amortize r1 a1 (nat (j - 1)) A),
                  interest = Fin (- (amortize r1 a1 (nat (j - 1)) A * r1)),
                  annuity = Fin a1,
                  principal = Fin (a1 + amortize r1 a1 (nat (j - 1)) A * r1),
                  cumPrincipal = Fin (A - amortize r1 a1 (nat j) A)\<rparr>"
    unfolding A_def fl r1_def b1_def by blast
  show ?thesis
  proof (cases "0 < remainingYears p")
    case False
    then have eq: "F = L" using R FL by simp
    have p2: "phase2 p = (Fin b1, Fin (A - b1), s1)"
      using False p1 by (simp add: phase2_def Let_def)
    have e1: "balanceAfter p a1 a2 L = b1"
      using eq by (simp add: tp b1_def)
    have rows: "s1 (of_int k) = Some \<lparr>restStart = Fin (balanceAfter p a1 a2 (k - 1)),
                  interest = Fin (- (balanceAfter p a1 a2 (k - 1) * rateOfYear p k)),
                  annuity = Fin (paymentOfYear p a1 a2 k),
                  principal = Fin (paymentOfYear p a1 a2 k
                                   + balanceAfter p a1 a2 (k - 1) * rateOfYear p k),
                  cumPrincipal = Fin (A - balanceAfter p a1 a2 k)\<rparr>"
      if "1 \<le> k \<and> k \<le> L" for k
      using that rows1[of k] eq by (simp add: tp ry py)
    show ?thesis
      using p2 e1 rows unfolding A_def by blast
  next
    case True
    then have lt: "F < L" using R by simp
    obtain rem cum s where e: "phase2 p = (rem, cum, s)" by (cases "phase2 p")
    have a2': "pmt r2 (of_int (L - F)) (Fin b1) = Fin a2"
      using a2[OF True] by (simp only: R r2_def b1_def r1_def A_def)
    have l2: "amortLoop r2 (Fin a2) (of_int F) (of_int (L - F)) 1 (Fin b1, Fin (A - b1), s1)
              = (rem, cum, s)"
      using e True p1 a2'
      by (simp add: phase2_def Let_def R Fi r2_def [symmetric])
    note f2 = amortLoop_Fin[OF l2]
    have fl2: "\<lfloor>(of_int (L - F) :: real)\<rfloor> = L - F" by (rule floor_of_int)
    have rem: "rem = Fin (balanceAfter p a1 a2 L)"
      using f2 lt by (simp only: fl2) (simp add: tp)
    have cum: "cum = Fin (A - balanceAfter p a1 a2 L)"
      using f2 lt by (simp only: fl2) (simp add: tp)
    have out: "s (of_int k) = s1 (of_int k)" if "k \<le> F" for k
    proof -
      have "\<forall>j. 1 \<le> j \<and> (of_int j :: real) \<le> of_int (L - F)
                \<longrightarrow> (of_int k :: real) \<noteq> of_int F + of_int j"
      proof (intro allI impI)
        fix j :: int
        assume "1 \<le> j \<and> (of_int j :: real) \<le> of_int (L - F)"
        then have "k < F + j" using that by simp
        then have "(of_int k :: real) < of_int (F + j)" by (simp only: of_int_less_iff)
        then show "(of_int k :: real) \<noteq> of_int F + of_int j" by simp
      qed
      then have "snd (snd (amortLoop r2 (Fin a2) (of_int F) (of_int (L - F)) 1
                             (Fin b1, Fin (A - b1), s1))) (of_int k)
                 = snd (snd (Fin b1, Fin (A - b1), s1)) (of_int k)"
        by (rule amortLoop_outside)
      then show ?thesis using l2 by simp
    qed
    have rows: "s (of_int k) = Some \<lparr>restStart = Fin (balanceAfter p a1 a2 (k - 1)),
                  interest = Fin (- (balanceAfter p a1 a2 (k - 1) * rateOfYear p k)),
                  annuity = Fin (paymentOfYear p a1 a2 k),
                  principal = Fin (paymentOfYear p a1 a2 k
                                   + balanceAfter p a1 a2 (k - 1) * rateOfYear p k),
                  cumPrincipal = Fin (A - balanceAfter p a1 a2 k)\<rparr>"
      if k: "1 \<le> k \<and> k \<le> L" for k
    proof (cases "k \<le> F")
      case True
      then show ?thesis using out[OF True] rows1[of k] k by (simp add: tp ry py)
    next
      case False
      then have j: "1 \<le> k - F \<and> k - F \<le> \<lfloor>(of_int (L - F) :: real)\<rfloor>"
        using k by (simp only: fl2) simp
      have key: "(of_int F :: real) + of_int (k - F) = of_int k" by simp
      have row: "s (of_int F + of_int (k - F)) =
            Some \<lparr>restStart = Fin (amortize r2 a2 (nat (k - F - 1)) b1),
                  interest = Fin (- (amortize r2 a2 (nat (k - F - 1)) b1 * r2)),
                  annuity = Fin a2,
                  principal = Fin (a2 + amortize r2 a2 (nat (k - F - 1)) b1 * r2),
                  cumPrincipal = Fin (A - b1 + b1 - amortize r2 a2 (nat (k - F + 1 - 1)) b1)\<rparr>"
        using f2 j by blast
      have prev: "balanceAfter p a1 a2 (k - 1) = amortize r2 a2 (nat (k - F - 1)) b1"
      proof (cases "k - 1 \<le> F")
        case True
        then have "k - 1 = F" using False by simp
        then show ?thesis by (simp add: tp b1_def)
      next
        case False
        have "k - 1 - F = k - F - 1" by simp
        then have "nat (k - 1 - F) = nat (k - F - 1)" by (rule arg_cong)
        then show ?thesis using False by (simp add: tp)
      qed
      have cur: "balanceAfter p a1 a2 k = amortize r2 a2 (nat (k - F)) b1"
        using False by (simp add: tp)
      show ?thesis using row False unfolding key by (simp add: prev cur ry py)
    qed
    show ?thesis
      using e rem cum rows unfolding A_def by blast
  qed
qed

section \<open>The schedule and the rows of a simulation\<close>

lemma buildLoanSchedule_apply:
  assumes "phase2 p = (rem, cum, s)" and "loanTermYears p = of_int L"
  shows "buildLoanSchedule p h (of_int k) =
           (if L + 1 \<le> k \<and> of_int k \<le> h then Some (zeroEntry cum) else s (of_int k))"
proof -
  have "loanTermYears p + 1 = of_int (L + 1)" using assms(2) by simp
  then show ?thesis using assms(1) by (simp only: buildLoanSchedule_def split extendLoop_apply)
qed

lemma buildLoanSchedule_below:
  assumes "phase2 p = (rem, cum, s)" and "k < loanTermYears p + 1"
  shows "buildLoanSchedule p h k = s k"
  using assms by (simp add: buildLoanSchedule_def extendLoop_below)

lemma phase1_defined:
  assumes "1 \<le> k" "of_int k \<le> firstPhaseYears p"
  shows "snd (snd (phase1 p)) (of_int k) \<noteq> None"
proof -
  have "(\<exists>j. 1 \<le> j \<and> of_int j \<le> firstPhaseYears p \<and> (of_int k :: real) = 0 + of_int j)
        \<or> snd (snd (Fin (auszahlung p), Fin 0, Map.empty)) (of_int k) \<noteq> None"
    using assms by auto
  then show ?thesis unfolding phase1_def Let_def by (rule amortLoop_defined)
qed

lemma phase2_defined:
  assumes Fi: "firstPhaseYears p = of_int F" and k: "1 \<le> k" "of_int k \<le> loanTermYears p"
  shows "snd (snd (phase2 p)) (of_int k) \<noteq> None"
proof (cases "k \<le> F")
  case True
  then have "of_int k \<le> firstPhaseYears p" by (simp add: Fi)
  then have d: "snd (snd (phase1 p)) (of_int k) \<noteq> None" using k(1) by (intro phase1_defined)
  show ?thesis
  proof (cases "0 < remainingYears p")
    case True
    have "snd (snd (amortLoop (rate2 p) (pmt (rate2 p) (remainingYears p) (fst (phase1 p)))
                      (firstPhaseYears p) (remainingYears p) 1 (phase1 p))) (of_int k) \<noteq> None"
      using d by (intro amortLoop_defined) simp
    then show ?thesis using True by (simp add: phase2_def Let_def)
  next
    case False
    then show ?thesis using d by (simp add: phase2_def Let_def)
  qed
next
  case False
  then have lt: "F < k" by simp
  then have "(of_int F :: real) < of_int k" by (simp only: of_int_less_iff)
  then have r: "0 < remainingYears p" using k(2) by (simp add: remainingYears_eq Fi)
  have "1 \<le> k - F \<and> of_int (k - F) \<le> remainingYears p
        \<and> (of_int k :: real) = firstPhaseYears p + of_int (k - F)"
    using lt k(2) by (simp add: remainingYears_eq Fi)
  then have "(\<exists>j. 1 \<le> j \<and> of_int j \<le> remainingYears p
                 \<and> (of_int k :: real) = firstPhaseYears p + of_int j)
             \<or> snd (snd (phase1 p)) (of_int k) \<noteq> None"
    by blast
  then have "snd (snd (amortLoop (rate2 p) (pmt (rate2 p) (remainingYears p) (fst (phase1 p)))
                      (firstPhaseYears p) (remainingYears p) 1 (phase1 p))) (of_int k) \<noteq> None"
    by (rule amortLoop_defined)
  then show ?thesis using r by (simp add: phase2_def Let_def)
qed

text \<open>
  With whole year counts the schedule has an entry under every whole year from 1 to the
  loan term and from there to the horizon.
\<close>

lemma schedule_defined:
  assumes Li: "loanTermYears p = of_int L" and Fi: "firstPhaseYears p = of_int F"
    and k: "1 \<le> k" "of_int k \<le> h \<or> k \<le> L"
  shows "buildLoanSchedule p h (of_int k) \<noteq> None"
proof -
  obtain rem cum s where e: "phase2 p = (rem, cum, s)" by (cases "phase2 p")
  show ?thesis
  proof (cases "k \<le> L")
    case True
    then have "of_int k \<le> loanTermYears p" by (simp add: Li)
    then have "s (of_int k) \<noteq> None" using phase2_defined[OF Fi k(1)] e by simp
    then show ?thesis using True by (simp add: buildLoanSchedule_apply[OF e Li])
  next
    case False
    then show ?thesis using k by (simp add: buildLoanSchedule_apply[OF e Li])
  qed
qed

lemma phase2_last:
  assumes Li: "loanTermYears p = of_int L" and Fi: "firstPhaseYears p = of_int F"
    and L: "1 \<le> L" and e: "phase2 p = (rem, cum, s)"
  shows "\<exists>e. s (of_int L) = Some e \<and> cumPrincipal e = cum
            \<and> js_add (restStart e) (principal e) = rem"
proof (cases "0 < remainingYears p")
  case True
  have R: "remainingYears p = of_int (L - F)" using remainingYears_eq[of p] by (simp add: Fi Li)
  have l: "amortLoop (rate2 p) (pmt (rate2 p) (remainingYears p) (fst (phase1 p)))
                  (firstPhaseYears p) (remainingYears p) 1 (phase1 p) = (rem, cum, s)"
    using e True by (simp add: phase2_def Let_def)
  have "of_int 1 \<le> remainingYears p" using True R by simp
  from amortLoop_last[OF this l] show ?thesis by (simp add: R Fi)
next
  case False
  then have eq: "F = L"
    using firstPhase_le[of p] by (simp add: remainingYears_eq Fi Li)
  have l: "amortLoop (rate1 p) (pmt (rate1 p) (loanTermYears p) (Fin (auszahlung p))) 0
             (of_int L) 1 (Fin (auszahlung p), Fin 0, Map.empty) = (rem, cum, s)"
    using e False by (simp add: phase2_def phase1_def Let_def Fi eq)
  have "(of_int 1 :: real) \<le> of_int L" using L by simp
  from amortLoop_last[OF this l] show ?thesis by simp
qed

lemma projectYear_Inr:
  assumes "sched (of_int y) = Some e"
  shows "\<exists>c' yr. projectYear p sched y (c, bv, lv, ys) =
           Inr (c', bv * (1 - buildingLossRate p + constructionCostGrowth p),
                lv * (1 + landGrowthRate p), ys @ [yr])
         \<and> yearRow p e y bv lv yr"
  using assms by (simp add: projectYear_def Let_def yearRow_def)

lemma projectYear_Inl:
  assumes "sched (of_int y) = None"
  shows "projectYear p sched y st = Inl TypeError"
  using assms by (cases st) (simp add: projectYear_def)

text \<open>
  The projection runs over the whole years from \<open>n\<close> to the whole part of the horizon.
  It returns when the schedule has an entry under each of them, and only then.
\<close>

lemma projectLoop_rows:
  assumes "\<forall>y. n \<le> y \<and> of_int y \<le> h \<longrightarrow> sched (of_int y) \<noteq> None"
  shows "\<exists>c' new. projectLoop p sched h n (c, bv, lv, ys) =
           Inr (c', bv * (1 - buildingLossRate p + constructionCostGrowth p) ^ nat (\<lfloor>h\<rfloor> + 1 - n),
                lv * (1 + landGrowthRate p) ^ nat (\<lfloor>h\<rfloor> + 1 - n), ys @ new)
         \<and> length new = nat (\<lfloor>h\<rfloor> + 1 - n)
         \<and> (\<forall>i < nat (\<lfloor>h\<rfloor> + 1 - n). \<exists>e. sched (of_int (n + int i)) = Some e
               \<and> yearRow p e (n + int i)
                    (bv * (1 - buildingLossRate p + constructionCostGrowth p) ^ i)
                    (lv * (1 + landGrowthRate p) ^ i) (new ! i))"
  using assms
proof (induction p sched h n "(c, bv, lv, ys)" arbitrary: c bv lv ys rule: projectLoop.induct)
  case (1 p sched h n)
  let ?g = "1 - buildingLossRate p + constructionCostGrowth p"
  let ?l = "1 + landGrowthRate p"
  show ?case
  proof (cases "of_int n \<le> h")
    case False
    then have "projectLoop p sched h n (c, bv, lv, ys) = Inr (c, bv, lv, ys)"
      by (subst projectLoop.simps) simp
    moreover have "\<lfloor>h\<rfloor> < n" using False by (simp add: floor_less_iff not_le)
    then have "nat (\<lfloor>h\<rfloor> + 1 - n) = 0" by simp
    ultimately show ?thesis by simp
  next
    case True
    then have nf: "n \<le> \<lfloor>h\<rfloor>" by (simp add: le_floor_iff)
    obtain e where e: "sched (of_int n) = Some e" using "1.prems" True by force
    from projectYear_Inr[of sched n e p c bv lv ys, OF e] obtain c1 yr where
      py: "projectYear p sched n (c, bv, lv, ys) = Inr (c1, bv * ?g, lv * ?l, ys @ [yr])"
      and row: "yearRow p e n bv lv yr" by blast
    have pre: "\<forall>y. n + 1 \<le> y \<and> of_int y \<le> h \<longrightarrow> sched (of_int y) \<noteq> None"
      using "1.prems" by simp
    from "1.hyps"[OF True py pre] obtain c' new where
      pl: "projectLoop p sched h (n + 1) (c1, bv * ?g, lv * ?l, ys @ [yr]) =
             Inr (c', bv * ?g * ?g ^ nat (\<lfloor>h\<rfloor> + 1 - (n + 1)),
                  lv * ?l * ?l ^ nat (\<lfloor>h\<rfloor> + 1 - (n + 1)),
                  (ys @ [yr]) @ new)"
      and len: "length new = nat (\<lfloor>h\<rfloor> + 1 - (n + 1))"
      and rows: "\<forall>i < nat (\<lfloor>h\<rfloor> + 1 - (n + 1)). \<exists>e. sched (of_int (n + 1 + int i)) = Some e
               \<and> yearRow p e (n + 1 + int i) (bv * ?g * ?g ^ i) (lv * ?l * ?l ^ i) (new ! i)"
      by blast
    have m: "nat (\<lfloor>h\<rfloor> + 1 - n) = Suc (nat (\<lfloor>h\<rfloor> + 1 - (n + 1)))" using nf by arith
    have unf: "projectLoop p sched h n (c, bv, lv, ys) =
                 projectLoop p sched h (n + 1) (c1, bv * ?g, lv * ?l, ys @ [yr])"
      using True py by (subst projectLoop.simps) simp
    have res: "projectLoop p sched h n (c, bv, lv, ys) =
                 Inr (c', bv * ?g ^ nat (\<lfloor>h\<rfloor> + 1 - n), lv * ?l ^ nat (\<lfloor>h\<rfloor> + 1 - n),
                      ys @ (yr # new))"
      using unf pl by (simp add: m mult.assoc)
    have len': "length (yr # new) = nat (\<lfloor>h\<rfloor> + 1 - n)" using len m by simp
    have rows': "\<exists>e. sched (of_int (n + int i)) = Some e
               \<and> yearRow p e (n + int i) (bv * ?g ^ i) (lv * ?l ^ i) ((yr # new) ! i)"
      if i: "i < nat (\<lfloor>h\<rfloor> + 1 - n)" for i
    proof (cases i)
      case 0
      then show ?thesis using e row by simp
    next
      case (Suc i')
      then have "i' < nat (\<lfloor>h\<rfloor> + 1 - (n + 1))" using i m by simp
      with rows obtain e' where f: "sched (of_int (n + 1 + int i')) = Some e'"
        "yearRow p e' (n + 1 + int i') (bv * ?g * ?g ^ i') (lv * ?l * ?l ^ i') (new ! i')"
        by blast
      have k: "n + int i = n + 1 + int i'" using Suc by simp
      have ix: "(yr # new) ! i = new ! i'" using Suc by simp
      have pg: "bv * ?g ^ i = bv * ?g * ?g ^ i'" using Suc by (simp add: mult.assoc)
      have pl: "lv * ?l ^ i = lv * ?l * ?l ^ i'" using Suc by (simp add: mult.assoc)
      show ?thesis unfolding k ix pg pl using f by blast
    qed
    show ?thesis using res len' rows' by blast
  qed
qed

lemma projectLoop_InrD:
  assumes "projectLoop p sched h n st = Inr st'"
  shows "\<forall>y. n \<le> y \<and> of_int y \<le> h \<longrightarrow> sched (of_int y) \<noteq> None"
  using assms
proof (induction p sched h n st rule: projectLoop.induct)
  case (1 p sched h n st)
  show ?case
  proof (cases "of_int n \<le> h")
    case False
    have "\<not> (n \<le> y \<and> of_int y \<le> h)" for y
    proof
      assume a: "n \<le> y \<and> of_int y \<le> h"
      then have "(of_int n :: real) \<le> of_int y" by simp
      with a False show False by simp
    qed
    then show ?thesis by blast
  next
    case True
    show ?thesis
    proof (cases "projectYear p sched n st")
      case (Inl err)
      then have "projectLoop p sched h n st = Inl err"
        using True by (subst projectLoop.simps) simp
      with "1.prems" show ?thesis by simp
    next
      case (Inr st1)
      have here: "sched (of_int n) \<noteq> None"
      proof
        assume "sched (of_int n) = None"
        then have "projectYear p sched n st = Inl TypeError" by (rule projectYear_Inl)
        with Inr show False by simp
      qed
      have "projectLoop p sched h (n + 1) st1 = Inr st'"
        using "1.prems" True Inr by (subst (asm) projectLoop.simps) simp
      from "1.IH"[OF True Inr this]
      have later: "\<forall>y. n + 1 \<le> y \<and> of_int y \<le> h \<longrightarrow> sched (of_int y) \<noteq> None" .
      show ?thesis
      proof (intro allI impI)
        fix y :: int
        assume a: "n \<le> y \<and> of_int y \<le> h"
        show "sched (of_int y) \<noteq> None"
        proof (cases "y = n")
          case True
          then show ?thesis using here by simp
        next
          case False
          then have "n + 1 \<le> y" using a by simp
          then show ?thesis using later a by blast
        qed
      qed
    qed
  qed
qed

lemma simulate_rows:
  assumes h: "1 \<le> horizonOf p opts"
    and d: "\<forall>y. 1 \<le> y \<and> of_int y \<le> horizonOf p opts \<longrightarrow>
              buildLoanSchedule p (horizonOf p opts) (of_int y) \<noteq> None"
  shows "\<exists>res. simulateExcelModel p opts = Inr res
     \<and> res_loanSchedule res = buildLoanSchedule p (horizonOf p opts)
     \<and> length (res_years res) = nat \<lfloor>horizonOf p opts\<rfloor>
     \<and> (\<forall>i < nat \<lfloor>horizonOf p opts\<rfloor>.
          \<exists>e. buildLoanSchedule p (horizonOf p opts) (of_int (1 + int i)) = Some e
            \<and> yearRow p e (1 + int i)
                 ((buildingValue p + fittingUp p)
                    * (1 - buildingLossRate p + constructionCostGrowth p) ^ i)
                 (landValue p * (1 + landGrowthRate p) ^ i) (res_years res ! i))
     \<and> res_kpis res = computeKpis p (horizonOf p opts) (last (res_years res))
     \<and> meta_horizonYears (res_meta res) = horizonOf p opts"
proof -
  define H where "H = horizonOf p opts"
  have d': "\<forall>y. 1 \<le> y \<and> of_int y \<le> H \<longrightarrow> buildLoanSchedule p H (of_int y) \<noteq> None"
    using d by (simp add: H_def)
  have fl: "nat (\<lfloor>H\<rfloor> + 1 - 1) = nat \<lfloor>H\<rfloor>" by simp
  from projectLoop_rows[OF d', of p "Fin 0" "buildingValue p + fittingUp p" "landValue p" "[]"]
  obtain c' new where
    pl: "projectLoop p (buildLoanSchedule p H) H 1
           (Fin 0, buildingValue p + fittingUp p, landValue p, []) =
         Inr (c', (buildingValue p + fittingUp p)
                    * (1 - buildingLossRate p + constructionCostGrowth p) ^ nat \<lfloor>H\<rfloor>,
              landValue p * (1 + landGrowthRate p) ^ nat \<lfloor>H\<rfloor>, [] @ new)"
    and len: "length new = nat \<lfloor>H\<rfloor>"
    and rows: "\<forall>i < nat \<lfloor>H\<rfloor>. \<exists>e. buildLoanSchedule p H (of_int (1 + int i)) = Some e
            \<and> yearRow p e (1 + int i)
                 ((buildingValue p + fittingUp p)
                    * (1 - buildingLossRate p + constructionCostGrowth p) ^ i)
                 (landValue p * (1 + landGrowthRate p) ^ i) (new ! i)"
    unfolding fl by blast
  have "1 \<le> \<lfloor>H\<rfloor>" using h by (simp add: H_def le_floor_iff)
  then have "new \<noteq> []" using len by auto
  then obtain y ys where ne: "new = y # ys" by (cases new) auto
  have "simulateExcelModel p opts =
          Inr \<lparr>res_meta =
                 \<lparr>meta_startYear = startYear p,
                  meta_horizonYears = H,
                  meta_totalInvest = totalInvest p,
                  meta_finanzbedarf = finanzbedarf p,
                  meta_auszahlung = auszahlung p,
                  meta_disagio = disagio p,
                  meta_afaBasis = afaBasis p\<rparr>,
               res_loanSchedule = buildLoanSchedule p H,
               res_years = new,
               res_kpis = computeKpis p H (last new)\<rparr>"
    using pl ne by (simp add: simulateExcelModel_def Let_def H_def[symmetric])
  then show ?thesis using len rows by (simp add: H_def[symmetric])
qed

lemma simulate_error:
  assumes "horizonOf p opts < 1"
  shows "simulateExcelModel p opts = Inl TypeError"
proof -
  have "projectLoop p sched (horizonOf p opts) 1 st = Inr st" for sched st
    using assms by (subst projectLoop.simps) simp
  then show ?thesis by (simp add: simulateExcelModel_def Let_def)
qed

text \<open>
  A whole year up to the horizon for which the schedule has no entry: the projection
  reads \<open>loan.restStart\<close> of \<open>undefined\<close> there, and the simulation throws.
\<close>

lemma simulate_missing_year:
  assumes k: "1 \<le> k" "of_int k \<le> horizonOf p opts"
    and m: "buildLoanSchedule p (horizonOf p opts) (of_int k) = None"
  shows "simulateExcelModel p opts = Inl TypeError"
proof (cases "projectLoop p (buildLoanSchedule p (horizonOf p opts)) (horizonOf p opts) 1
                (Fin 0, or0 (buildingValue p) + or0 (fittingUp p), or0 (landValue p), [])")
  case (Inl e)
  then show ?thesis by (cases e) (simp add: simulateExcelModel_def Let_def)
next
  case (Inr st')
  from projectLoop_InrD[OF Inr] k have "buildLoanSchedule p (horizonOf p opts) (of_int k) \<noteq> None"
    by blast
  with m show ?thesis by simp
qed

lemma simulate_InrD:
  assumes "simulateExcelModel p opts = Inr res"
  shows "1 \<le> horizonOf p opts
     \<and> res_loanSchedule res = buildLoanSchedule p (horizonOf p opts)
     \<and> length (res_years res) = nat \<lfloor>horizonOf p opts\<rfloor>
     \<and> (\<forall>i < nat \<lfloor>horizonOf p opts\<rfloor>.
          \<exists>e. buildLoanSchedule p (horizonOf p opts) (of_int (1 + int i)) = Some e
            \<and> yearRow p e (1 + int i)
                 ((buildingValue p + fittingUp p)
                    * (1 - buildingLossRate p + constructionCostGrowth p) ^ i)
                 (landValue p * (1 + landGrowthRate p) ^ i) (res_years res ! i))
     \<and> res_kpis res = computeKpis p (horizonOf p opts) (last (res_years res))
     \<and> meta_horizonYears (res_meta res) = horizonOf p opts"
proof -
  have h: "1 \<le> horizonOf p opts"
  proof (rule ccontr)
    assume "\<not> 1 \<le> horizonOf p opts"
    then have "simulateExcelModel p opts = Inl TypeError" using simulate_error by simp
    with assms show False by simp
  qed
  have d: "\<forall>y. 1 \<le> y \<and> of_int y \<le> horizonOf p opts \<longrightarrow>
              buildLoanSchedule p (horizonOf p opts) (of_int y) \<noteq> None"
  proof (intro allI impI notI)
    fix y :: int
    assume "1 \<le> y \<and> of_int y \<le> horizonOf p opts"
      and "buildLoanSchedule p (horizonOf p opts) (of_int y) = None"
    then have "simulateExcelModel p opts = Inl TypeError"
      using simulate_missing_year[of y p opts] by simp
    with assms show False by simp
  qed
  from simulate_rows[OF h d] assms show ?thesis using h by auto
qed

text \<open>
  With whole numbers for the loan term and the fixed-rate period, and a horizon of at
  least one year, the simulation returns.
\<close>

lemma simulate_whole_rows:
  assumes h: "1 \<le> horizonOf p opts"
    and Li: "loanTermYears p \<in> \<int>" and Xi: "fixRateYears p \<in> \<int>"
  shows "\<exists>res. simulateExcelModel p opts = Inr res
     \<and> res_loanSchedule res = buildLoanSchedule p (horizonOf p opts)
     \<and> length (res_years res) = nat \<lfloor>horizonOf p opts\<rfloor>
     \<and> (\<forall>i < nat \<lfloor>horizonOf p opts\<rfloor>.
          \<exists>e. buildLoanSchedule p (horizonOf p opts) (of_int (1 + int i)) = Some e
            \<and> yearRow p e (1 + int i)
                 ((buildingValue p + fittingUp p)
                    * (1 - buildingLossRate p + constructionCostGrowth p) ^ i)
                 (landValue p * (1 + landGrowthRate p) ^ i) (res_years res ! i))
     \<and> res_kpis res = computeKpis p (horizonOf p opts) (last (res_years res))
     \<and> meta_horizonYears (res_meta res) = horizonOf p opts"
proof -
  have L: "loanTermYears p = of_int \<lfloor>loanTermYears p\<rfloor>" using Li by (rule whole_floor)
  have F: "firstPhaseYears p = of_int \<lfloor>firstPhaseYears p\<rfloor>"
    using firstPhase_whole[OF Li Xi] by (rule whole_floor)
  have d: "\<forall>y. 1 \<le> y \<and> of_int y \<le> horizonOf p opts \<longrightarrow>
              buildLoanSchedule p (horizonOf p opts) (of_int y) \<noteq> None"
    using schedule_defined[OF L F] by blast
  show ?thesis using h d by (rule simulate_rows)
qed

section \<open>The result of a simulation\<close>

text \<open>
  The two phases write no key above the loan term, and the rows after the term start at
  \<open>loanTermYears + 1\<close>: a whole year strictly between the two has no entry.
\<close>

lemma phase2_above:
  assumes k: "loanTermYears p < k"
  shows "snd (snd (phase2 p)) k = None"
proof -
  have "\<forall>j. 1 \<le> j \<and> of_int j \<le> firstPhaseYears p \<longrightarrow> k \<noteq> 0 + of_int j"
    using k firstPhase_le[of p] by auto
  then have "snd (snd (amortLoop (rate1 p) (pmt (rate1 p) (loanTermYears p) (Fin (auszahlung p)))
                         0 (firstPhaseYears p) 1 (Fin (auszahlung p), Fin 0, Map.empty))) k
             = snd (snd (Fin (auszahlung p), Fin 0, Map.empty :: real \<rightharpoonup> loanEntry)) k"
    by (rule amortLoop_outside)
  then have p1: "snd (snd (phase1 p)) k = None" by (simp add: phase1_def Let_def)
  show ?thesis
  proof (cases "0 < remainingYears p")
    case False
    then show ?thesis using p1 by (simp add: phase2_def Let_def)
  next
    case True
    have "\<forall>j. 1 \<le> j \<and> of_int j \<le> remainingYears p \<longrightarrow> k \<noteq> firstPhaseYears p + of_int j"
      using k by (auto simp: remainingYears_eq)
    then have "snd (snd (amortLoop (rate2 p) (pmt (rate2 p) (remainingYears p) (fst (phase1 p)))
                           (firstPhaseYears p) (remainingYears p) 1 (phase1 p))) k
               = snd (snd (phase1 p)) k"
      by (rule amortLoop_outside)
    then show ?thesis using True p1 by (simp add: phase2_def Let_def)
  qed
qed

lemma schedule_gap:
  assumes "loanTermYears p < k" "k < loanTermYears p + 1"
  shows "buildLoanSchedule p h k = None"
proof -
  obtain rem cum s where e: "phase2 p = (rem, cum, s)" by (cases "phase2 p")
  have "buildLoanSchedule p h k = s k" using e assms(2) by (rule buildLoanSchedule_below)
  also have "\<dots> = None" using phase2_above[OF assms(1)] e by simp
  finally show ?thesis .
qed

text \<open>
  With whole numbers for the loan term and the fixed-rate period, a horizon of at least
  one year gives a result: one row per whole year of the horizon, the row at position
  \<open>i\<close> with the index \<open>i + 1\<close>, a schedule entry for every year of the horizon, and the
  summary figures of the last row. Only with a horizon below one year is \<open>last\<close>
  undefined, and then reading it throws.
\<close>

lemma simulate_whole_years:
  assumes Li: "loanTermYears p \<in> \<int>" and Xi: "fixRateYears p \<in> \<int>"
  shows "(1 \<le> horizonOf p opts \<longrightarrow>
      (\<exists>res. simulateExcelModel p opts = Inr res
         \<and> length (res_years res) = nat \<lfloor>horizonOf p opts\<rfloor>
         \<and> (\<forall>i < length (res_years res). yearIndex (res_years res ! i) = int i + 1)
         \<and> (\<forall>y. 1 \<le> y \<and> of_int y \<le> horizonOf p opts \<longrightarrow> res_loanSchedule res (of_int y) \<noteq> None)
         \<and> res_years res \<noteq> []
         \<and> res_kpis res = computeKpis p (horizonOf p opts) (last (res_years res))
         \<and> equityPositionEnd (res_kpis res) = equityPosition (last (res_years res))
         \<and> propertyValueEnd (res_kpis res) = propertyValue (last (res_years res))
         \<and> restDebtStartLastYear (res_kpis res) = restDebtStart (last (res_years res))
         \<and> kpi_cumulativeCF (res_kpis res) = cumulativeCF (last (res_years res))))
   \<and> (horizonOf p opts < 1 \<longrightarrow> simulateExcelModel p opts = Inl TypeError)"
proof (intro conjI impI)
  assume h: "1 \<le> horizonOf p opts"
  from simulate_whole_rows[OF h Li Xi] obtain res where
    s: "simulateExcelModel p opts = Inr res"
    and sch: "res_loanSchedule res = buildLoanSchedule p (horizonOf p opts)"
    and len: "length (res_years res) = nat \<lfloor>horizonOf p opts\<rfloor>"
    and rows: "\<forall>i < nat \<lfloor>horizonOf p opts\<rfloor>.
          \<exists>e. buildLoanSchedule p (horizonOf p opts) (of_int (1 + int i)) = Some e
            \<and> yearRow p e (1 + int i)
                 ((buildingValue p + fittingUp p)
                    * (1 - buildingLossRate p + constructionCostGrowth p) ^ i)
                 (landValue p * (1 + landGrowthRate p) ^ i) (res_years res ! i)"
    and k: "res_kpis res = computeKpis p (horizonOf p opts) (last (res_years res))"
    by blast
  have idx: "\<forall>i < length (res_years res). yearIndex (res_years res ! i) = int i + 1"
    using rows len by (auto simp: yearRow_def)
  have L: "loanTermYears p = of_int \<lfloor>loanTermYears p\<rfloor>" using Li by (rule whole_floor)
  have F: "firstPhaseYears p = of_int \<lfloor>firstPhaseYears p\<rfloor>"
    using firstPhase_whole[OF Li Xi] by (rule whole_floor)
  have dom: "\<forall>y. 1 \<le> y \<and> of_int y \<le> horizonOf p opts \<longrightarrow> res_loanSchedule res (of_int y) \<noteq> None"
    unfolding sch using schedule_defined[OF L F] by blast
  have "1 \<le> \<lfloor>horizonOf p opts\<rfloor>" using h by (simp add: le_floor_iff)
  then have ne: "res_years res \<noteq> []" using len by auto
  have k1: "equityPositionEnd (res_kpis res) = equityPosition (last (res_years res))"
    and k2: "propertyValueEnd (res_kpis res) = propertyValue (last (res_years res))"
    and k3: "restDebtStartLastYear (res_kpis res) = restDebtStart (last (res_years res))"
    and k4: "kpi_cumulativeCF (res_kpis res) = cumulativeCF (last (res_years res))"
    unfolding k by (simp_all add: computeKpis_def Let_def)
  show "\<exists>res. simulateExcelModel p opts = Inr res
         \<and> length (res_years res) = nat \<lfloor>horizonOf p opts\<rfloor>
         \<and> (\<forall>i < length (res_years res). yearIndex (res_years res ! i) = int i + 1)
         \<and> (\<forall>y. 1 \<le> y \<and> of_int y \<le> horizonOf p opts \<longrightarrow> res_loanSchedule res (of_int y) \<noteq> None)
         \<and> res_years res \<noteq> []
         \<and> res_kpis res = computeKpis p (horizonOf p opts) (last (res_years res))
         \<and> equityPositionEnd (res_kpis res) = equityPosition (last (res_years res))
         \<and> propertyValueEnd (res_kpis res) = propertyValue (last (res_years res))
         \<and> restDebtStartLastYear (res_kpis res) = restDebtStart (last (res_years res))
         \<and> kpi_cumulativeCF (res_kpis res) = cumulativeCF (last (res_years res))"
    using s len idx dom ne k k1 k2 k3 k4 by blast
next
  assume "horizonOf p opts < 1"
  then show "simulateExcelModel p opts = Inl TypeError" by (rule simulate_error)
qed

text \<open>
  A loan term that is not a whole number leaves a whole year without an entry. When the
  horizon reaches that year the simulation throws, whatever the other parameters are.
\<close>

lemma simulate_broken_term:
  assumes "loanTermYears p < of_int k" "of_int k < loanTermYears p + 1"
    and "1 \<le> k" "of_int k \<le> horizonOf p opts"
  shows "simulateExcelModel p opts = Inl TypeError"
  using assms(3,4) schedule_gap[OF assms(1,2)] by (rule simulate_missing_year)

text \<open>
  C9. With numeric parameters and a horizon of at least one year the simulation is to
  return a fully populated result. It does not for a loan term of two and a half years:
  with a fixed-rate period of one year the two phases write the entries of the years 1
  and 2, the rows after the term would start at year 3.5, and with a horizon of three
  years the projection reads \<open>restStart\<close> of the missing entry of year 3. The simulation
  throws a \<open>TypeError\<close> although the horizon is at least one year; it returns no result.
\<close>

theorem simulate_fractional_term:
  "simulateExcelModel fractional \<lparr>opt_horizonYears = Some 3\<rparr> = Inl TypeError"
proof -
  have h: "horizonOf fractional \<lparr>opt_horizonYears = Some 3\<rparr> = 3" by (simp add: horizonOf_def)
  have L: "loanTermYears fractional = 5 / 2" by (simp add: fractional_def)
  have "loanTermYears fractional < of_int 3" "of_int 3 < loanTermYears fractional + 1"
    "(1::int) \<le> 3" "of_int 3 \<le> horizonOf fractional \<lparr>opt_horizonYears = Some 3\<rparr>"
    by (simp_all add: h L)
  then show ?thesis by (rule simulate_broken_term)
qed

section \<open>Maintenance and the summary figures\<close>

lemma sample_whole: "loanTermYears sample \<in> \<int>" "fixRateYears sample \<in> \<int>"
  by (simp_all add: sample_def)

lemmas sample_rows = simulate_whole_rows[OF _ sample_whole]

lemma row_maintenance:
  assumes "yearRow p e y bv lv yr" "1 \<le> y"
  shows "maintenance yr =
           (if y = 1 then Fin (- (annualMaintenance p + initialRepairs p))
            else Fin (- annualMaintenance p * (1 + maintenanceGrowth p) ^ nat y))"
proof -
  have "0 \<le> y" using assms by simp
  then have "js_pow (Fin (1 + maintenanceGrowth p)) (of_int y) = Fin ((1 + maintenanceGrowth p) ^ nat y)"
    by (rule js_pow_nonneg)
  then show ?thesis using assms by (simp add: yearRow_def)
qed

lemma row_rent:
  assumes "yearRow p e y bv lv yr" "1 \<le> y"
  shows "grossRent yr = Fin (monthlyRent p * 12 * (1 + rentGrowth p) ^ nat (y - 1))
       \<and> netRent yr = Fin (monthlyRent p * 12 * (1 + rentGrowth p) ^ nat (y - 1) * (1 - vacancyRate p))"
proof -
  have "0 \<le> y - 1" using assms by simp
  then have "js_pow (Fin (1 + rentGrowth p)) (of_int (y - 1)) = Fin ((1 + rentGrowth p) ^ nat (y - 1))"
    by (rule js_pow_nonneg)
  then show ?thesis using assms by (simp add: yearRow_def)
qed

text \<open>
  C6. The maintenance of year 1 is \<open>-(annualMaintenance + initialRepairs)\<close>; that of a
  later year \<open>y\<close> is \<open>-annualMaintenance \<sqdot> (1 + maintenanceGrowth)\<^sup>y\<close>, the exponent being
  the year itself. The row at position \<open>i\<close> is that of year \<open>i + 1\<close>.
\<close>

theorem maintenance_by_year:
  assumes sim: "simulateExcelModel p opts = Inr res" and i: "i < length (res_years res)"
  shows "yearIndex (res_years res ! i) = int i + 1
       \<and> maintenance (res_years res ! i) =
           (if i = 0 then Fin (- (annualMaintenance p + initialRepairs p))
            else Fin (- annualMaintenance p * (1 + maintenanceGrowth p) ^ (i + 1)))"
proof -
  note d = simulate_InrD[OF sim]
  from d i obtain e where
    row: "yearRow p e (1 + int i)
            ((buildingValue p + fittingUp p)
               * (1 - buildingLossRate p + constructionCostGrowth p) ^ i)
            (landValue p * (1 + landGrowthRate p) ^ i) (res_years res ! i)"
    by auto
  have n: "nat (1 + int i) = i + 1" by simp
  have y: "(1 + int i = 1) = (i = 0)" by simp
  have idx: "yearIndex (res_years res ! i) = int i + 1" using row by (simp add: yearRow_def)
  have "maintenance (res_years res ! i) =
           (if i = 0 then Fin (- (annualMaintenance p + initialRepairs p))
            else Fin (- annualMaintenance p * (1 + maintenanceGrowth p) ^ (i + 1)))"
    using row_maintenance[OF row] by (simp only: n y)
  with idx show ?thesis by simp
qed

theorem maintenance_by_year_witness:
  "\<exists>res. simulateExcelModel sample \<lparr>opt_horizonYears = Some 3\<rparr> = Inr res
     \<and> (1::nat) < length (res_years res)
     \<and> yearIndex (res_years res ! 1) = 2
     \<and> maintenance (res_years res ! 1) = Fin (- 1000 * (1 + 2 / 100) ^ 2)"
proof -
  have h: "1 \<le> horizonOf sample \<lparr>opt_horizonYears = Some 3\<rparr>" by (simp add: horizonOf_def)
  from sample_rows[OF h] obtain res where
    s: "simulateExcelModel sample \<lparr>opt_horizonYears = Some 3\<rparr> = Inr res"
    and len: "length (res_years res) = nat \<lfloor>horizonOf sample \<lparr>opt_horizonYears = Some 3\<rparr>\<rfloor>"
    by blast
  have l: "(1::nat) < length (res_years res)" using len by (simp add: horizonOf_def)
  from maintenance_by_year [OF s l] have
    "yearIndex (res_years res ! 1) = 2
     \<and> maintenance (res_years res ! 1) = Fin (- 1000 * (1 + 2 / 100) ^ 2)"
    by (simp add: sample_def power2_eq_square)
  with s l show ?thesis by blast
qed


text \<open>
  C8. The summary figures of a result are values, not faults. The return on the total
  investment is the final equity position divided by the total investment when that is
  positive, and 0 otherwise; the total return on equity is the final equity position
  divided by the equity when that is positive, and 0 otherwise; the annualised return is
  \<open>(1 + roeTotal) ^ (1 / horizonYears) - 1\<close> when the total return exceeds \<open>-1\<close> and
  \<open>NaN\<close> otherwise. For a finite equity position the two ratios are finite numbers.
\<close>

theorem kpis_guarded:
  assumes sim: "simulateExcelModel p opts = Inr res"
  shows "equityPositionEnd (res_kpis res) = equityPosition (last (res_years res))
     \<and> roiOnInvestment (res_kpis res) =
         (if 0 < totalInvest p
          then js_div (equityPositionEnd (res_kpis res)) (Fin (totalInvest p)) else Fin 0)
     \<and> roeTotal (res_kpis res) =
         (if 0 < equity p
          then js_div (equityPositionEnd (res_kpis res)) (Fin (equity p)) else Fin 0)
     \<and> (\<forall>x. equityPositionEnd (res_kpis res) = Fin x \<longrightarrow>
           roiOnInvestment (res_kpis res) = Fin (if 0 < totalInvest p then x / totalInvest p else 0)
           \<and> roeTotal (res_kpis res) = Fin (if 0 < equity p then x / equity p else 0))
     \<and> (\<forall>t. roeTotal (res_kpis res) = Fin t \<longrightarrow>
           roeAnnualized (res_kpis res) =
             (if - 1 < t then Fin ((1 + t) powr (1 / horizonOf p opts) - 1) else NaN))
     \<and> (roeTotal (res_kpis res) = NaN \<or> roeTotal (res_kpis res) = NInf \<longrightarrow>
           roeAnnualized (res_kpis res) = NaN)"
proof -
  note d = simulate_InrD[OF sim]
  from d have h: "1 \<le> horizonOf p opts" by simp
  from d have k: "res_kpis res = computeKpis p (horizonOf p opts) (last (res_years res))" by simp
  have e: "1 / horizonOf p opts \<noteq> 0" using h by simp
  show ?thesis
    unfolding k using h e by (auto simp: computeKpis_def Let_def)
qed

theorem kpis_guarded_witness:
  "\<exists>res. simulateExcelModel sample \<lparr>opt_horizonYears = Some 3\<rparr> = Inr res
     \<and> equityPositionEnd (res_kpis res) = equityPosition (last (res_years res))
     \<and> roiOnInvestment (res_kpis res) = js_div (equityPositionEnd (res_kpis res)) (Fin 252000)
     \<and> roeTotal (res_kpis res) = js_div (equityPositionEnd (res_kpis res)) (Fin 50000)
     \<and> (\<forall>t. roeTotal (res_kpis res) = Fin t \<longrightarrow>
           roeAnnualized (res_kpis res) =
             (if - 1 < t then Fin ((1 + t) powr (1 / 3) - 1) else NaN))"
proof -
  have h: "1 \<le> horizonOf sample \<lparr>opt_horizonYears = Some 3\<rparr>" by (simp add: horizonOf_def)
  from sample_rows[OF h] obtain res where
    s: "simulateExcelModel sample \<lparr>opt_horizonYears = Some 3\<rparr> = Inr res"
    by blast
  have ti: "totalInvest sample = 252000"
    by (simp add: totalInvest_def purchasePrice_def sideCostsTotal_def sideCostsVar_def
        sideCostRate_def sample_def)
  have eq: "equity sample = 50000" by (simp add: sample_def)
  have ho: "horizonOf sample \<lparr>opt_horizonYears = Some 3\<rparr> = 3" by (simp add: horizonOf_def)
  from kpis_guarded [OF s] have
    "equityPositionEnd (res_kpis res) = equityPosition (last (res_years res))
     \<and> roiOnInvestment (res_kpis res) = js_div (equityPositionEnd (res_kpis res)) (Fin 252000)
     \<and> roeTotal (res_kpis res) = js_div (equityPositionEnd (res_kpis res)) (Fin 50000)
     \<and> (\<forall>t. roeTotal (res_kpis res) = Fin t \<longrightarrow>
           roeAnnualized (res_kpis res) =
             (if - 1 < t then Fin ((1 + t) powr (1 / 3) - 1) else NaN))"
    by (simp add: ti eq ho)
  with s show ?thesis by blast
qed

section \<open>The years after the loan term\<close>

lemma schedule_beyond_term:
  assumes Li: "loanTermYears p = of_int L" and Fi: "firstPhaseYears p = of_int F"
    and L: "1 \<le> L" and y: "L < y" "of_int y \<le> h"
  shows "\<exists>eL. buildLoanSchedule p h (of_int L) = Some eL
            \<and> buildLoanSchedule p h (of_int y) = Some (zeroEntry (cumPrincipal eL))"
proof -
  obtain rem cum s where e: "phase2 p = (rem, cum, s)" by (cases "phase2 p")
  from phase2_last[OF Li Fi L e] obtain eL where
    eL: "s (of_int L) = Some eL" "cumPrincipal eL = cum" by blast
  have "buildLoanSchedule p h (of_int L) = Some eL"
    using eL by (simp add: buildLoanSchedule_apply[OF e Li])
  moreover have "buildLoanSchedule p h (of_int y) = Some (zeroEntry (cumPrincipal eL))"
    using y eL by (simp add: buildLoanSchedule_apply[OF e Li])
  ultimately show ?thesis by blast
qed

text \<open>
  A result shows that the year counts are whole where it matters. The rows after the loan
  term lie a whole number of years after \<open>loanTermYears + 1\<close>, so a whole year among them
  makes the loan term whole; and the entry of the last year of a whole loan term is
  written by one of the phases, which makes the end of the first phase whole.
\<close>

lemma extendLoop_keys:
  "extendLoop h c y s k \<noteq> s k \<Longrightarrow> \<exists>i::nat. k = y + of_nat i"
proof (induction h c y s rule: extendLoop.induct)
  case (1 h c y s)
  show ?case
  proof (cases "y \<le> h")
    case False
    then have "extendLoop h c y s = s" by (intro extendLoop_past) simp
    with "1.prems" show ?thesis by simp
  next
    case True
    have unf: "extendLoop h c y s k = extendLoop h c (y + 1) (s(y \<mapsto> zeroEntry c)) k"
      using True by (subst extendLoop.simps) simp
    show ?thesis
    proof (cases "k = y")
      case True
      then have "k = y + of_nat 0" by simp
      then show ?thesis by blast
    next
      case False
      then have "(s(y \<mapsto> zeroEntry c)) k = s k" by simp
      then have "extendLoop h c (y + 1) (s(y \<mapsto> zeroEntry c)) k \<noteq> (s(y \<mapsto> zeroEntry c)) k"
        using "1.prems" unf by simp
      from "1.IH"[OF True this] obtain i :: nat where "k = y + 1 + of_nat i" by blast
      then have "k = y + of_nat (Suc i)" by simp
      then show ?thesis by blast
    qed
  qed
qed

lemma amortLoop_keys:
  assumes "snd (snd (amortLoop r ann off cnt n st)) k \<noteq> snd (snd st) k"
  shows "\<exists>j. n \<le> j \<and> of_int j \<le> cnt \<and> k = off + of_int j"
proof (rule ccontr)
  assume "\<not> (\<exists>j. n \<le> j \<and> of_int j \<le> cnt \<and> k = off + of_int j)"
  then have "\<forall>j. n \<le> j \<and> of_int j \<le> cnt \<longrightarrow> k \<noteq> off + of_int j" by blast
  then have "snd (snd (amortLoop r ann off cnt n st)) k = snd (snd st) k"
    by (rule amortLoop_outside)
  with assms show False by simp
qed

lemma whole_term:
  assumes sim: "simulateExcelModel p opts = Inr res"
    and y: "1 \<le> y" "loanTermYears p < of_int y" "of_int y \<le> horizonOf p opts"
  shows "loanTermYears p \<in> \<int>"
proof -
  obtain rem cum s where e: "phase2 p = (rem, cum, s)" by (cases "phase2 p")
  have d: "buildLoanSchedule p (horizonOf p opts) (of_int y) \<noteq> None"
  proof
    assume "buildLoanSchedule p (horizonOf p opts) (of_int y) = None"
    with y(1,3) have "simulateExcelModel p opts = Inl TypeError" by (rule simulate_missing_year)
    with sim show False by simp
  qed
  have n: "s (of_int y) = None" using phase2_above[OF y(2)] e by simp
  have "extendLoop (horizonOf p opts) cum (loanTermYears p + 1) s (of_int y) \<noteq> s (of_int y)"
    using d n e by (simp add: buildLoanSchedule_def)
  then obtain i :: nat where "of_int y = loanTermYears p + 1 + of_nat i"
    using extendLoop_keys by blast
  then have "loanTermYears p = of_int (y - 1 - int i)" by simp
  then show ?thesis by (metis Ints_of_int)
qed

lemma whole_first_phase:
  assumes sim: "simulateExcelModel p opts = Inr res"
    and Li: "loanTermYears p = of_int L" and L: "1 \<le> L" "of_int L \<le> horizonOf p opts"
  shows "firstPhaseYears p \<in> \<int>"
proof -
  obtain rem cum s where e: "phase2 p = (rem, cum, s)" by (cases "phase2 p")
  have d: "buildLoanSchedule p (horizonOf p opts) (of_int L) \<noteq> None"
  proof
    assume "buildLoanSchedule p (horizonOf p opts) (of_int L) = None"
    with L have "simulateExcelModel p opts = Inl TypeError" by (rule simulate_missing_year)
    with sim show False by simp
  qed
  have "buildLoanSchedule p (horizonOf p opts) (of_int L) = s (of_int L)"
    by (simp add: buildLoanSchedule_apply[OF e Li])
  with d have sL: "snd (snd (phase2 p)) (of_int L) \<noteq> None" using e by simp
  show ?thesis
  proof (cases "firstPhaseYears p = loanTermYears p")
    case True
    then show ?thesis by (simp add: Li)
  next
    case False
    then have lt: "firstPhaseYears p < loanTermYears p" using firstPhase_le[of p] by simp
    then have r: "0 < remainingYears p" by (simp add: remainingYears_eq)
    have p1: "snd (snd (phase1 p)) (of_int L) = None"
    proof (rule ccontr)
      assume "snd (snd (phase1 p)) (of_int L) \<noteq> None"
      then have "snd (snd (amortLoop (rate1 p) (pmt (rate1 p) (loanTermYears p) (Fin (auszahlung p)))
                         0 (firstPhaseYears p) 1 (Fin (auszahlung p), Fin 0, Map.empty))) (of_int L)
                 \<noteq> snd (snd (Fin (auszahlung p), Fin 0, Map.empty :: real \<rightharpoonup> loanEntry)) (of_int L)"
        by (simp add: phase1_def Let_def)
      from amortLoop_keys[OF this] obtain j where
        "of_int j \<le> firstPhaseYears p" "(of_int L :: real) = 0 + of_int j" by blast
      then have "loanTermYears p \<le> firstPhaseYears p" by (simp add: Li)
      with lt show False by simp
    qed
    have "snd (snd (amortLoop (rate2 p) (pmt (rate2 p) (remainingYears p) (fst (phase1 p)))
                      (firstPhaseYears p) (remainingYears p) 1 (phase1 p))) (of_int L)
          \<noteq> snd (snd (phase1 p)) (of_int L)"
      using sL r p1 by (simp add: phase2_def Let_def)
    from amortLoop_keys[OF this] obtain j where
      "(of_int L :: real) = firstPhaseYears p + of_int j" by blast
    then have "firstPhaseYears p = of_int (L - j)" by simp
    then show ?thesis by (metis Ints_of_int)
  qed
qed

text \<open>
  C7. In a year \<open>y\<close> after the loan term and up to the horizon
  the loan entry has zero interest, principal and payment, and its cumulative principal
  is that of the year of the loan term. The row of that year carries these zeros, while
  its rent, maintenance and property value follow their growth formulas, which mention
  no value of the loan.
\<close>

theorem years_beyond_loan_term:
  assumes sim: "simulateExcelModel p opts = Inr res"
    and L: "1 \<le> loanTermYears p"
    and y: "loanTermYears p < of_int y" "of_int y \<le> horizonOf p opts"
  shows "\<exists>e eL. res_loanSchedule res (of_int y) = Some e
     \<and> res_loanSchedule res (loanTermYears p) = Some eL
     \<and> restStart e = Fin 0 \<and> interest e = Fin 0 \<and> principal e = Fin 0 \<and> annuity e = Fin 0
     \<and> cumPrincipal e = cumPrincipal eL
     \<and> yearIndex (res_years res ! nat (y - 1)) = y
     \<and> interestPaid (res_years res ! nat (y - 1)) = Fin 0
     \<and> principalPaid (res_years res ! nat (y - 1)) = Fin 0
     \<and> cumulativePrincipal (res_years res ! nat (y - 1)) = cumPrincipal eL
     \<and> grossRent (res_years res ! nat (y - 1)) =
          Fin (monthlyRent p * 12 * (1 + rentGrowth p) ^ nat (y - 1))
     \<and> netRent (res_years res ! nat (y - 1)) =
          Fin (monthlyRent p * 12 * (1 + rentGrowth p) ^ nat (y - 1) * (1 - vacancyRate p))
     \<and> maintenance (res_years res ! nat (y - 1)) =
          Fin (- annualMaintenance p * (1 + maintenanceGrowth p) ^ nat y)
     \<and> propertyValue (res_years res ! nat (y - 1)) =
          (buildingValue p + fittingUp p)
            * (1 - buildingLossRate p + constructionCostGrowth p) ^ nat y
          + landValue p * (1 + landGrowthRate p) ^ nat y"
proof -
  note d = simulate_InrD[OF sim]
  define i where "i = nat (y - 1)"
  define L' where "L' = \<lfloor>loanTermYears p\<rfloor>"
  have "(1 :: real) < of_int y" using L y(1) by simp
  then have y0: "1 \<le> y" by simp
  have Li: "loanTermYears p \<in> \<int>" using sim y0 y by (rule whole_term)
  have Leq: "loanTermYears p = of_int L'" unfolding L'_def using Li by (rule whole_floor)
  have L1: "1 \<le> L'" using L by (simp add: L'_def le_floor_iff)
  have "of_int L' \<le> horizonOf p opts" using y by (simp add: Leq [symmetric])
  with sim Leq L1 have "firstPhaseYears p \<in> \<int>" by (rule whole_first_phase)
  then have Feq: "firstPhaseYears p = of_int \<lfloor>firstPhaseYears p\<rfloor>" by (rule whole_floor)
  have Ly: "L' < y" using y(1) by (simp add: Leq)
  have y1: "1 \<le> y" "y \<noteq> 1" using L1 Ly by simp_all
  have iy: "1 + int i = y" using y1 by (simp add: i_def)
  have ny: "nat y = Suc i" using y1 by (simp add: i_def)
  have "y \<le> \<lfloor>horizonOf p opts\<rfloor>" using y(2) by (simp add: le_floor_iff)
  then have il: "i < nat \<lfloor>horizonOf p opts\<rfloor>" unfolding i_def using y1 by arith
  from schedule_beyond_term[OF Leq Feq L1 Ly y(2)] obtain eL where
    eL: "buildLoanSchedule p (horizonOf p opts) (loanTermYears p) = Some eL"
    and ez: "buildLoanSchedule p (horizonOf p opts) (of_int y) = Some (zeroEntry (cumPrincipal eL))"
    unfolding Leq [symmetric] by blast
  from d il obtain e where
    "buildLoanSchedule p (horizonOf p opts) (of_int (1 + int i)) = Some e"
    and row0: "yearRow p e (1 + int i)
            ((buildingValue p + fittingUp p)
               * (1 - buildingLossRate p + constructionCostGrowth p) ^ i)
            (landValue p * (1 + landGrowthRate p) ^ i) (res_years res ! i)"
    by blast
  then have row: "yearRow p (zeroEntry (cumPrincipal eL)) y
            ((buildingValue p + fittingUp p)
               * (1 - buildingLossRate p + constructionCostGrowth p) ^ i)
            (landValue p * (1 + landGrowthRate p) ^ i) (res_years res ! i)"
    using ez unfolding iy by simp
  have sch: "res_loanSchedule res = buildLoanSchedule p (horizonOf p opts)" using d by simp
  have loan: "yearIndex (res_years res ! i) = y
     \<and> interestPaid (res_years res ! i) = Fin 0
     \<and> principalPaid (res_years res ! i) = Fin 0
     \<and> cumulativePrincipal (res_years res ! i) = cumPrincipal eL"
    using row by (simp add: yearRow_def zeroEntry_def)
  have pv: "propertyValue (res_years res ! i) =
          (buildingValue p + fittingUp p)
            * (1 - buildingLossRate p + constructionCostGrowth p) ^ nat y
          + landValue p * (1 + landGrowthRate p) ^ nat y"
    using row by (simp add: yearRow_def ny mult.assoc)
  have mt: "maintenance (res_years res ! i) =
          Fin (- annualMaintenance p * (1 + maintenanceGrowth p) ^ nat y)"
    using row_maintenance[OF row y1(1)] y1(2) by simp
  note rent = row_rent[OF row y1(1), folded i_def]
  have z: "restStart (zeroEntry (cumPrincipal eL)) = Fin 0
     \<and> interest (zeroEntry (cumPrincipal eL)) = Fin 0
     \<and> principal (zeroEntry (cumPrincipal eL)) = Fin 0
     \<and> annuity (zeroEntry (cumPrincipal eL)) = Fin 0
     \<and> cumPrincipal (zeroEntry (cumPrincipal eL)) = cumPrincipal eL"
    by (simp add: zeroEntry_def)
  show ?thesis
    unfolding sch i_def[symmetric]
    using eL ez z loan rent mt pv by blast
qed

theorem years_beyond_loan_term_witness:
  "\<exists>res e eL. simulateExcelModel sample \<lparr>opt_horizonYears = Some 3\<rparr> = Inr res
     \<and> 1 \<le> loanTermYears sample \<and> loanTermYears sample < 3
     \<and> 3 \<le> horizonOf sample \<lparr>opt_horizonYears = Some 3\<rparr>
     \<and> res_loanSchedule res 3 = Some e \<and> res_loanSchedule res 2 = Some eL
     \<and> interest e = Fin 0 \<and> principal e = Fin 0 \<and> annuity e = Fin 0
     \<and> cumPrincipal e = cumPrincipal eL
     \<and> grossRent (res_years res ! 2) = Fin (1000 * 12 * (1 + 1 / 100) ^ 2)
     \<and> maintenance (res_years res ! 2) = Fin (- 1000 * (1 + 2 / 100) ^ 3)
     \<and> propertyValue (res_years res ! 2) =
          200000 * (1 + 1 / 100) ^ 3 + 50000 * (1 + 2 / 100) ^ 3"
proof -
  have h: "1 \<le> horizonOf sample \<lparr>opt_horizonYears = Some 3\<rparr>" by (simp add: horizonOf_def)
  from sample_rows[OF h] obtain res where
    s: "simulateExcelModel sample \<lparr>opt_horizonYears = Some 3\<rparr> = Inr res"
    by blast
  have L: "1 \<le> loanTermYears sample" by (simp add: sample_def)
  have y: "loanTermYears sample < of_int 3"
    "of_int 3 \<le> horizonOf sample \<lparr>opt_horizonYears = Some 3\<rparr>"
    by (simp_all add: sample_def horizonOf_def)
  have y': "loanTermYears sample < 3" "3 \<le> horizonOf sample \<lparr>opt_horizonYears = Some 3\<rparr>"
    using y by simp_all
  have o3: "(of_int 3 :: real) = 3" by simp
  have l2: "loanTermYears sample = 2" by (simp add: sample_def)
  have n2: "nat (3 - 1) = 2" "nat 3 = 3" by simp_all
  from years_beyond_loan_term [OF s L y] obtain e eL where
    "res_loanSchedule res 3 = Some e \<and> res_loanSchedule res 2 = Some eL
     \<and> interest e = Fin 0 \<and> principal e = Fin 0 \<and> annuity e = Fin 0
     \<and> cumPrincipal e = cumPrincipal eL
     \<and> grossRent (res_years res ! 2) = Fin (1000 * 12 * (1 + 1 / 100) ^ 2)
     \<and> maintenance (res_years res ! 2) = Fin (- 1000 * (1 + 2 / 100) ^ 3)
     \<and> propertyValue (res_years res ! 2) =
          200000 * (1 + 1 / 100) ^ 3 + 50000 * (1 + 2 / 100) ^ 3"
    unfolding l2 n2 o3 by (auto simp: sample_def)
  with s L y' show ?thesis by blast
qed

section \<open>The default horizon\<close>

text \<open>
  The rows of a loan over whole years. The payment of a phase is a finite number unless
  the annuity formula divides by zero, which it does only at the rate \<open>-2\<close> over an even
  number of years; the payment of the first phase matters only when that phase has a
  year. The balance after the last year is zero when the rate of the last phase is zero
  or at least the threshold of the annuity helper.
\<close>

lemma loan_rows:
  assumes Li: "loanTermYears p = of_int L" and Fi: "firstPhaseYears p = of_int F"
    and L: "1 \<le> L"
    and f1: "1 \<le> F \<Longrightarrow> \<not> (rate1 p = - 2 \<and> even L)"
    and f2: "F < L \<Longrightarrow> \<not> (rate2 p = - 2 \<and> even (L - F))"
  shows "\<exists>a1 a2 s. phase2 p =
           (Fin (balanceAfter p a1 a2 L),
            Fin (auszahlung p - balanceAfter p a1 a2 L), s)
         \<and> (\<forall>k. 1 \<le> k \<and> k \<le> L \<longrightarrow>
               s (of_int k) = Some \<lparr>restStart = Fin (balanceAfter p a1 a2 (k - 1)),
                  interest = Fin (- (balanceAfter p a1 a2 (k - 1) * rateOfYear p k)),
                  annuity = Fin (paymentOfYear p a1 a2 k),
                  principal = Fin (paymentOfYear p a1 a2 k
                                   + balanceAfter p a1 a2 (k - 1) * rateOfYear p k),
                  cumPrincipal = Fin (auszahlung p - balanceAfter p a1 a2 k)\<rparr>)
         \<and> (1 \<le> F \<longrightarrow> pmt (rate1 p) (of_int L) (Fin (auszahlung p)) = Fin a1)
         \<and> (F < L \<longrightarrow> pmt (rate2 p) (of_int (L - F)) (Fin (balanceAfter p a1 a2 F)) = Fin a2)
         \<and> (rateOfYear p L = 0 \<or> 1 / 10 ^ 9 \<le> \<bar>rateOfYear p L\<bar>
              \<longrightarrow> balanceAfter p a1 a2 L = 0)"
proof -
  have Lp: "0 < L" using L by simp
  have FL: "F \<le> L" using firstPhase_le[of p] by (simp add: Fi Li)
  have R: "remainingYears p = of_int (L - F)" using remainingYears_eq[of p] by (simp add: Fi Li)
  have fl: "\<lfloor>firstPhaseYears p\<rfloor> = F" by (simp add: Fi)
  have "\<exists>a1. 1 \<le> F \<longrightarrow> pmt (rate1 p) (of_int L) (Fin (auszahlung p)) = Fin a1"
  proof (cases "1 \<le> F")
    case True
    from pmt_finite[OF Lp f1[OF True]] show ?thesis by blast
  next
    case False
    then show ?thesis by simp
  qed
  then obtain a1 where
    a1: "1 \<le> F \<Longrightarrow> pmt (rate1 p) (of_int L) (Fin (auszahlung p)) = Fin a1" by blast
  define b1 where "b1 = amortize (rate1 p) a1 (nat F) (auszahlung p)"
  have "\<exists>a2. F < L \<longrightarrow> pmt (rate2 p) (of_int (L - F)) (Fin b1) = Fin a2"
  proof (cases "F < L")
    case True
    then have "0 < L - F" by simp
    from pmt_finite[OF this f2[OF True]] show ?thesis by blast
  next
    case False
    then show ?thesis by simp
  qed
  then obtain a2 where
    a2: "F < L \<Longrightarrow> pmt (rate2 p) (of_int (L - F)) (Fin b1) = Fin a2" by blast
  have a1': "1 \<le> F \<Longrightarrow> pmt (rate1 p) (loanTermYears p) (Fin (auszahlung p)) = Fin a1"
    using a1 by (simp only: Li)
  have a2': "0 < remainingYears p \<Longrightarrow>
             pmt (rate2 p) (remainingYears p)
               (Fin (amortize (rate1 p) a1 (nat F) (auszahlung p))) = Fin a2"
    using a2 by (simp add: R b1_def)
  have rows: "\<exists>s. phase2 p =
           (Fin (balanceAfter p a1 a2 L),
            Fin (auszahlung p - balanceAfter p a1 a2 L), s)
         \<and> (\<forall>k. 1 \<le> k \<and> k \<le> L \<longrightarrow>
               s (of_int k) = Some \<lparr>restStart = Fin (balanceAfter p a1 a2 (k - 1)),
                  interest = Fin (- (balanceAfter p a1 a2 (k - 1) * rateOfYear p k)),
                  annuity = Fin (paymentOfYear p a1 a2 k),
                  principal = Fin (paymentOfYear p a1 a2 k
                                   + balanceAfter p a1 a2 (k - 1) * rateOfYear p k),
                  cumPrincipal = Fin (auszahlung p - balanceAfter p a1 a2 k)\<rparr>)"
  proof (rule phase2_rows[OF Li Fi])
    show "pmt (rate1 p) (loanTermYears p) (Fin (auszahlung p)) = Fin a1" if "1 \<le> F"
      using a1'[OF that] .
    show "pmt (rate2 p) (remainingYears p)
            (Fin (amortize (rate1 p) a1 (nat F) (auszahlung p))) = Fin a2"
      if "0 < remainingYears p"
      using a2'[OF that] .
  qed
  have bF: "balanceAfter p a1 a2 F = b1"
    by (simp add: balanceAfter_def twoPhase_def fl b1_def)
  have ry: "rateOfYear p L = (if L \<le> F then rate1 p else rate2 p)"
    by (simp add: rateOfYear_def Fi)
  have zero: "balanceAfter p a1 a2 L = 0"
    if reg: "rateOfYear p L = 0 \<or> 1 / 10 ^ 9 \<le> \<bar>rateOfYear p L\<bar>"
  proof (cases "F < L")
    case True
    then have n: "0 < L - F" by simp
    have reg2: "rate2 p = 0 \<or> 1 / 10 ^ 9 \<le> \<bar>rate2 p\<bar>"
      using reg True by (simp add: ry)
    have "amortize (rate2 p) a2 (nat (L - F)) b1 = 0"
      using pmt_zero_balance[OF n f2[OF True] reg2 a2[OF True]] .
    then show ?thesis
      using True by (simp add: balanceAfter_def twoPhase_def fl b1_def)
  next
    case False
    then have eq: "F = L" using FL by simp
    then have F1: "1 \<le> F" using L by simp
    have reg1: "rate1 p = 0 \<or> 1 / 10 ^ 9 \<le> \<bar>rate1 p\<bar>"
      using reg eq by (simp add: ry)
    have "amortize (rate1 p) a1 (nat L) (auszahlung p) = 0"
      using pmt_zero_balance[OF Lp f1[OF F1] reg1 a1[OF F1]] .
    then show ?thesis
      using eq by (simp add: balanceAfter_def twoPhase_def fl)
  qed
  have a1o: "1 \<le> F \<longrightarrow> pmt (rate1 p) (of_int L) (Fin (auszahlung p)) = Fin a1"
    using a1 by simp
  have a2o: "F < L \<longrightarrow> pmt (rate2 p) (of_int (L - F)) (Fin (balanceAfter p a1 a2 F)) = Fin a2"
    using a2 by (simp add: bF)
  have zo: "rateOfYear p L = 0 \<or> 1 / 10 ^ 9 \<le> \<bar>rateOfYear p L\<bar>
              \<longrightarrow> balanceAfter p a1 a2 L = 0"
    using zero by simp
  show ?thesis using rows a1o a2o zo by blast
qed

lemma balanceAfter_step:
  assumes "1 \<le> k"
  shows "balanceAfter p a1 a2 (k - 1) + (paymentOfYear p a1 a2 k
           + balanceAfter p a1 a2 (k - 1) * rateOfYear p k) = balanceAfter p a1 a2 k"
  using twoPhase_step[OF assms, of "rate1 p" a1 "rate2 p" a2 "\<lfloor>firstPhaseYears p\<rfloor>" "auszahlung p"]
  by (simp add: balanceAfter_def paymentOfYear_def rateOfYear_def le_floor_iff algebra_simps)

lemma schedule_within_term:
  assumes "buildLoanSchedule p (loanTermYears p) k \<noteq> None"
  shows "k \<le> loanTermYears p"
proof (rule ccontr)
  assume "\<not> k \<le> loanTermYears p"
  then have k: "loanTermYears p < k" by simp
  obtain rem cum s where e: "phase2 p = (rem, cum, s)" by (cases "phase2 p")
  have "s k = None" using phase2_above[OF k] e by simp
  moreover have "buildLoanSchedule p (loanTermYears p) = s"
    using e by (simp add: buildLoanSchedule_def extendLoop_past)
  ultimately show False using assms by simp
qed

text \<open>
  C10. Without a horizon in the options the horizon is the loan term: the simulation is
  the one with \<open>horizonYears = loanTermYears\<close>. For whole year counts and a loan term of
  at least one year it returns one row per year of the loan and a loan schedule with no
  entry after the term, and its last row is the year of the last payment. That payment
  leaves a balance of exactly zero, all of the amount being repaid, when the rates are
  above \<open>-1\<close> and the rate of the last year is zero or at least the threshold of the
  annuity helper.
\<close>

theorem default_horizon:
  assumes none: "opt_horizonYears opts = None"
  shows "horizonOf p opts = loanTermYears p
     \<and> simulateExcelModel p opts =
         simulateExcelModel p \<lparr>opt_horizonYears = Some (loanTermYears p)\<rparr>
     \<and> (loanTermYears p \<in> \<int> \<and> fixRateYears p \<in> \<int> \<and> 1 \<le> loanTermYears p \<longrightarrow>
          (\<exists>res eL. simulateExcelModel p opts = Inr res
             \<and> meta_horizonYears (res_meta res) = loanTermYears p
             \<and> real (length (res_years res)) = loanTermYears p
             \<and> (\<forall>k. res_loanSchedule res k \<noteq> None \<longrightarrow> k \<le> loanTermYears p)
             \<and> res_loanSchedule res (loanTermYears p) = Some eL
             \<and> of_int (yearIndex (last (res_years res))) = loanTermYears p
             \<and> restDebtStart (last (res_years res)) = restStart eL
             \<and> principalPaid (last (res_years res)) = principal eL
             \<and> cumulativePrincipal (last (res_years res)) = cumPrincipal eL
             \<and> (- 1 < rate1 p \<and> - 1 < rate2 p
                  \<and> (rateOfYear p \<lfloor>loanTermYears p\<rfloor> = 0
                       \<or> 1 / 10 ^ 9 \<le> \<bar>rateOfYear p \<lfloor>loanTermYears p\<rfloor>\<bar>) \<longrightarrow>
                  js_add (restStart eL) (principal eL) = Fin 0
                  \<and> cumPrincipal eL = Fin (auszahlung p))))"
proof (intro conjI impI)
  show h: "horizonOf p opts = loanTermYears p" using none by (simp add: horizonOf_def)
  have h': "horizonOf p \<lparr>opt_horizonYears = Some (loanTermYears p)\<rparr> = loanTermYears p"
    by (simp add: horizonOf_def)
  show "simulateExcelModel p opts =
         simulateExcelModel p \<lparr>opt_horizonYears = Some (loanTermYears p)\<rparr>"
    by (simp add: simulateExcelModel_def h h')
  assume w: "loanTermYears p \<in> \<int> \<and> fixRateYears p \<in> \<int> \<and> 1 \<le> loanTermYears p"
  then have Li: "loanTermYears p \<in> \<int>" and Xi: "fixRateYears p \<in> \<int>"
    and L: "1 \<le> loanTermYears p" by simp_all
  define L' where "L' = \<lfloor>loanTermYears p\<rfloor>"
  define F' where "F' = \<lfloor>firstPhaseYears p\<rfloor>"
  have Leq: "loanTermYears p = of_int L'" unfolding L'_def using Li by (rule whole_floor)
  have Feq: "firstPhaseYears p = of_int F'"
    unfolding F'_def using firstPhase_whole[OF Li Xi] by (rule whole_floor)
  have L1: "1 \<le> L'" using L by (simp add: L'_def le_floor_iff)
  have hp: "1 \<le> horizonOf p opts" using h L by simp
  from simulate_whole_rows[OF hp Li Xi] obtain res where
    s: "simulateExcelModel p opts = Inr res"
    and sch: "res_loanSchedule res = buildLoanSchedule p (loanTermYears p)"
    and len: "length (res_years res) = nat L'"
    and rows: "\<forall>i < nat L'.
          \<exists>e. buildLoanSchedule p (loanTermYears p) (of_int (1 + int i)) = Some e
            \<and> yearRow p e (1 + int i)
                 ((buildingValue p + fittingUp p)
                    * (1 - buildingLossRate p + constructionCostGrowth p) ^ i)
                 (landValue p * (1 + landGrowthRate p) ^ i) (res_years res ! i)"
    and m: "meta_horizonYears (res_meta res) = loanTermYears p"
    unfolding h L'_def by blast
  define i where "i = nat L' - 1"
  have il: "i < nat L'" using L1 by (simp add: i_def)
  have iy: "1 + int i = L'" using L1 by (simp add: i_def)
  have ne: "res_years res \<noteq> []" using len L1 by auto
  have la: "last (res_years res) = res_years res ! i"
    using ne len by (simp add: last_conv_nth i_def)
  have lenr: "real (length (res_years res)) = loanTermYears p"
    using len L1 by (simp add: Leq)
  from rows il obtain eL where
    eL0: "buildLoanSchedule p (loanTermYears p) (of_int (1 + int i)) = Some eL"
    and row0: "yearRow p eL (1 + int i)
                 ((buildingValue p + fittingUp p)
                    * (1 - buildingLossRate p + constructionCostGrowth p) ^ i)
                 (landValue p * (1 + landGrowthRate p) ^ i) (res_years res ! i)"
    by blast
  have eL: "buildLoanSchedule p (loanTermYears p) (loanTermYears p) = Some eL"
    using eL0 unfolding iy Leq [symmetric] .
  have row: "yearRow p eL L'
                 ((buildingValue p + fittingUp p)
                    * (1 - buildingLossRate p + constructionCostGrowth p) ^ i)
                 (landValue p * (1 + landGrowthRate p) ^ i) (res_years res ! i)"
    using row0 unfolding iy .
  have dom: "\<forall>k. res_loanSchedule res k \<noteq> None \<longrightarrow> k \<le> loanTermYears p"
    using sch schedule_within_term by simp
  have lastrow: "of_int (yearIndex (last (res_years res))) = loanTermYears p
             \<and> restDebtStart (last (res_years res)) = restStart eL
             \<and> principalPaid (last (res_years res)) = principal eL
             \<and> cumulativePrincipal (last (res_years res)) = cumPrincipal eL"
    using row la by (simp add: yearRow_def Leq)
  have amort: "js_add (restStart eL) (principal eL) = Fin 0 \<and> cumPrincipal eL = Fin (auszahlung p)"
    if reg: "- 1 < rate1 p \<and> - 1 < rate2 p
                  \<and> (rateOfYear p \<lfloor>loanTermYears p\<rfloor> = 0
                       \<or> 1 / 10 ^ 9 \<le> \<bar>rateOfYear p \<lfloor>loanTermYears p\<rfloor>\<bar>)"
  proof -
    from reg have r1: "rate1 p \<noteq> - 2" and r2: "rate2 p \<noteq> - 2"
      and rg: "rateOfYear p L' = 0 \<or> 1 / 10 ^ 9 \<le> \<bar>rateOfYear p L'\<bar>"
      by (auto simp: L'_def)
    from loan_rows[OF Leq Feq L1] r1 r2 rg obtain a1 a2 s' where
      p2: "phase2 p = (Fin (balanceAfter p a1 a2 L'),
            Fin (auszahlung p - balanceAfter p a1 a2 L'), s')"
      and r: "\<forall>k. 1 \<le> k \<and> k \<le> L' \<longrightarrow>
               s' (of_int k) = Some \<lparr>restStart = Fin (balanceAfter p a1 a2 (k - 1)),
                  interest = Fin (- (balanceAfter p a1 a2 (k - 1) * rateOfYear p k)),
                  annuity = Fin (paymentOfYear p a1 a2 k),
                  principal = Fin (paymentOfYear p a1 a2 k
                                   + balanceAfter p a1 a2 (k - 1) * rateOfYear p k),
                  cumPrincipal = Fin (auszahlung p - balanceAfter p a1 a2 k)\<rparr>"
      and z: "balanceAfter p a1 a2 L' = 0"
      by blast
    have "buildLoanSchedule p (loanTermYears p) (of_int L') = s' (of_int L')"
      by (simp add: buildLoanSchedule_apply[OF p2 Leq])
    moreover have "buildLoanSchedule p (loanTermYears p) (of_int L') = Some eL"
      using eL0 unfolding iy .
    moreover have "s' (of_int L') = Some \<lparr>restStart = Fin (balanceAfter p a1 a2 (L' - 1)),
                  interest = Fin (- (balanceAfter p a1 a2 (L' - 1) * rateOfYear p L')),
                  annuity = Fin (paymentOfYear p a1 a2 L'),
                  principal = Fin (paymentOfYear p a1 a2 L'
                                   + balanceAfter p a1 a2 (L' - 1) * rateOfYear p L'),
                  cumPrincipal = Fin (auszahlung p - balanceAfter p a1 a2 L')\<rparr>"
      using r L1 by blast
    ultimately have e: "eL = \<lparr>restStart = Fin (balanceAfter p a1 a2 (L' - 1)),
                  interest = Fin (- (balanceAfter p a1 a2 (L' - 1) * rateOfYear p L')),
                  annuity = Fin (paymentOfYear p a1 a2 L'),
                  principal = Fin (paymentOfYear p a1 a2 L'
                                   + balanceAfter p a1 a2 (L' - 1) * rateOfYear p L'),
                  cumPrincipal = Fin (auszahlung p - balanceAfter p a1 a2 L')\<rparr>"
      by simp
    show ?thesis
      using balanceAfter_step[OF L1, of p a1 a2] z by (simp add: e)
  qed
  show "\<exists>res eL. simulateExcelModel p opts = Inr res
             \<and> meta_horizonYears (res_meta res) = loanTermYears p
             \<and> real (length (res_years res)) = loanTermYears p
             \<and> (\<forall>k. res_loanSchedule res k \<noteq> None \<longrightarrow> k \<le> loanTermYears p)
             \<and> res_loanSchedule res (loanTermYears p) = Some eL
             \<and> of_int (yearIndex (last (res_years res))) = loanTermYears p
             \<and> restDebtStart (last (res_years res)) = restStart eL
             \<and> principalPaid (last (res_years res)) = principal eL
             \<and> cumulativePrincipal (last (res_years res)) = cumPrincipal eL
             \<and> (- 1 < rate1 p \<and> - 1 < rate2 p
                  \<and> (rateOfYear p \<lfloor>loanTermYears p\<rfloor> = 0
                       \<or> 1 / 10 ^ 9 \<le> \<bar>rateOfYear p \<lfloor>loanTermYears p\<rfloor>\<bar>) \<longrightarrow>
                  js_add (restStart eL) (principal eL) = Fin 0
                  \<and> cumPrincipal eL = Fin (auszahlung p))"
    using s m lenr dom eL[folded sch] lastrow amort by blast
qed

theorem default_horizon_witness:
  "opt_horizonYears \<lparr>opt_horizonYears = None\<rparr> = None
   \<and> loanTermYears sample \<in> \<int> \<and> fixRateYears sample \<in> \<int> \<and> 1 \<le> loanTermYears sample
   \<and> horizonOf sample \<lparr>opt_horizonYears = None\<rparr> = 2
   \<and> simulateExcelModel sample \<lparr>opt_horizonYears = None\<rparr> =
         simulateExcelModel sample \<lparr>opt_horizonYears = Some 2\<rparr>
   \<and> (\<exists>res eL. simulateExcelModel sample \<lparr>opt_horizonYears = None\<rparr> = Inr res
         \<and> meta_horizonYears (res_meta res) = 2
         \<and> length (res_years res) = 2
         \<and> (\<forall>k. res_loanSchedule res k \<noteq> None \<longrightarrow> k \<le> 2)
         \<and> res_loanSchedule res 2 = Some eL
         \<and> yearIndex (last (res_years res)) = 2
         \<and> js_add (restStart eL) (principal eL) = Fin 0
         \<and> cumPrincipal eL = Fin (auszahlung sample))"
proof -
  have n: "opt_horizonYears \<lparr>opt_horizonYears = None\<rparr> = None" by simp
  have L: "loanTermYears sample = 2" by (simp add: sample_def)
  have fl: "\<lfloor>2 :: real\<rfloor> = 2" by simp
  have r1: "rate1 sample = 3 / 100" by (simp add: rate1_def sample_def)
  have r2: "rate2 sample = 3 / 100" by (simp add: rate2_def rate1_def sample_def)
  have ry: "rateOfYear sample 2 = 3 / 100"
    by (simp add: rateOfYear_def firstPhaseYears_def r1 r2)
  note t = default_horizon [OF n, of sample, unfolded L fl r1 r2 ry]
  have a: "horizonOf sample \<lparr>opt_horizonYears = None\<rparr> = 2" using t by simp
  have b: "simulateExcelModel sample \<lparr>opt_horizonYears = None\<rparr> =
         simulateExcelModel sample \<lparr>opt_horizonYears = Some 2\<rparr>" using t by simp
  have w: "loanTermYears sample \<in> \<int>" "fixRateYears sample \<in> \<int>" "1 \<le> loanTermYears sample"
    using sample_whole by (simp_all add: L)
  have hyp: "(2 :: real) \<in> \<int> \<and> fixRateYears sample \<in> \<int> \<and> (1 :: real) \<le> 2"
    using w by (simp add: L)
  have reg: "(- 1 :: real) < 3 / 100 \<and> (- 1 :: real) < 3 / 100
             \<and> ((3 / 100 :: real) = 0 \<or> 1 / 10 ^ 9 \<le> \<bar>3 / 100 :: real\<bar>)"
    by simp
  from t hyp obtain res eL where
    f: "simulateExcelModel sample \<lparr>opt_horizonYears = None\<rparr> = Inr res"
      "meta_horizonYears (res_meta res) = 2"
      "real (length (res_years res)) = 2"
      "\<forall>k. res_loanSchedule res k \<noteq> None \<longrightarrow> k \<le> 2"
      "res_loanSchedule res 2 = Some eL"
      "real_of_int (yearIndex (last (res_years res))) = 2"
    and imp: "(- 1 :: real) < 3 / 100 \<and> (- 1 :: real) < 3 / 100
             \<and> ((3 / 100 :: real) = 0 \<or> 1 / 10 ^ 9 \<le> \<bar>3 / 100 :: real\<bar>) \<longrightarrow>
           js_add (restStart eL) (principal eL) = Fin 0
           \<and> cumPrincipal eL = Fin (auszahlung sample)"
    by blast
  from imp reg have z: "js_add (restStart eL) (principal eL) = Fin 0"
    "cumPrincipal eL = Fin (auszahlung sample)" by blast+
  have l2: "length (res_years res) = 2" using f(3) by linarith
  have y2: "yearIndex (last (res_years res)) = 2" using f(6) by linarith
  have c: "\<exists>res eL. simulateExcelModel sample \<lparr>opt_horizonYears = None\<rparr> = Inr res
         \<and> meta_horizonYears (res_meta res) = 2
         \<and> length (res_years res) = 2
         \<and> (\<forall>k. res_loanSchedule res k \<noteq> None \<longrightarrow> k \<le> 2)
         \<and> res_loanSchedule res 2 = Some eL
         \<and> yearIndex (last (res_years res)) = 2
         \<and> js_add (restStart eL) (principal eL) = Fin 0
         \<and> cumPrincipal eL = Fin (auszahlung sample)"
    using f(1,2,4,5) l2 y2 z by blast
  show ?thesis using n w a b c by blast
qed

section \<open>The loan without interest\<close>

lemma twoPhase_zero_rate:
  assumes "0 \<le> k" "0 \<le> F"
  shows "twoPhase 0 a 0 a F A k = A + of_int k * a"
proof (cases "k \<le> F")
  case True
  then show ?thesis using assms by (simp add: twoPhase_def amortize_zero_rate)
next
  case False
  then have "of_nat (nat (k - F)) = (of_int k :: real) - of_int F" by simp
  then show ?thesis using False assms
    by (simp add: twoPhase_def amortize_zero_rate algebra_simps)
qed

lemma zero_rate_rows:
  assumes r1: "rate1 p = 0" and r2: "rate2 p = 0"
    and Li: "loanTermYears p = of_int L" and Fi: "firstPhaseYears p = of_int F"
    and L: "1 \<le> L" and F: "0 \<le> F"
  shows "\<exists>s. phase2 p = (Fin 0, Fin (auszahlung p), s)
     \<and> (\<forall>k. 1 \<le> k \<and> k \<le> L \<longrightarrow>
          s (of_int k) = Some \<lparr>restStart = Fin (auszahlung p
                          - of_int (k - 1) * (auszahlung p / of_int L)),
                 interest = Fin 0,
                 annuity = Fin (- (auszahlung p / of_int L)),
                 principal = Fin (- (auszahlung p / of_int L)),
                 cumPrincipal = Fin (of_int k * (auszahlung p / of_int L))\<rparr>)"
proof -
  define A where "A = auszahlung p"
  define Lr where "Lr = (of_int L :: real)"
  define a where "a = - (A / Lr)"
  have Lr: "0 < Lr" using L by (simp add: Lr_def)
  have fl: "\<lfloor>firstPhaseYears p\<rfloor> = F" by (simp add: Fi)
  have R: "remainingYears p = of_int (L - F)" using remainingYears_eq[of p] by (simp add: Fi Li)
  have a1: "pmt (rate1 p) (loanTermYears p) (Fin (auszahlung p)) = Fin a"
    using L by (simp add: r1 pmt_small a_def A_def Lr_def Li)
  have b1: "amortize (rate1 p) a (nat F) (auszahlung p) = A + of_int F * a"
    using F by (simp add: r1 amortize_zero_rate A_def)
  have a2: "pmt (rate2 p) (remainingYears p)
              (Fin (amortize (rate1 p) a (nat F) (auszahlung p))) = Fin a"
    if Rp: "0 < remainingYears p"
  proof -
    define Fr where "Fr = (of_int F :: real)"
    have d: "Lr - Fr \<noteq> 0" using Rp by (simp add: R Lr_def Fr_def)
    have "(A + Fr * a) / (Lr - Fr) = A / Lr"
      using d Lr by (simp add: a_def field_simps)
    then have q: "- ((A + Fr * a) / (Lr - Fr)) = a"
      by (simp add: a_def)
    have "pmt (rate2 p) (remainingYears p) (Fin (A + Fr * a))
            = Fin (- ((A + Fr * a) / (Lr - Fr)))"
      using Rp by (simp add: r2 pmt_small R Fr_def Lr_def)
    then have "pmt (rate2 p) (remainingYears p) (Fin (A + Fr * a)) = Fin a"
      by (simp only: q)
    then show ?thesis by (simp only: b1 Fr_def)
  qed
  have bal: "balanceAfter p a a k = A + of_int k * a" if "0 \<le> k" for k
    using that F by (simp add: balanceAfter_def r1 r2 fl twoPhase_zero_rate A_def)
  have ry: "rateOfYear p k = 0" for k by (simp add: rateOfYear_def r1 r2)
  have py: "paymentOfYear p a a k = a" for k by (simp add: paymentOfYear_def)
  have end0: "A + Lr * a = 0" using Lr by (simp add: a_def)
  from phase2_rows[OF Li Fi a1 a2] obtain s where
    p2: "phase2 p = (Fin (balanceAfter p a a L),
            Fin (auszahlung p - balanceAfter p a a L), s)"
    and rows: "\<forall>k. 1 \<le> k \<and> k \<le> L \<longrightarrow>
               s (of_int k) = Some \<lparr>restStart = Fin (balanceAfter p a a (k - 1)),
                  interest = Fin (- (balanceAfter p a a (k - 1) * rateOfYear p k)),
                  annuity = Fin (paymentOfYear p a a k),
                  principal = Fin (paymentOfYear p a a k
                                   + balanceAfter p a a (k - 1) * rateOfYear p k),
                  cumPrincipal = Fin (auszahlung p - balanceAfter p a a k)\<rparr>"
    by blast
  have bL: "balanceAfter p a a L = 0"
    using bal[of L] L end0 by (simp add: Lr_def)
  have p2': "phase2 p = (Fin 0, Fin (auszahlung p), s)" using p2 by (simp add: bL)
  have rows': "s (of_int k) = Some \<lparr>restStart = Fin (auszahlung p
                          - of_int (k - 1) * (auszahlung p / of_int L)),
                 interest = Fin 0,
                 annuity = Fin (- (auszahlung p / of_int L)),
                 principal = Fin (- (auszahlung p / of_int L)),
                 cumPrincipal = Fin (of_int k * (auszahlung p / of_int L))\<rparr>"
    if k: "1 \<le> k \<and> k \<le> L" for k
  proof -
    have k0: "0 \<le> k - 1" "0 \<le> k" using k by simp_all
    have 1: "balanceAfter p a a (k - 1) = A - of_int (k - 1) * (A / Lr)"
      using bal[OF k0(1)] by (simp add: a_def)
    have 2: "auszahlung p - balanceAfter p a a k = of_int k * (A / Lr)"
      using bal[OF k0(2)] by (simp add: a_def A_def)
    have "s (of_int k) = Some \<lparr>restStart = Fin (balanceAfter p a a (k - 1)),
                  interest = Fin (- (balanceAfter p a a (k - 1) * rateOfYear p k)),
                  annuity = Fin (paymentOfYear p a a k),
                  principal = Fin (paymentOfYear p a a k
                                   + balanceAfter p a a (k - 1) * rateOfYear p k),
                  cumPrincipal = Fin (auszahlung p - balanceAfter p a a k)\<rparr>"
      using rows k by blast
    then show ?thesis
      by (simp add: ry py 1 2) (simp add: a_def A_def Lr_def)
  qed
  show ?thesis using p2' rows' by blast
qed

text \<open>
  C4. With a rate of zero in both phases (the second rate zero or left out), whole year
  counts, a loan term of at least one year and a fixed-rate period that is not negative,
  every year from 1 to the loan term records zero interest and a principal of
  \<open>-(auszahlung / loanTermYears)\<close>; the balance at the start of year \<open>k\<close> is the amount
  less \<open>k - 1\<close> such parts, and the balance after the payment of the last year is exactly
  zero, wherever the fixed-rate period ends.
\<close>

theorem zero_interest_linear:
  assumes sim: "simulateExcelModel p opts = Inr res"
    and i1: "interestRate1 p = 0"
    and i2: "interestRate2 p = None \<or> interestRate2 p = Some 0"
    and Li: "loanTermYears p \<in> \<int>" and Xi: "fixRateYears p \<in> \<int>"
    and L: "1 \<le> loanTermYears p"
    and F: "0 \<le> fixRateYears p"
  shows "(\<forall>k. 1 \<le> k \<and> of_int k \<le> loanTermYears p \<longrightarrow>
           (\<exists>e. res_loanSchedule res (of_int k) = Some e
              \<and> interest e = Fin 0
              \<and> principal e = Fin (- (auszahlung p / loanTermYears p))
              \<and> annuity e = Fin (- (auszahlung p / loanTermYears p))
              \<and> restStart e =
                  Fin (auszahlung p - of_int (k - 1) * (auszahlung p / loanTermYears p))
              \<and> cumPrincipal e = Fin (of_int k * (auszahlung p / loanTermYears p))))
       \<and> (\<exists>e. res_loanSchedule res (loanTermYears p) = Some e
              \<and> js_add (restStart e) (principal e) = Fin 0
              \<and> cumPrincipal e = Fin (auszahlung p))"
proof -
  define L' where "L' = \<lfloor>loanTermYears p\<rfloor>"
  define F' where "F' = \<lfloor>firstPhaseYears p\<rfloor>"
  have Leq: "loanTermYears p = of_int L'" unfolding L'_def using Li by (rule whole_floor)
  have Feq: "firstPhaseYears p = of_int F'"
    unfolding F'_def using firstPhase_whole[OF Li Xi] by (rule whole_floor)
  have L1: "1 \<le> L'" using L by (simp add: L'_def le_floor_iff)
  have "0 \<le> firstPhaseYears p" using F L by (simp add: firstPhaseYears_def)
  then have F0: "0 \<le> F'" by (simp add: F'_def)
  have r1: "rate1 p = 0" using i1 by (simp add: rate1_def)
  have r2: "rate2 p = 0" using i2 r1 by (auto simp: rate2_def)
  from zero_rate_rows[OF r1 r2 Leq Feq L1 F0] obtain s where
    p2: "phase2 p = (Fin 0, Fin (auszahlung p), s)"
    and rows: "\<forall>k. 1 \<le> k \<and> k \<le> L' \<longrightarrow>
          s (of_int k) = Some \<lparr>restStart = Fin (auszahlung p
                          - of_int (k - 1) * (auszahlung p / loanTermYears p)),
                 interest = Fin 0,
                 annuity = Fin (- (auszahlung p / loanTermYears p)),
                 principal = Fin (- (auszahlung p / loanTermYears p)),
                 cumPrincipal = Fin (of_int k * (auszahlung p / loanTermYears p))\<rparr>"
    unfolding Leq [symmetric] by blast
  have sch: "res_loanSchedule res (of_int k) = s (of_int k)" if "k \<le> L'" for k
    using simulate_InrD[OF sim] that by (simp add: buildLoanSchedule_apply[OF p2 Leq])
  have a: "\<exists>e. res_loanSchedule res (of_int k) = Some e
              \<and> interest e = Fin 0
              \<and> principal e = Fin (- (auszahlung p / loanTermYears p))
              \<and> annuity e = Fin (- (auszahlung p / loanTermYears p))
              \<and> restStart e =
                  Fin (auszahlung p - of_int (k - 1) * (auszahlung p / loanTermYears p))
              \<and> cumPrincipal e = Fin (of_int k * (auszahlung p / loanTermYears p))"
    if k: "1 \<le> k \<and> of_int k \<le> loanTermYears p" for k
  proof -
    have k': "1 \<le> k \<and> k \<le> L'" using k by (simp add: Leq)
    then have "s (of_int k) = Some \<lparr>restStart = Fin (auszahlung p
                          - of_int (k - 1) * (auszahlung p / loanTermYears p)),
                 interest = Fin 0,
                 annuity = Fin (- (auszahlung p / loanTermYears p)),
                 principal = Fin (- (auszahlung p / loanTermYears p)),
                 cumPrincipal = Fin (of_int k * (auszahlung p / loanTermYears p))\<rparr>"
      using rows by blast
    then show ?thesis using sch[of k] k' by simp
  qed
  have Lr: "loanTermYears p \<noteq> 0" using L by simp
  have last0: "auszahlung p - of_int (L' - 1) * (auszahlung p / loanTermYears p)
                 + - (auszahlung p / loanTermYears p) = 0"
    using Lr by (simp add: Leq field_simps)
  have lastc: "of_int L' * (auszahlung p / loanTermYears p) = auszahlung p"
    using Lr by (simp add: Leq)
  have "s (of_int L') = Some \<lparr>restStart = Fin (auszahlung p
                          - of_int (L' - 1) * (auszahlung p / loanTermYears p)),
                 interest = Fin 0,
                 annuity = Fin (- (auszahlung p / loanTermYears p)),
                 principal = Fin (- (auszahlung p / loanTermYears p)),
                 cumPrincipal = Fin (of_int L' * (auszahlung p / loanTermYears p))\<rparr>"
    using rows L1 by blast
  then have "\<exists>e. res_loanSchedule res (of_int L') = Some e
              \<and> js_add (restStart e) (principal e) = Fin 0
              \<and> cumPrincipal e = Fin (auszahlung p)"
    using sch[of L'] last0 lastc by simp
  then have b: "\<exists>e. res_loanSchedule res (loanTermYears p) = Some e
              \<and> js_add (restStart e) (principal e) = Fin 0
              \<and> cumPrincipal e = Fin (auszahlung p)"
    unfolding Leq [symmetric] .
  show ?thesis using a b by blast
qed

theorem zero_interest_linear_witness:
  "\<exists>res. simulateExcelModel (sample\<lparr>interestRate1 := 0\<rparr>) \<lparr>opt_horizonYears = Some 3\<rparr> = Inr res
     \<and> interestRate1 (sample\<lparr>interestRate1 := 0\<rparr>) = 0
     \<and> interestRate2 (sample\<lparr>interestRate1 := 0\<rparr>) = None
     \<and> loanTermYears (sample\<lparr>interestRate1 := 0\<rparr>) \<in> \<int>
     \<and> fixRateYears (sample\<lparr>interestRate1 := 0\<rparr>) \<in> \<int>
     \<and> 1 \<le> loanTermYears (sample\<lparr>interestRate1 := 0\<rparr>)
     \<and> 0 \<le> fixRateYears (sample\<lparr>interestRate1 := 0\<rparr>)
     \<and> (\<exists>e. res_loanSchedule res 1 = Some e \<and> interest e = Fin 0
            \<and> principal e = Fin (- (auszahlung (sample\<lparr>interestRate1 := 0\<rparr>) / 2)))
     \<and> (\<exists>e. res_loanSchedule res 2 = Some e \<and> interest e = Fin 0
            \<and> principal e = Fin (- (auszahlung (sample\<lparr>interestRate1 := 0\<rparr>) / 2))
            \<and> js_add (restStart e) (principal e) = Fin 0)"
proof -
  let ?p = "sample\<lparr>interestRate1 := 0\<rparr>"
  have h: "1 \<le> horizonOf ?p \<lparr>opt_horizonYears = Some 3\<rparr>" by (simp add: horizonOf_def)
  have Li: "loanTermYears ?p \<in> \<int>" and Xi: "fixRateYears ?p \<in> \<int>"
    by (simp_all add: sample_def)
  from simulate_whole_rows[OF h Li Xi] obtain res where
    s: "simulateExcelModel ?p \<lparr>opt_horizonYears = Some 3\<rparr> = Inr res" by blast
  have i1: "interestRate1 ?p = 0" by simp
  have i2n: "interestRate2 ?p = None" by (simp add: sample_def)
  then have i2: "interestRate2 ?p = None \<or> interestRate2 ?p = Some 0" by simp
  have Lv: "loanTermYears ?p = 2" by (simp add: sample_def)
  have L: "1 \<le> loanTermYears ?p" by (simp add: Lv)
  have F: "0 \<le> fixRateYears ?p" by (simp add: sample_def)
  note t = zero_interest_linear [OF s i1 i2 Li Xi L F, unfolded Lv]
  have k1: "\<exists>e. res_loanSchedule res 1 = Some e \<and> interest e = Fin 0
            \<and> principal e = Fin (- (auszahlung ?p / 2))"
    using t[THEN conjunct1, rule_format, of 1] by auto
  have k2: "\<exists>e. res_loanSchedule res 2 = Some e \<and> interest e = Fin 0
            \<and> principal e = Fin (- (auszahlung ?p / 2))
            \<and> js_add (restStart e) (principal e) = Fin 0"
    using t[THEN conjunct1, rule_format, of 2] t[THEN conjunct2] by auto
  show ?thesis using s i1 i2n Li Xi L F k1 k2 by blast
qed

section \<open>The cumulative principal\<close>

text \<open>
  Below its threshold the annuity helper takes the payment \<open>-(P / n)\<close> of a loan without
  interest. At a rate \<open>r\<close> that is not zero the balance then stays off the straight
  line from \<open>P\<close> to zero by at most \<open>\<bar>P\<bar> \<sqdot> ((1 + \<bar>r\<bar>)\<^sup>k - 1)\<close> after \<open>k\<close> years, which is what
  is left after the last one; and at a positive rate on a positive amount at least
  \<open>r \<sqdot> P \<sqdot> (n + 1) / 2\<close> is left.
\<close>

lemma linear_deviation:
  fixes r P :: real
  assumes n: "0 < n" and k: "k \<le> n"
  shows "\<bar>amortize r (- (P / of_nat n)) k P - (P - of_nat k * (P / of_nat n))\<bar>
           \<le> \<bar>P\<bar> * ((1 + \<bar>r\<bar>) ^ k - 1)"
  using k
proof (induction k)
  case 0
  then show ?case by simp
next
  case (Suc k)
  define f where "f = amortize r (- (P / of_nat n)) k P"
  define g where "g = P - of_nat k * (P / of_nat n)"
  define x where "x = \<bar>r\<bar>"
  have kn: "k \<le> n" using Suc.prems by simp
  have ih: "\<bar>f - g\<bar> \<le> \<bar>P\<bar> * ((1 + x) ^ k - 1)"
    using Suc.IH[OF kn] by (simp add: f_def g_def x_def)
  have c: "0 \<le> 1 - of_nat k / (of_nat n :: real)" "1 - of_nat k / (of_nat n :: real) \<le> 1"
    using kn n by simp_all
  have "g = P * (1 - of_nat k / of_nat n)" by (simp add: g_def algebra_simps)
  then have "\<bar>g\<bar> = \<bar>P\<bar> * (1 - of_nat k / of_nat n)"
    using c(1) by (simp add: abs_mult)
  also have "\<dots> \<le> \<bar>P\<bar> * 1"
    using c(2) by (intro mult_left_mono) simp_all
  finally have g: "\<bar>g\<bar> \<le> \<bar>P\<bar>" by simp
  have e: "amortize r (- (P / of_nat n)) (Suc k) P - (P - of_nat (Suc k) * (P / of_nat n))
           = (f - g) * (1 + r) + r * g"
    using n by (simp only: amortize_Suc_back f_def [symmetric]) (simp add: g_def field_simps)
  have "\<bar>(f - g) * (1 + r) + r * g\<bar> \<le> \<bar>(f - g) * (1 + r)\<bar> + \<bar>r * g\<bar>"
    by (rule abs_triangle_ineq)
  also have "\<dots> = \<bar>f - g\<bar> * \<bar>1 + r\<bar> + x * \<bar>g\<bar>"
    by (simp add: abs_mult x_def)
  also have "\<dots> \<le> \<bar>P\<bar> * ((1 + x) ^ k - 1) * (1 + x) + x * \<bar>P\<bar>"
  proof (intro add_mono mult_mono)
    show "\<bar>f - g\<bar> \<le> \<bar>P\<bar> * ((1 + x) ^ k - 1)" by (rule ih)
    show "\<bar>1 + r\<bar> \<le> 1 + x" unfolding x_def by (simp add: abs_if)
    show "0 \<le> \<bar>P\<bar> * ((1 + x) ^ k - 1)" using ih abs_ge_zero[of "f - g"] by linarith
    show "0 \<le> \<bar>1 + r\<bar>" by simp
    show "x \<le> x" by simp
    show "\<bar>g\<bar> \<le> \<bar>P\<bar>" by (rule g)
    show "0 \<le> x" by (simp add: x_def)
    show "0 \<le> \<bar>g\<bar>" by simp
  qed
  also have "\<dots> = \<bar>P\<bar> * ((1 + x) ^ Suc k - 1)"
    by (simp add: algebra_simps)
  finally show ?case unfolding e x_def .
qed

lemma linear_residual:
  fixes r P :: real
  assumes n: "0 < n"
  shows "\<bar>amortize r (- (P / of_nat n)) n P\<bar> \<le> \<bar>P\<bar> * ((1 + \<bar>r\<bar>) ^ n - 1)"
proof -
  have "P - of_nat n * (P / of_nat n) = 0" using n by simp
  then show ?thesis using linear_deviation[OF n order_refl, of r P] by simp
qed

lemma power_bound:
  fixes x :: real
  assumes x: "0 \<le> x"
  shows "(1 + x) ^ n * (1 - of_nat n * x) \<le> 1"
proof (induction n)
  case 0
  then show ?case by simp
next
  case (Suc n)
  have "(1 + x) * (1 - of_nat (Suc n) * x) = 1 - of_nat n * x - of_nat (Suc n) * x * x"
    by (simp add: algebra_simps)
  also have "\<dots> \<le> 1 - of_nat n * x"
    using x by simp
  finally have s: "(1 + x) * (1 - of_nat (Suc n) * x) \<le> 1 - of_nat n * x" .
  have p: "0 \<le> (1 + x) ^ n" using x by simp
  have "(1 + x) ^ Suc n * (1 - of_nat (Suc n) * x)
        = (1 + x) ^ n * ((1 + x) * (1 - of_nat (Suc n) * x))"
    by (simp add: mult.assoc mult.commute)
  also have "\<dots> \<le> (1 + x) ^ n * (1 - of_nat n * x)"
    using s p by (rule mult_left_mono)
  also have "\<dots> \<le> 1" by (rule Suc.IH)
  finally show ?case .
qed

lemma tolerance_bound:
  fixes x :: real
  assumes x: "0 \<le> x" "x < 1 / 10 ^ 9" and n: "n \<le> 999"
  shows "(1 + x) ^ n - 1 \<le> 1 / 10 ^ 6"
proof -
  have "of_nat n * x \<le> 999 * x"
    using n x(1) by (intro mult_right_mono) simp_all
  also have "\<dots> \<le> 999 / 10 ^ 9" using x(2) by simp
  finally have nx: "of_nat n * x \<le> 999 / 10 ^ 9" .
  then have d: "1 - 999 / 10 ^ 9 \<le> 1 - of_nat n * x" by simp
  have p: "0 \<le> (1 + x) ^ n" using x by simp
  have "(1 + x) ^ n * (1 - 999 / 10 ^ 9) \<le> (1 + x) ^ n * (1 - of_nat n * x)"
    using d p by (rule mult_left_mono)
  also have "\<dots> \<le> 1" using x(1) by (rule power_bound)
  finally have "(1 + x) ^ n * (1 - 999 / 10 ^ 9) \<le> 1" .
  then have "(1 + x) ^ n \<le> 1 / (1 - 999 / 10 ^ 9)"
    by (simp add: pos_le_divide_eq)
  also have "\<dots> \<le> 1 + 1 / 10 ^ 6" by simp
  finally show ?thesis by simp
qed

lemma linear_residual_lower:
  fixes r P :: real
  assumes r: "0 \<le> r" and P: "0 \<le> P" and n: "0 < n" and k: "k \<le> n"
  shows "P - of_nat k * (P / of_nat n)
           + r * P * (of_nat k - of_nat k * (of_nat k - 1) / (2 * of_nat n))
         \<le> amortize r (- (P / of_nat n)) k P"
  using k
proof (induction k)
  case 0
  then show ?case by simp
next
  case (Suc k)
  define f where "f = amortize r (- (P / of_nat n)) k P"
  define g where "g = P - of_nat k * (P / of_nat n)"
  define S where "S = P * (of_nat k - of_nat k * (of_nat k - 1) / (2 * of_nat n))"
  define N where "N = (of_nat n :: real)"
  define K where "K = (of_nat k :: real)"
  have kn: "k \<le> n" using Suc.prems by simp
  have N0: "0 < N" using n by (simp add: N_def)
  have KN: "K \<le> N" "0 \<le> K" using kn by (simp_all add: K_def N_def)
  have ih: "g + r * S \<le> f"
    using Suc.IH[OF kn] by (simp add: f_def g_def S_def algebra_simps)
  have "0 \<le> K * (K - 1)"
  proof (cases k)
    case 0
    then show ?thesis by (simp add: K_def)
  next
    case (Suc j)
    then have "1 \<le> K" by (simp add: K_def)
    then show ?thesis using KN(2) by simp
  qed
  have "K - 1 \<le> 2 * N" using KN N0 by simp
  then have "K * (K - 1) \<le> K * (2 * N)"
    using KN(2) by (rule mult_left_mono)
  then have "K * (K - 1) / (2 * N) \<le> K"
    using N0 by (simp add: pos_divide_le_eq)
  then have "0 \<le> K - K * (K - 1) / (2 * N)" by simp
  then have S0: "0 \<le> S" using P by (simp add: S_def K_def N_def)
  have "0 \<le> r * S" using r S0 by simp
  then have g0: "g \<le> f" using ih by linarith
  have step: "amortize r (- (P / of_nat n)) (Suc k) P = f * (1 + r) - P / N"
    by (simp add: amortize_Suc_back f_def N_def del: amortize.simps)
  have sk: "(of_nat (Suc k) :: real) = K + 1" by (simp add: K_def)
  have gK: "g = P - K * (P / N)" by (simp add: g_def K_def N_def)
  have SK: "S = P * (K - K * (K - 1) / (2 * N))" by (simp add: S_def K_def N_def)
  have "P - (K + 1) * (P / N) + r * P * ((K + 1) - (K + 1) * ((K + 1) - 1) / (2 * N))
        = (g + r * S) - P / N + r * g"
    unfolding gK SK using N0 by (simp add: field_simps)
  then have "P - of_nat (Suc k) * (P / of_nat n)
           + r * P * (of_nat (Suc k) - of_nat (Suc k) * (of_nat (Suc k) - 1) / (2 * of_nat n))
        = (g + r * S) - P / N + r * g"
    unfolding sk N_def .
  also have "\<dots> \<le> f - P / N + r * f"
    using ih g0 r by (simp add: add_mono mult_left_mono)
  also have "\<dots> = f * (1 + r) - P / N" by (simp add: algebra_simps)
  finally show ?case unfolding step .
qed

text \<open>
  C1, as amended. For whole year counts, a loan term of at least one year and payments
  that are finite numbers (the annuity formula divides by zero only at the rate \<open>-2\<close>
  over an even number of years), in exact arithmetic: in every year \<open>k\<close> from 1 to the
  loan term the cumulative principal recorded is the amount paid out less the balance
  after the payment of the year, that is \<open>restStart + principal\<close> of the row, which for
  \<open>k\<close> before the last year is the balance recorded at the start of year \<open>k + 1\<close>. The
  rows after the loan term record a balance of zero and keep the cumulative principal of
  the last year of the loan, the amount less the balance left by the last payment. That
  balance is exactly zero when the rate of the last phase is zero or at least \<open>10\<^sup>-\<^sup>9\<close>
  in magnitude. Below that threshold it is at most \<open>(1 + \<bar>r\<bar>)\<^sup>n - 1\<close> times the balance
  the last phase of \<open>n\<close> years started from, which is within the relative tolerance of
  \<open>10\<^sup>-\<^sup>6\<close> for a phase of up to 999 years.
\<close>

theorem cumulative_principal_balance:
  assumes sim: "simulateExcelModel p opts = Inr res"
    and Li: "loanTermYears p \<in> \<int>" and Xi: "fixRateYears p \<in> \<int>"
    and L: "1 \<le> loanTermYears p"
    and f1: "1 \<le> firstPhaseYears p \<longrightarrow> \<not> (rate1 p = - 2 \<and> even \<lfloor>loanTermYears p\<rfloor>)"
    and f2: "firstPhaseYears p < loanTermYears p \<longrightarrow>
               \<not> (rate2 p = - 2 \<and> even (\<lfloor>loanTermYears p\<rfloor> - \<lfloor>firstPhaseYears p\<rfloor>))"
  shows "\<exists>bal.
      (\<forall>k. 1 \<le> k \<and> of_int k \<le> loanTermYears p \<longrightarrow>
         (\<exists>e. res_loanSchedule res (of_int k) = Some e
            \<and> js_add (restStart e) (principal e) = Fin (bal k)
            \<and> cumPrincipal e = Fin (auszahlung p - bal k)
            \<and> (of_int k < loanTermYears p \<longrightarrow>
                 (\<exists>e'. res_loanSchedule res (of_int (k + 1)) = Some e'
                    \<and> restStart e' = Fin (bal k)))))
      \<and> (\<forall>k. loanTermYears p < of_int k \<and> of_int k \<le> horizonOf p opts \<longrightarrow>
           (\<exists>e. res_loanSchedule res (of_int k) = Some e \<and> restStart e = Fin 0
              \<and> principal e = Fin 0
              \<and> cumPrincipal e = Fin (auszahlung p - bal \<lfloor>loanTermYears p\<rfloor>)))
      \<and> (rateOfYear p \<lfloor>loanTermYears p\<rfloor> = 0
           \<or> 1 / 10 ^ 9 \<le> \<bar>rateOfYear p \<lfloor>loanTermYears p\<rfloor>\<bar>
           \<longrightarrow> bal \<lfloor>loanTermYears p\<rfloor> = 0)
      \<and> (\<bar>rateOfYear p \<lfloor>loanTermYears p\<rfloor>\<bar> < 1 / 10 ^ 9 \<longrightarrow>
           \<bar>bal \<lfloor>loanTermYears p\<rfloor>\<bar>
             \<le> \<bar>lastPhaseStart p bal\<bar>
                 * ((1 + \<bar>rateOfYear p \<lfloor>loanTermYears p\<rfloor>\<bar>) ^ nat (lastPhaseYears p) - 1)
           \<and> (lastPhaseYears p \<le> 999 \<longrightarrow>
                 \<bar>bal \<lfloor>loanTermYears p\<rfloor>\<bar> \<le> \<bar>lastPhaseStart p bal\<bar> / 10 ^ 6))"
proof -
  define L' where "L' = \<lfloor>loanTermYears p\<rfloor>"
  define F' where "F' = \<lfloor>firstPhaseYears p\<rfloor>"
  define A where "A = auszahlung p"
  have Leq: "loanTermYears p = of_int L'" unfolding L'_def using Li by (rule whole_floor)
  have Feq: "firstPhaseYears p = of_int F'"
    unfolding F'_def using firstPhase_whole[OF Li Xi] by (rule whole_floor)
  have L1: "1 \<le> L'" using L by (simp add: L'_def le_floor_iff)
  have FL: "F' \<le> L'" using firstPhase_le[of p] by (simp add: Feq Leq)
  have f1': "\<not> (rate1 p = - 2 \<and> even L')" if "1 \<le> F'"
  proof -
    have "1 \<le> firstPhaseYears p" using that by (simp add: Feq)
    then show ?thesis using f1 by (simp add: L'_def)
  qed
  have f2': "\<not> (rate2 p = - 2 \<and> even (L' - F'))" if "F' < L'"
  proof -
    have "firstPhaseYears p < loanTermYears p" using that by (simp add: Feq Leq)
    then show ?thesis using f2 by (simp add: L'_def F'_def)
  qed
  from loan_rows[OF Leq Feq L1 f1' f2'] obtain a1 a2 s where
    p2: "phase2 p = (Fin (balanceAfter p a1 a2 L'),
            Fin (auszahlung p - balanceAfter p a1 a2 L'), s)"
    and rows: "\<forall>k. 1 \<le> k \<and> k \<le> L' \<longrightarrow>
               s (of_int k) = Some \<lparr>restStart = Fin (balanceAfter p a1 a2 (k - 1)),
                  interest = Fin (- (balanceAfter p a1 a2 (k - 1) * rateOfYear p k)),
                  annuity = Fin (paymentOfYear p a1 a2 k),
                  principal = Fin (paymentOfYear p a1 a2 k
                                   + balanceAfter p a1 a2 (k - 1) * rateOfYear p k),
                  cumPrincipal = Fin (auszahlung p - balanceAfter p a1 a2 k)\<rparr>"
    and pa1: "1 \<le> F' \<longrightarrow> pmt (rate1 p) (of_int L') (Fin (auszahlung p)) = Fin a1"
    and pa2: "F' < L' \<longrightarrow>
                pmt (rate2 p) (of_int (L' - F')) (Fin (balanceAfter p a1 a2 F')) = Fin a2"
    and z: "rateOfYear p L' = 0 \<or> 1 / 10 ^ 9 \<le> \<bar>rateOfYear p L'\<bar>
              \<longrightarrow> balanceAfter p a1 a2 L' = 0"
    by blast
  define bal where "bal = balanceAfter p a1 a2"
  have sch: "res_loanSchedule res (of_int k) =
       (if L' + 1 \<le> k \<and> of_int k \<le> horizonOf p opts
        then Some (zeroEntry (Fin (auszahlung p - bal L'))) else s (of_int k))" for k
    using simulate_InrD[OF sim] by (simp add: buildLoanSchedule_apply[OF p2 Leq] bal_def)
  have a: "\<exists>e. res_loanSchedule res (of_int k) = Some e
            \<and> js_add (restStart e) (principal e) = Fin (bal k)
            \<and> cumPrincipal e = Fin (auszahlung p - bal k)
            \<and> (of_int k < loanTermYears p \<longrightarrow>
                 (\<exists>e'. res_loanSchedule res (of_int (k + 1)) = Some e'
                    \<and> restStart e' = Fin (bal k)))"
    if k: "1 \<le> k \<and> of_int k \<le> loanTermYears p" for k
  proof -
    have k1: "1 \<le> k" and kL: "k \<le> L'" using k by (simp_all add: Leq)
    have e: "res_loanSchedule res (of_int k) = s (of_int k)" using kL by (simp add: sch)
    have row: "s (of_int k) = Some \<lparr>restStart = Fin (balanceAfter p a1 a2 (k - 1)),
                  interest = Fin (- (balanceAfter p a1 a2 (k - 1) * rateOfYear p k)),
                  annuity = Fin (paymentOfYear p a1 a2 k),
                  principal = Fin (paymentOfYear p a1 a2 k
                                   + balanceAfter p a1 a2 (k - 1) * rateOfYear p k),
                  cumPrincipal = Fin (auszahlung p - balanceAfter p a1 a2 k)\<rparr>"
      using rows k1 kL by blast
    have next_row: "\<exists>e'. res_loanSchedule res (of_int (k + 1)) = Some e'
                      \<and> restStart e' = Fin (bal k)"
      if lt: "of_int k < loanTermYears p"
    proof -
      have kl: "k < L'" using lt by (simp add: Leq)
      then have "res_loanSchedule res (of_int (k + 1)) = s (of_int (k + 1))"
        by (simp only: sch) simp
      moreover have "s (of_int (k + 1)) =
               Some \<lparr>restStart = Fin (balanceAfter p a1 a2 (k + 1 - 1)),
                  interest = Fin (- (balanceAfter p a1 a2 (k + 1 - 1) * rateOfYear p (k + 1))),
                  annuity = Fin (paymentOfYear p a1 a2 (k + 1)),
                  principal = Fin (paymentOfYear p a1 a2 (k + 1)
                                   + balanceAfter p a1 a2 (k + 1 - 1) * rateOfYear p (k + 1)),
                  cumPrincipal = Fin (auszahlung p - balanceAfter p a1 a2 (k + 1))\<rparr>"
        using rows k1 kl by (intro rows[rule_format]) simp
      ultimately show ?thesis by (simp add: bal_def)
    qed
    show ?thesis
      using next_row balanceAfter_step[OF k1, of p a1 a2]
      by (simp add: e row bal_def)
  qed
  have b: "\<exists>e. res_loanSchedule res (of_int k) = Some e \<and> restStart e = Fin 0
              \<and> principal e = Fin 0
              \<and> cumPrincipal e = Fin (auszahlung p - bal \<lfloor>loanTermYears p\<rfloor>)"
    if "loanTermYears p < of_int k \<and> of_int k \<le> horizonOf p opts" for k
  proof -
    have "L' + 1 \<le> k \<and> of_int k \<le> horizonOf p opts" using that by (simp add: Leq)
    then show ?thesis by (simp add: sch zeroEntry_def L'_def)
  qed
  have c: "rateOfYear p \<lfloor>loanTermYears p\<rfloor> = 0
           \<or> 1 / 10 ^ 9 \<le> \<bar>rateOfYear p \<lfloor>loanTermYears p\<rfloor>\<bar>
           \<longrightarrow> bal \<lfloor>loanTermYears p\<rfloor> = 0"
    using z by (simp add: bal_def L'_def)
  have d1: "\<bar>bal L'\<bar>
             \<le> \<bar>lastPhaseStart p bal\<bar> * ((1 + \<bar>rateOfYear p L'\<bar>) ^ nat (lastPhaseYears p) - 1)"
    if tiny: "\<bar>rateOfYear p L'\<bar> < 1 / 10 ^ 9"
  proof (cases "F' < L'")
    case True
    define n where "n = nat (L' - F')"
    define P where "P = amortize (rate1 p) a1 (nat F') A"
    have n0: "0 < n" using True by (simp add: n_def)
    have nn: "(of_int (L' - F') :: real) = of_nat n" using True by (simp add: n_def)
    have ry: "rateOfYear p L' = rate2 p" using True by (simp add: rateOfYear_def Feq)
    have bF: "balanceAfter p a1 a2 F' = P"
      by (simp add: balanceAfter_def twoPhase_def F'_def [symmetric] P_def A_def)
    have "pmt (rate2 p) (of_nat n) (Fin P) = Fin a2"
      using pa2 True by (simp only: bF nn)
    moreover have "pmt (rate2 p) (of_nat n) (Fin P) = Fin (- (P / of_nat n))"
      using tiny n0 by (intro pmt_small) (simp_all add: ry)
    ultimately have a2: "a2 = - (P / of_nat n)" by simp
    have bL: "bal L' = amortize (rate2 p) (- (P / of_nat n)) n P"
      using True
      by (simp add: bal_def balanceAfter_def twoPhase_def F'_def [symmetric] P_def A_def a2 n_def)
    have ly: "lastPhaseYears p = L' - F'"
      using True by (simp add: lastPhaseYears_def Feq Leq)
    have ls: "lastPhaseStart p bal = P"
    proof (cases "1 \<le> F'")
      case True
      then show ?thesis using \<open>F' < L'\<close> by (simp add: lastPhaseStart_def Feq Leq bal_def bF)
    next
      case False
      then have "nat F' = 0" by simp
      then have "P = A" by (simp add: P_def)
      then show ?thesis using False by (simp add: lastPhaseStart_def Feq Leq A_def)
    qed
    show ?thesis
      unfolding bL ls ly ry n_def [symmetric] using n0 by (rule linear_residual)
  next
    case False
    then have eq: "F' = L'" using FL by simp
    define n where "n = nat L'"
    have n0: "0 < n" using L1 by (simp add: n_def)
    have nn: "(of_int L' :: real) = of_nat n" using L1 by (simp add: n_def)
    have F1: "1 \<le> F'" using eq L1 by simp
    have ry: "rateOfYear p L' = rate1 p" using eq by (simp add: rateOfYear_def Feq)
    have "pmt (rate1 p) (of_nat n) (Fin A) = Fin a1"
      using pa1 F1 by (simp only: nn A_def)
    moreover have "pmt (rate1 p) (of_nat n) (Fin A) = Fin (- (A / of_nat n))"
      using tiny n0 by (intro pmt_small) (simp_all add: ry)
    ultimately have a1: "a1 = - (A / of_nat n)" by simp
    have bL: "bal L' = amortize (rate1 p) (- (A / of_nat n)) n A"
      using eq
      by (simp add: bal_def balanceAfter_def twoPhase_def F'_def [symmetric] A_def a1 n_def)
    have ly: "lastPhaseYears p = L'"
      using eq by (simp add: lastPhaseYears_def Feq Leq)
    have ls: "lastPhaseStart p bal = A"
      using eq by (simp add: lastPhaseStart_def Feq Leq A_def)
    show ?thesis
      unfolding bL ls ly ry n_def [symmetric] using n0 by (rule linear_residual)
  qed
  have d2: "\<bar>bal L'\<bar> \<le> \<bar>lastPhaseStart p bal\<bar> / 10 ^ 6"
    if tiny: "\<bar>rateOfYear p L'\<bar> < 1 / 10 ^ 9" and few: "lastPhaseYears p \<le> 999"
  proof -
    have "nat (lastPhaseYears p) \<le> 999" using few by simp
    then have "(1 + \<bar>rateOfYear p L'\<bar>) ^ nat (lastPhaseYears p) - 1 \<le> 1 / 10 ^ 6"
      using tiny by (intro tolerance_bound) simp_all
    then have "\<bar>lastPhaseStart p bal\<bar>
                 * ((1 + \<bar>rateOfYear p L'\<bar>) ^ nat (lastPhaseYears p) - 1)
               \<le> \<bar>lastPhaseStart p bal\<bar> * (1 / 10 ^ 6)"
      by (intro mult_left_mono) simp_all
    with d1[OF tiny] show ?thesis by simp
  qed
  have d: "\<bar>rateOfYear p \<lfloor>loanTermYears p\<rfloor>\<bar> < 1 / 10 ^ 9 \<longrightarrow>
           \<bar>bal \<lfloor>loanTermYears p\<rfloor>\<bar>
             \<le> \<bar>lastPhaseStart p bal\<bar>
                 * ((1 + \<bar>rateOfYear p \<lfloor>loanTermYears p\<rfloor>\<bar>) ^ nat (lastPhaseYears p) - 1)
           \<and> (lastPhaseYears p \<le> 999 \<longrightarrow>
                 \<bar>bal \<lfloor>loanTermYears p\<rfloor>\<bar> \<le> \<bar>lastPhaseStart p bal\<bar> / 10 ^ 6)"
    using d1 d2 unfolding L'_def by blast
  show ?thesis using a b c d by blast
qed

lemma auszahlung_tiny: "auszahlung tiny = 100"
  by (simp add: auszahlung_def auszahlungsKurs_def finanzbedarf_def totalInvest_def
      purchasePrice_def sideCostsTotal_def sideCostsVar_def sideCostRate_def tiny_def)


theorem cumulative_principal_balance_witness:
  "(\<exists>res (bal :: int \<Rightarrow> real).
     simulateExcelModel sample \<lparr>opt_horizonYears = Some 3\<rparr> = Inr res
     \<and> loanTermYears sample \<in> \<int> \<and> fixRateYears sample \<in> \<int> \<and> 1 \<le> loanTermYears sample
     \<and> rate1 sample \<noteq> - 2 \<and> rate2 sample \<noteq> - 2
     \<and> (\<exists>e. res_loanSchedule res 1 = Some e
            \<and> js_add (restStart e) (principal e) = Fin (bal 1)
            \<and> cumPrincipal e = Fin (auszahlung sample - bal 1)
            \<and> (\<exists>e'. res_loanSchedule res 2 = Some e' \<and> restStart e' = Fin (bal 1)))
     \<and> (\<exists>e. res_loanSchedule res 3 = Some e \<and> restStart e = Fin 0 \<and> principal e = Fin 0
            \<and> cumPrincipal e = Fin (auszahlung sample - bal 2))
     \<and> bal 2 = 0)
   \<and> (\<exists>res (bal :: int \<Rightarrow> real).
     simulateExcelModel tiny \<lparr>opt_horizonYears = Some 2\<rparr> = Inr res
     \<and> loanTermYears tiny \<in> \<int> \<and> fixRateYears tiny \<in> \<int> \<and> 1 \<le> loanTermYears tiny
     \<and> rate1 tiny \<noteq> - 2 \<and> rate2 tiny \<noteq> - 2
     \<and> \<bar>rateOfYear tiny 1\<bar> < 1 / 10 ^ 9 \<and> lastPhaseYears tiny \<le> 999
     \<and> (\<exists>e. res_loanSchedule res 2 = Some e \<and> restStart e = Fin 0 \<and> principal e = Fin 0
            \<and> cumPrincipal e = Fin (auszahlung tiny - bal 1))
     \<and> \<bar>bal 1\<bar> \<le> 100 / 10 ^ 6)"
proof -
  have A: "\<exists>res (bal :: int \<Rightarrow> real).
     simulateExcelModel sample \<lparr>opt_horizonYears = Some 3\<rparr> = Inr res
     \<and> loanTermYears sample \<in> \<int> \<and> fixRateYears sample \<in> \<int> \<and> 1 \<le> loanTermYears sample
     \<and> rate1 sample \<noteq> - 2 \<and> rate2 sample \<noteq> - 2
     \<and> (\<exists>e. res_loanSchedule res 1 = Some e
            \<and> js_add (restStart e) (principal e) = Fin (bal 1)
            \<and> cumPrincipal e = Fin (auszahlung sample - bal 1)
            \<and> (\<exists>e'. res_loanSchedule res 2 = Some e' \<and> restStart e' = Fin (bal 1)))
     \<and> (\<exists>e. res_loanSchedule res 3 = Some e \<and> restStart e = Fin 0 \<and> principal e = Fin 0
            \<and> cumPrincipal e = Fin (auszahlung sample - bal 2))
     \<and> bal 2 = 0"
  proof -
    have h: "1 \<le> horizonOf sample \<lparr>opt_horizonYears = Some 3\<rparr>" by (simp add: horizonOf_def)
    from sample_rows[OF h] obtain res where
      s: "simulateExcelModel sample \<lparr>opt_horizonYears = Some 3\<rparr> = Inr res" by blast
    have Lv: "loanTermYears sample = 2" by (simp add: sample_def)
    have fl: "\<lfloor>2 :: real\<rfloor> = 2" by simp
    have L: "1 \<le> loanTermYears sample" by (simp add: Lv)
    have r1v: "rate1 sample = 3 / 100" by (simp add: rate1_def sample_def)
    have r2v: "rate2 sample = 3 / 100" by (simp add: rate2_def rate1_def sample_def)
    have r1: "rate1 sample \<noteq> - 2" by (simp add: r1v)
    have r2: "rate2 sample \<noteq> - 2" by (simp add: r2v)
    have f1: "1 \<le> firstPhaseYears sample \<longrightarrow>
                \<not> (rate1 sample = - 2 \<and> even \<lfloor>loanTermYears sample\<rfloor>)"
      using r1 by simp
    have f2: "firstPhaseYears sample < loanTermYears sample \<longrightarrow>
               \<not> (rate2 sample = - 2
                    \<and> even (\<lfloor>loanTermYears sample\<rfloor> - \<lfloor>firstPhaseYears sample\<rfloor>))"
      using r2 by simp
    have ry: "rateOfYear sample 2 = 3 / 100"
      by (simp add: rateOfYear_def firstPhaseYears_def r1v r2v)
    have hv: "horizonOf sample \<lparr>opt_horizonYears = Some 3\<rparr> = 3" by (simp add: horizonOf_def)
    from cumulative_principal_balance [OF s sample_whole L f1 f2, unfolded Lv fl ry hv]
    obtain bal where
      a: "\<forall>k. 1 \<le> k \<and> (of_int k :: real) \<le> 2 \<longrightarrow>
           (\<exists>e. res_loanSchedule res (of_int k) = Some e
              \<and> js_add (restStart e) (principal e) = Fin (bal k)
              \<and> cumPrincipal e = Fin (auszahlung sample - bal k)
              \<and> ((of_int k :: real) < 2 \<longrightarrow>
                   (\<exists>e'. res_loanSchedule res (of_int (k + 1)) = Some e'
                      \<and> restStart e' = Fin (bal k))))"
      and b: "\<forall>k. (2 :: real) < of_int k \<and> (of_int k :: real) \<le> 3 \<longrightarrow>
             (\<exists>e. res_loanSchedule res (of_int k) = Some e \<and> restStart e = Fin 0
                \<and> principal e = Fin 0
                \<and> cumPrincipal e = Fin (auszahlung sample - bal 2))"
      and c: "(3 / 100 :: real) = 0 \<or> 1 / 10 ^ 9 \<le> \<bar>3 / 100 :: real\<bar> \<longrightarrow> bal 2 = 0"
      by blast
    have a1: "\<exists>e. res_loanSchedule res 1 = Some e
              \<and> js_add (restStart e) (principal e) = Fin (bal 1)
              \<and> cumPrincipal e = Fin (auszahlung sample - bal 1)
              \<and> (\<exists>e'. res_loanSchedule res 2 = Some e' \<and> restStart e' = Fin (bal 1))"
      using a[rule_format, of 1] by simp
    have b3: "\<exists>e. res_loanSchedule res 3 = Some e \<and> restStart e = Fin 0 \<and> principal e = Fin 0
              \<and> cumPrincipal e = Fin (auszahlung sample - bal 2)"
      using b[rule_format, of 3] by simp
    have c2: "bal 2 = 0" using c by simp
    show ?thesis using s sample_whole L r1 r2 a1 b3 c2 by blast
  qed
  have B: "\<exists>res (bal :: int \<Rightarrow> real).
     simulateExcelModel tiny \<lparr>opt_horizonYears = Some 2\<rparr> = Inr res
     \<and> loanTermYears tiny \<in> \<int> \<and> fixRateYears tiny \<in> \<int> \<and> 1 \<le> loanTermYears tiny
     \<and> rate1 tiny \<noteq> - 2 \<and> rate2 tiny \<noteq> - 2
     \<and> \<bar>rateOfYear tiny 1\<bar> < 1 / 10 ^ 9 \<and> lastPhaseYears tiny \<le> 999
     \<and> (\<exists>e. res_loanSchedule res 2 = Some e \<and> restStart e = Fin 0 \<and> principal e = Fin 0
            \<and> cumPrincipal e = Fin (auszahlung tiny - bal 1))
     \<and> \<bar>bal 1\<bar> \<le> 100 / 10 ^ 6"
  proof -
    have h: "1 \<le> horizonOf tiny \<lparr>opt_horizonYears = Some 2\<rparr>" by (simp add: horizonOf_def)
    have w: "loanTermYears tiny \<in> \<int>" "fixRateYears tiny \<in> \<int>" by (simp_all add: tiny_def)
    from simulate_whole_rows[OF h w] obtain res where
      s: "simulateExcelModel tiny \<lparr>opt_horizonYears = Some 2\<rparr> = Inr res" by blast
    have Lv: "loanTermYears tiny = 1" by (simp add: tiny_def)
    have fl: "\<lfloor>1 :: real\<rfloor> = 1" by simp
    have L: "1 \<le> loanTermYears tiny" by (simp add: Lv)
    have r1v: "rate1 tiny = 1 / (2 * 10 ^ 9)" by (simp add: rate1_def tiny_def)
    have r2v: "rate2 tiny = 1 / (2 * 10 ^ 9)" by (simp add: rate2_def rate1_def tiny_def)
    have r1: "rate1 tiny \<noteq> - 2" by (simp add: r1v)
    have r2: "rate2 tiny \<noteq> - 2" by (simp add: r2v)
    have f1: "1 \<le> firstPhaseYears tiny \<longrightarrow>
                \<not> (rate1 tiny = - 2 \<and> even \<lfloor>loanTermYears tiny\<rfloor>)"
      using r1 by simp
    have f2: "firstPhaseYears tiny < loanTermYears tiny \<longrightarrow>
               \<not> (rate2 tiny = - 2
                    \<and> even (\<lfloor>loanTermYears tiny\<rfloor> - \<lfloor>firstPhaseYears tiny\<rfloor>))"
      using r2 by simp
    have ry: "rateOfYear tiny 1 = 1 / (2 * 10 ^ 9)"
      by (simp add: rateOfYear_def firstPhaseYears_def r1v r2v)
    have tn: "\<bar>rateOfYear tiny 1\<bar> < 1 / 10 ^ 9" by (simp add: ry)
    have ly: "lastPhaseYears tiny = 1"
      by (simp add: lastPhaseYears_def firstPhaseYears_def tiny_def)
    have few: "lastPhaseYears tiny \<le> 999" by (simp add: ly)
    have ls: "lastPhaseStart tiny bal = 100" for bal
      by (simp add: lastPhaseStart_def firstPhaseYears_def auszahlung_tiny)
        (simp add: tiny_def)
    have hv: "horizonOf tiny \<lparr>opt_horizonYears = Some 2\<rparr> = 2" by (simp add: horizonOf_def)
    from cumulative_principal_balance [OF s w L f1 f2, unfolded Lv fl hv ls]
    obtain bal :: "int \<Rightarrow> real" where
      b: "\<forall>k. (1 :: real) < of_int k \<and> (of_int k :: real) \<le> 2 \<longrightarrow>
             (\<exists>e. res_loanSchedule res (of_int k) = Some e \<and> restStart e = Fin 0
                \<and> principal e = Fin 0
                \<and> cumPrincipal e = Fin (auszahlung tiny - bal 1))"
      and d: "\<bar>rateOfYear tiny 1\<bar> < 1 / 10 ^ 9 \<longrightarrow>
           \<bar>bal 1\<bar> \<le> \<bar>100 :: real\<bar> * ((1 + \<bar>rateOfYear tiny 1\<bar>) ^ nat (lastPhaseYears tiny) - 1)
           \<and> (lastPhaseYears tiny \<le> 999 \<longrightarrow> \<bar>bal 1\<bar> \<le> \<bar>100 :: real\<bar> / 10 ^ 6)"
      by (elim exE conjE) (rule that; assumption)
    have b2: "\<exists>e. res_loanSchedule res 2 = Some e \<and> restStart e = Fin 0 \<and> principal e = Fin 0
              \<and> cumPrincipal e = Fin (auszahlung tiny - bal 1)"
      using b[rule_format, of 2] by simp
    have "\<bar>bal 1\<bar> \<le> \<bar>100 :: real\<bar> / 10 ^ 6" using d tn few by blast
    then have d1: "\<bar>bal 1\<bar> \<le> 100 / 10 ^ 6" by simp
    show ?thesis
      by (intro exI[of _ res] exI[of _ bal] conjI s w L r1 r2 tn few b2 d1)
  qed
  show ?thesis using A B by blast
qed

lemma schedule_tiny:
  "buildLoanSchedule tiny 2 1 =
     Some \<lparr>restStart = Fin 100, interest = Fin (- (1 / (2 * 10 ^ 7))), annuity = Fin (- 100),
           principal = Fin (- 100 + 1 / (2 * 10 ^ 7)),
           cumPrincipal = Fin (100 - 1 / (2 * 10 ^ 7))\<rparr>"
  "buildLoanSchedule tiny 2 2 = Some (zeroEntry (Fin (100 - 1 / (2 * 10 ^ 7))))"
proof -
  have L: "loanTermYears tiny = of_int 1" by (simp add: tiny_def)
  have F: "firstPhaseYears tiny = of_int 1" by (simp add: firstPhaseYears_def tiny_def)
  have F': "firstPhaseYears tiny = 1" using F by simp
  have R: "remainingYears tiny = 0" by (simp add: remainingYears_eq L F)
  have r: "rate1 tiny = 1 / (2 * 10 ^ 9)" by (simp add: rate1_def tiny_def)
  have a1: "pmt (rate1 tiny) (loanTermYears tiny) (Fin (auszahlung tiny)) = Fin (- 100)"
    by (simp add: r L auszahlung_tiny pmt_def)
  have a2: "0 < remainingYears tiny \<Longrightarrow>
      pmt (rate2 tiny) (remainingYears tiny)
        (Fin (amortize (rate1 tiny) (- 100) (nat 1) (auszahlung tiny))) = Fin 0"
    by (simp add: R)
  have b0: "balanceAfter tiny (- 100) 0 0 = 100"
    by (simp add: balanceAfter_def twoPhase_def F' auszahlung_tiny)
  have n1: "nat 1 = Suc 0" by simp
  have b1: "balanceAfter tiny (- 100) 0 1 = 1 / (2 * 10 ^ 7)"
    by (simp add: balanceAfter_def twoPhase_def F' auszahlung_tiny r n1)
  have ry: "rateOfYear tiny 1 = 1 / (2 * 10 ^ 9)" by (simp add: rateOfYear_def F' r)
  have py: "paymentOfYear tiny (- 100) 0 1 = - 100" by (simp add: paymentOfYear_def F')
  from phase2_rows[OF L F a1 a2] obtain s where
    p2: "phase2 tiny = (Fin (balanceAfter tiny (- 100) 0 1),
            Fin (auszahlung tiny - balanceAfter tiny (- 100) 0 1), s)"
    and rows: "\<forall>k. 1 \<le> k \<and> k \<le> 1 \<longrightarrow>
               s (of_int k) = Some \<lparr>restStart = Fin (balanceAfter tiny (- 100) 0 (k - 1)),
                  interest = Fin (- (balanceAfter tiny (- 100) 0 (k - 1) * rateOfYear tiny k)),
                  annuity = Fin (paymentOfYear tiny (- 100) 0 k),
                  principal = Fin (paymentOfYear tiny (- 100) 0 k
                                   + balanceAfter tiny (- 100) 0 (k - 1) * rateOfYear tiny k),
                  cumPrincipal = Fin (auszahlung tiny - balanceAfter tiny (- 100) 0 k)\<rparr>"
    by blast
  have s1: "s 1 = Some \<lparr>restStart = Fin 100, interest = Fin (- (1 / (2 * 10 ^ 7))),
           annuity = Fin (- 100), principal = Fin (- 100 + 1 / (2 * 10 ^ 7)),
           cumPrincipal = Fin (100 - 1 / (2 * 10 ^ 7))\<rparr>"
    using rows[rule_format, of 1] by (simp add: b0 b1 ry py auszahlung_tiny)
  have "buildLoanSchedule tiny 2 (of_int 1) = s (of_int 1)"
    by (simp only: buildLoanSchedule_apply[OF p2 L]) simp
  then show "buildLoanSchedule tiny 2 1 =
     Some \<lparr>restStart = Fin 100, interest = Fin (- (1 / (2 * 10 ^ 7))), annuity = Fin (- 100),
           principal = Fin (- 100 + 1 / (2 * 10 ^ 7)),
           cumPrincipal = Fin (100 - 1 / (2 * 10 ^ 7))\<rparr>"
    using s1 by simp
  have "buildLoanSchedule tiny 2 (of_int 2) =
          Some (zeroEntry (Fin (auszahlung tiny - balanceAfter tiny (- 100) 0 1)))"
    by (simp only: buildLoanSchedule_apply[OF p2 L]) simp
  then show "buildLoanSchedule tiny 2 2 = Some (zeroEntry (Fin (100 - 1 / (2 * 10 ^ 7))))"
    by (simp add: b1 auszahlung_tiny)
qed

text \<open>
  At the rate \<open>-2\<close> over two years the annuity formula divides 200 by zero: the payment is
  \<open>Infinity\<close>, and from the second year on the principal and its cumulative sum are
  \<open>NaN\<close>.
\<close>

lemma auszahlung_minus2: "auszahlung minus2 = 100"
  by (simp add: auszahlung_def auszahlungsKurs_def finanzbedarf_def totalInvest_def
      purchasePrice_def sideCostsTotal_def sideCostsVar_def sideCostRate_def minus2_def tiny_def)

lemma pmt_minus2: "pmt (- 2) 2 (Fin 100) = PInf"
  by (simp add: pmt_def floor_minus power_int_minus js_inf_def)

lemma schedule_minus2:
  "buildLoanSchedule minus2 3 2 =
     Some \<lparr>restStart = PInf, interest = PInf, annuity = PInf, principal = NaN,
           cumPrincipal = NaN\<rparr>"
  "buildLoanSchedule minus2 3 3 = Some (zeroEntry NaN)"
proof -
  have L: "loanTermYears minus2 = of_int 2" by (simp add: minus2_def)
  have L': "loanTermYears minus2 = 2" by (simp add: minus2_def)
  have F: "firstPhaseYears minus2 = 2" by (simp add: firstPhaseYears_def minus2_def)
  have R: "remainingYears minus2 = 0" by (simp add: remainingYears_eq L' F)
  have r: "rate1 minus2 = - 2" by (simp add: rate1_def minus2_def)
  let ?e1 = "\<lparr>restStart = Fin 100, interest = Fin 200, annuity = PInf, principal = PInf,
              cumPrincipal = NInf\<rparr>"
  let ?e2 = "\<lparr>restStart = PInf, interest = PInf, annuity = PInf, principal = NaN,
              cumPrincipal = NaN\<rparr>"
  have s1: "amortStep (- 2) PInf 1 (Fin 100, Fin 0, Map.empty) = (PInf, NInf, [1 \<mapsto> ?e1])"
    by (simp add: amortStep_def Let_def js_sub_def)
  have s2: "amortStep (- 2) PInf 2 (PInf, NInf, [1 \<mapsto> ?e1]) = (NaN, NaN, [1 \<mapsto> ?e1, 2 \<mapsto> ?e2])"
    by (simp add: amortStep_def Let_def js_sub_def js_inf_def)
  have "amortLoop (- 2) PInf 0 2 1 (Fin 100, Fin 0, Map.empty)
        = amortLoop (- 2) PInf 0 2 2 (PInf, NInf, [1 \<mapsto> ?e1])"
    by (subst amortLoop.simps) (simp add: s1)
  also have "\<dots> = amortLoop (- 2) PInf 0 2 3 (NaN, NaN, [1 \<mapsto> ?e1, 2 \<mapsto> ?e2])"
    by (subst amortLoop.simps) (simp add: s2)
  also have "\<dots> = (NaN, NaN, [1 \<mapsto> ?e1, 2 \<mapsto> ?e2])"
    by (subst amortLoop.simps) simp
  finally have p1: "phase1 minus2 = (NaN, NaN, [1 \<mapsto> ?e1, 2 \<mapsto> ?e2])"
    by (simp add: phase1_def Let_def r L' F auszahlung_minus2 pmt_minus2)
  have p2: "phase2 minus2 = (NaN, NaN, [1 \<mapsto> ?e1, 2 \<mapsto> ?e2])"
    by (simp add: phase2_def Let_def R p1)
  have "buildLoanSchedule minus2 3 (of_int 2) = [1 \<mapsto> ?e1, 2 \<mapsto> ?e2] (of_int 2)"
    by (simp only: buildLoanSchedule_apply[OF p2 L]) simp
  then show "buildLoanSchedule minus2 3 2 = Some ?e2" by simp
  have "buildLoanSchedule minus2 3 (of_int 3) = Some (zeroEntry NaN)"
    by (simp only: buildLoanSchedule_apply[OF p2 L]) simp
  then show "buildLoanSchedule minus2 3 3 = Some (zeroEntry NaN)" by simp
qed

text \<open>
  At the rate \<open>9 \<sqdot> 10\<^sup>-\<^sup>1\<^sup>0\<close> over 4000 years the payment is the linear one, and the
  balance it leaves of the amount of 100 exceeds \<open>100 / 10\<^sup>6\<close>.
\<close>

lemma auszahlung_longterm: "auszahlung longterm = 100"
  by (simp add: auszahlung_def auszahlungsKurs_def finanzbedarf_def totalInvest_def
      purchasePrice_def sideCostsTotal_def sideCostsVar_def sideCostRate_def longterm_def tiny_def)

lemma schedule_longterm:
  "\<exists>b. buildLoanSchedule longterm 4001 4001 = Some (zeroEntry (Fin (100 - b)))
       \<and> 100 / 10 ^ 6 < b"
proof -
  define a where "a = - (100 / of_nat 4000 :: real)"
  define r where "r = (9 / 10 ^ 10 :: real)"
  define b where "b = amortize r a 4000 100"
  have L: "loanTermYears longterm = of_int 4000" by (simp add: longterm_def)
  have F: "firstPhaseYears longterm = of_int 4000" by (simp add: firstPhaseYears_def longterm_def)
  have R: "remainingYears longterm = 0" by (simp add: remainingYears_eq L F)
  have r1: "rate1 longterm = r" by (simp add: rate1_def longterm_def r_def)
  have "pmt r 4000 (Fin 100) = Fin a"
    by (simp add: pmt_def r_def a_def)
  then have a1: "pmt (rate1 longterm) (loanTermYears longterm) (Fin (auszahlung longterm)) = Fin a"
    by (simp add: r1 L auszahlung_longterm)
  have a2: "0 < remainingYears longterm \<Longrightarrow>
      pmt (rate2 longterm) (remainingYears longterm)
        (Fin (amortize (rate1 longterm) a (nat 4000) (auszahlung longterm))) = Fin 0"
    by (simp add: R)
  have n: "nat 4000 = (4000 :: nat)" by simp
  have bL: "balanceAfter longterm a 0 4000 = b"
    unfolding balanceAfter_def twoPhase_def b_def F r1 auszahlung_longterm
    by (simp only: floor_of_int order_refl if_True n)
  from phase2_rows[OF L F a1 a2] obtain s where
    p2: "phase2 longterm = (Fin (balanceAfter longterm a 0 4000),
            Fin (auszahlung longterm - balanceAfter longterm a 0 4000), s)"
    by blast
  have "buildLoanSchedule longterm 4001 (of_int 4001) =
          Some (zeroEntry (Fin (auszahlung longterm - balanceAfter longterm a 0 4000)))"
    by (simp only: buildLoanSchedule_apply[OF p2 L]) simp
  then have e: "buildLoanSchedule longterm 4001 4001 = Some (zeroEntry (Fin (100 - b)))"
    unfolding bL auszahlung_longterm by simp
  have "(100 :: real) - of_nat 4000 * (100 / of_nat 4000)
           + r * 100 * (of_nat 4000 - of_nat 4000 * (of_nat 4000 - 1) / (2 * of_nat 4000))
         \<le> amortize r (- (100 / of_nat 4000)) 4000 100"
    by (rule linear_residual_lower) (simp_all add: r_def)
  then have "r * 100 * (4000 - 4000 * 3999 / 8000) \<le> b"
    unfolding b_def a_def by simp
  moreover have "100 / 10 ^ 6 < r * 100 * (4000 - 4000 * 3999 / 8000)"
    by (simp add: r_def)
  ultimately have "100 / 10 ^ 6 < b" by simp
  with e show ?thesis by blast
qed

text \<open>
  With a first year at the rate \<open>-2.0001\<close> the balance after that year is 10001 times
  the amount of 100. The second year, at the rate \<open>9 \<sqdot> 10\<^sup>-\<^sup>1\<^sup>0\<close>, takes the linear payment
  and leaves \<open>9 \<sqdot> 10\<^sup>-\<^sup>1\<^sup>0\<close> of that balance, which is more than \<open>100 / 10\<^sup>6\<close>.
\<close>

lemma auszahlung_steep: "auszahlung steep = 100"
  by (simp add: auszahlung_def auszahlungsKurs_def finanzbedarf_def totalInvest_def
      purchasePrice_def sideCostsTotal_def sideCostsVar_def sideCostRate_def steep_def tiny_def)

lemma pmt_steep: "pmt (- (20001 / 10000)) 2 (Fin 100) = Fin (100020001 / 100)"
  by (simp add: pmt_def floor_minus power_int_minus power2_eq_square)

lemma schedule_steep:
  "buildLoanSchedule steep 3 2 =
     Some \<lparr>restStart = Fin 1000100, interest = Fin (- (90009 / 10 ^ 8)),
           annuity = Fin (- 1000100), principal = Fin (- 1000100 + 90009 / 10 ^ 8),
           cumPrincipal = Fin (100 - 90009 / 10 ^ 8)\<rparr>"
  "buildLoanSchedule steep 3 3 = Some (zeroEntry (Fin (100 - 90009 / 10 ^ 8)))"
proof -
  define a1 where "a1 = (100020001 / 100 :: real)"
  define a2 where "a2 = (- 1000100 :: real)"
  have L: "loanTermYears steep = of_int 2" by (simp add: steep_def)
  have F: "firstPhaseYears steep = of_int 1" by (simp add: firstPhaseYears_def steep_def)
  have F': "firstPhaseYears steep = 1" using F by simp
  have R: "remainingYears steep = 1" by (simp add: remainingYears_eq L F)
  have r1: "rate1 steep = - (20001 / 10000)" by (simp add: rate1_def steep_def)
  have r2: "rate2 steep = 9 / 10 ^ 10" by (simp add: rate2_def steep_def)
  have n1: "nat 1 = Suc 0" by simp
  have b1v: "amortize (rate1 steep) a1 (nat 1) (auszahlung steep) = 1000100"
    by (simp add: n1 r1 a1_def auszahlung_steep)
  have a1: "pmt (rate1 steep) (loanTermYears steep) (Fin (auszahlung steep)) = Fin a1"
    using pmt_steep by (simp add: r1 L auszahlung_steep a1_def)
  have a2: "pmt (rate2 steep) (remainingYears steep)
        (Fin (amortize (rate1 steep) a1 (nat 1) (auszahlung steep))) = Fin a2"
    unfolding b1v by (simp add: pmt_def r2 R a2_def)
  have b1: "balanceAfter steep a1 a2 1 = 1000100"
    using b1v by (simp add: balanceAfter_def twoPhase_def F')
  have b2: "balanceAfter steep a1 a2 2 = 90009 / 10 ^ 8"
    using b1v by (simp add: balanceAfter_def twoPhase_def F' n1 r2 a2_def)
  have ry: "rateOfYear steep 2 = 9 / 10 ^ 10" by (simp add: rateOfYear_def F' r2)
  have py: "paymentOfYear steep a1 a2 2 = a2" by (simp add: paymentOfYear_def F')
  from phase2_rows[OF L F a1 a2] obtain s where
    p2: "phase2 steep = (Fin (balanceAfter steep a1 a2 2),
            Fin (auszahlung steep - balanceAfter steep a1 a2 2), s)"
    and rows: "\<forall>k. 1 \<le> k \<and> k \<le> 2 \<longrightarrow>
               s (of_int k) = Some \<lparr>restStart = Fin (balanceAfter steep a1 a2 (k - 1)),
                  interest = Fin (- (balanceAfter steep a1 a2 (k - 1) * rateOfYear steep k)),
                  annuity = Fin (paymentOfYear steep a1 a2 k),
                  principal = Fin (paymentOfYear steep a1 a2 k
                                   + balanceAfter steep a1 a2 (k - 1) * rateOfYear steep k),
                  cumPrincipal = Fin (auszahlung steep - balanceAfter steep a1 a2 k)\<rparr>"
    by blast
  have s2: "s 2 = Some \<lparr>restStart = Fin 1000100, interest = Fin (- (90009 / 10 ^ 8)),
           annuity = Fin (- 1000100), principal = Fin (- 1000100 + 90009 / 10 ^ 8),
           cumPrincipal = Fin (100 - 90009 / 10 ^ 8)\<rparr>"
    using rows[rule_format, of 2] by (simp add: b1 b2 ry py auszahlung_steep) (simp add: a2_def)
  have "buildLoanSchedule steep 3 (of_int 2) = s (of_int 2)"
    by (simp only: buildLoanSchedule_apply[OF p2 L]) simp
  then show "buildLoanSchedule steep 3 2 =
     Some \<lparr>restStart = Fin 1000100, interest = Fin (- (90009 / 10 ^ 8)),
           annuity = Fin (- 1000100), principal = Fin (- 1000100 + 90009 / 10 ^ 8),
           cumPrincipal = Fin (100 - 90009 / 10 ^ 8)\<rparr>"
    using s2 by simp
  have "buildLoanSchedule steep 3 (of_int 3) =
          Some (zeroEntry (Fin (auszahlung steep - balanceAfter steep a1 a2 2)))"
    by (simp only: buildLoanSchedule_apply[OF p2 L]) simp
  then show "buildLoanSchedule steep 3 3 = Some (zeroEntry (Fin (100 - 90009 / 10 ^ 8)))"
    by (simp add: b2 auszahlung_steep)
qed

text \<open>
  With a rate of \<open>5 \<sqdot> 10\<^sup>-\<^sup>1\<^sup>0\<close> on a loan of 100 over one year the payment is the linear
  one, \<open>-100\<close>, and the balance after it is the interest of the year. The row of year 2,
  after the loan term, records a balance and a principal of zero and a cumulative
  principal that is not the amount of 100; nor is the cumulative principal of year 1 the
  amount less the balance recorded at the start of year 2. With the rate \<open>-2\<close> over two
  years the payment is \<open>Infinity\<close>, and the cumulative principal of the years 2 and 3 is
  \<open>NaN\<close>, which is no amount at all. With the rate \<open>9 \<sqdot> 10\<^sup>-\<^sup>1\<^sup>0\<close> over 4000 years the row
  of year 4001 records a balance and a principal of zero and a cumulative principal
  that is short of the amount of 100 by more than \<open>100 / 10\<^sup>6\<close>. So is that of
  year 3 of the loan whose first year, at the rate \<open>-2.0001\<close>, leaves a balance of
  1000100: the balance of \<open>90009 / 10\<^sup>8\<close> left by its second year, at the rate
  \<open>9 \<sqdot> 10\<^sup>-\<^sup>1\<^sup>0\<close>, is within \<open>10\<^sup>-\<^sup>6\<close> of the balance that year started from, not of
  the amount of 100.
\<close>

theorem cumulative_principal_counterexample:
  "\<not> isl (simulateExcelModel tiny \<lparr>opt_horizonYears = Some 2\<rparr>)
   \<and> res_loanSchedule (projr (simulateExcelModel tiny \<lparr>opt_horizonYears = Some 2\<rparr>)) 1 =
       Some \<lparr>restStart = Fin 100, interest = Fin (- (1 / (2 * 10 ^ 7))), annuity = Fin (- 100),
             principal = Fin (- 100 + 1 / (2 * 10 ^ 7)),
             cumPrincipal = Fin (100 - 1 / (2 * 10 ^ 7))\<rparr>
   \<and> res_loanSchedule (projr (simulateExcelModel tiny \<lparr>opt_horizonYears = Some 2\<rparr>)) 2 =
       Some \<lparr>restStart = Fin 0, interest = Fin 0, annuity = Fin 0, principal = Fin 0,
             cumPrincipal = Fin (100 - 1 / (2 * 10 ^ 7))\<rparr>
   \<and> meta_auszahlung (res_meta (projr (simulateExcelModel tiny \<lparr>opt_horizonYears = Some 2\<rparr>))) = 100
   \<and> Fin (100 - 1 / (2 * 10 ^ 7)) \<noteq> js_sub (Fin 100) (js_add (Fin 0) (Fin 0))
   \<and> Fin (100 - 1 / (2 * 10 ^ 7)) \<noteq> js_sub (Fin 100) (Fin 0)
   \<and> \<not> isl (simulateExcelModel minus2 \<lparr>opt_horizonYears = Some 3\<rparr>)
   \<and> res_loanSchedule (projr (simulateExcelModel minus2 \<lparr>opt_horizonYears = Some 3\<rparr>)) 2 =
       Some \<lparr>restStart = PInf, interest = PInf, annuity = PInf, principal = NaN,
             cumPrincipal = NaN\<rparr>
   \<and> res_loanSchedule (projr (simulateExcelModel minus2 \<lparr>opt_horizonYears = Some 3\<rparr>)) 3 =
       Some \<lparr>restStart = Fin 0, interest = Fin 0, annuity = Fin 0, principal = Fin 0,
             cumPrincipal = NaN\<rparr>
   \<and> \<not> isl (simulateExcelModel longterm \<lparr>opt_horizonYears = Some 4001\<rparr>)
   \<and> meta_auszahlung
        (res_meta (projr (simulateExcelModel longterm \<lparr>opt_horizonYears = Some 4001\<rparr>))) = 100
   \<and> restStart (the (res_loanSchedule
        (projr (simulateExcelModel longterm \<lparr>opt_horizonYears = Some 4001\<rparr>)) 4001)) = Fin 0
   \<and> principal (the (res_loanSchedule
        (projr (simulateExcelModel longterm \<lparr>opt_horizonYears = Some 4001\<rparr>)) 4001)) = Fin 0
   \<and> js_gt (js_sub (Fin 100)
        (cumPrincipal (the (res_loanSchedule
           (projr (simulateExcelModel longterm \<lparr>opt_horizonYears = Some 4001\<rparr>)) 4001))))
        (Fin (100 / 10 ^ 6))
   \<and> \<not> isl (simulateExcelModel steep \<lparr>opt_horizonYears = Some 3\<rparr>)
   \<and> meta_auszahlung
        (res_meta (projr (simulateExcelModel steep \<lparr>opt_horizonYears = Some 3\<rparr>))) = 100
   \<and> res_loanSchedule (projr (simulateExcelModel steep \<lparr>opt_horizonYears = Some 3\<rparr>)) 2 =
       Some \<lparr>restStart = Fin 1000100, interest = Fin (- (90009 / 10 ^ 8)),
             annuity = Fin (- 1000100), principal = Fin (- 1000100 + 90009 / 10 ^ 8),
             cumPrincipal = Fin (100 - 90009 / 10 ^ 8)\<rparr>
   \<and> res_loanSchedule (projr (simulateExcelModel steep \<lparr>opt_horizonYears = Some 3\<rparr>)) 3 =
       Some \<lparr>restStart = Fin 0, interest = Fin 0, annuity = Fin 0, principal = Fin 0,
             cumPrincipal = Fin (100 - 90009 / 10 ^ 8)\<rparr>
   \<and> js_gt (js_sub (Fin 100) (Fin (100 - 90009 / 10 ^ 8))) (Fin (100 / 10 ^ 6))"
proof -
  have A: "\<not> isl (simulateExcelModel tiny \<lparr>opt_horizonYears = Some 2\<rparr>)
   \<and> res_loanSchedule (projr (simulateExcelModel tiny \<lparr>opt_horizonYears = Some 2\<rparr>)) 1 =
       Some \<lparr>restStart = Fin 100, interest = Fin (- (1 / (2 * 10 ^ 7))), annuity = Fin (- 100),
             principal = Fin (- 100 + 1 / (2 * 10 ^ 7)),
             cumPrincipal = Fin (100 - 1 / (2 * 10 ^ 7))\<rparr>
   \<and> res_loanSchedule (projr (simulateExcelModel tiny \<lparr>opt_horizonYears = Some 2\<rparr>)) 2 =
       Some \<lparr>restStart = Fin 0, interest = Fin 0, annuity = Fin 0, principal = Fin 0,
             cumPrincipal = Fin (100 - 1 / (2 * 10 ^ 7))\<rparr>
   \<and> meta_auszahlung (res_meta (projr (simulateExcelModel tiny \<lparr>opt_horizonYears = Some 2\<rparr>))) = 100
   \<and> Fin (100 - 1 / (2 * 10 ^ 7)) \<noteq> js_sub (Fin 100) (js_add (Fin 0) (Fin 0))
   \<and> Fin (100 - 1 / (2 * 10 ^ 7)) \<noteq> js_sub (Fin 100) (Fin 0)"
  proof -
    have h: "1 \<le> horizonOf tiny \<lparr>opt_horizonYears = Some 2\<rparr>" by (simp add: horizonOf_def)
    have hv: "horizonOf tiny \<lparr>opt_horizonYears = Some 2\<rparr> = 2" by (simp add: horizonOf_def)
    have w: "loanTermYears tiny \<in> \<int>" "fixRateYears tiny \<in> \<int>" by (simp_all add: tiny_def)
    from simulate_whole_rows[OF h w] obtain res where
      s: "simulateExcelModel tiny \<lparr>opt_horizonYears = Some 2\<rparr> = Inr res"
      and sch: "res_loanSchedule res = buildLoanSchedule tiny 2"
      unfolding hv by blast
    have m: "meta_auszahlung (res_meta res) = 100"
      using s by (auto simp: simulateExcelModel_def Let_def auszahlung_tiny
          split: sum.splits list.splits prod.splits)
    show ?thesis
      unfolding s by (simp add: sch schedule_tiny zeroEntry_def m)
  qed
  have B: "\<not> isl (simulateExcelModel minus2 \<lparr>opt_horizonYears = Some 3\<rparr>)
   \<and> res_loanSchedule (projr (simulateExcelModel minus2 \<lparr>opt_horizonYears = Some 3\<rparr>)) 2 =
       Some \<lparr>restStart = PInf, interest = PInf, annuity = PInf, principal = NaN,
             cumPrincipal = NaN\<rparr>
   \<and> res_loanSchedule (projr (simulateExcelModel minus2 \<lparr>opt_horizonYears = Some 3\<rparr>)) 3 =
       Some \<lparr>restStart = Fin 0, interest = Fin 0, annuity = Fin 0, principal = Fin 0,
             cumPrincipal = NaN\<rparr>"
  proof -
    have h: "1 \<le> horizonOf minus2 \<lparr>opt_horizonYears = Some 3\<rparr>" by (simp add: horizonOf_def)
    have hv: "horizonOf minus2 \<lparr>opt_horizonYears = Some 3\<rparr> = 3" by (simp add: horizonOf_def)
    have w: "loanTermYears minus2 \<in> \<int>" "fixRateYears minus2 \<in> \<int>"
      by (simp_all add: minus2_def)
    from simulate_whole_rows[OF h w] obtain res where
      s: "simulateExcelModel minus2 \<lparr>opt_horizonYears = Some 3\<rparr> = Inr res"
      and sch: "res_loanSchedule res = buildLoanSchedule minus2 3"
      unfolding hv by blast
    show ?thesis
      unfolding s by (simp add: sch schedule_minus2 zeroEntry_def)
  qed
  have C: "\<not> isl (simulateExcelModel longterm \<lparr>opt_horizonYears = Some 4001\<rparr>)
   \<and> meta_auszahlung
        (res_meta (projr (simulateExcelModel longterm \<lparr>opt_horizonYears = Some 4001\<rparr>))) = 100
   \<and> restStart (the (res_loanSchedule
        (projr (simulateExcelModel longterm \<lparr>opt_horizonYears = Some 4001\<rparr>)) 4001)) = Fin 0
   \<and> principal (the (res_loanSchedule
        (projr (simulateExcelModel longterm \<lparr>opt_horizonYears = Some 4001\<rparr>)) 4001)) = Fin 0
   \<and> js_gt (js_sub (Fin 100)
        (cumPrincipal (the (res_loanSchedule
           (projr (simulateExcelModel longterm \<lparr>opt_horizonYears = Some 4001\<rparr>)) 4001))))
        (Fin (100 / 10 ^ 6))"
  proof -
    have h: "1 \<le> horizonOf longterm \<lparr>opt_horizonYears = Some 4001\<rparr>"
      by (simp add: horizonOf_def)
    have hv: "horizonOf longterm \<lparr>opt_horizonYears = Some 4001\<rparr> = 4001"
      by (simp add: horizonOf_def)
    have w: "loanTermYears longterm \<in> \<int>" "fixRateYears longterm \<in> \<int>"
      by (simp_all add: longterm_def)
    from simulate_whole_rows[OF h w] obtain res where
      s: "simulateExcelModel longterm \<lparr>opt_horizonYears = Some 4001\<rparr> = Inr res"
      and sch: "res_loanSchedule res = buildLoanSchedule longterm 4001"
      unfolding hv by blast
    have m: "meta_auszahlung (res_meta res) = 100"
      using s by (auto simp: simulateExcelModel_def Let_def auszahlung_longterm
          split: sum.splits list.splits prod.splits)
    from schedule_longterm obtain b where
      e: "buildLoanSchedule longterm 4001 4001 = Some (zeroEntry (Fin (100 - b)))"
      and b: "100 / 10 ^ 6 < b" by blast
    show ?thesis
      unfolding s using b by (simp add: sch e zeroEntry_def m)
  qed
  have D: "\<not> isl (simulateExcelModel steep \<lparr>opt_horizonYears = Some 3\<rparr>)
   \<and> meta_auszahlung
        (res_meta (projr (simulateExcelModel steep \<lparr>opt_horizonYears = Some 3\<rparr>))) = 100
   \<and> res_loanSchedule (projr (simulateExcelModel steep \<lparr>opt_horizonYears = Some 3\<rparr>)) 2 =
       Some \<lparr>restStart = Fin 1000100, interest = Fin (- (90009 / 10 ^ 8)),
             annuity = Fin (- 1000100), principal = Fin (- 1000100 + 90009 / 10 ^ 8),
             cumPrincipal = Fin (100 - 90009 / 10 ^ 8)\<rparr>
   \<and> res_loanSchedule (projr (simulateExcelModel steep \<lparr>opt_horizonYears = Some 3\<rparr>)) 3 =
       Some \<lparr>restStart = Fin 0, interest = Fin 0, annuity = Fin 0, principal = Fin 0,
             cumPrincipal = Fin (100 - 90009 / 10 ^ 8)\<rparr>
   \<and> js_gt (js_sub (Fin 100) (Fin (100 - 90009 / 10 ^ 8))) (Fin (100 / 10 ^ 6))"
  proof -
    have h: "1 \<le> horizonOf steep \<lparr>opt_horizonYears = Some 3\<rparr>" by (simp add: horizonOf_def)
    have hv: "horizonOf steep \<lparr>opt_horizonYears = Some 3\<rparr> = 3" by (simp add: horizonOf_def)
    have w: "loanTermYears steep \<in> \<int>" "fixRateYears steep \<in> \<int>"
      by (simp_all add: steep_def)
    from simulate_whole_rows[OF h w] obtain res where
      s: "simulateExcelModel steep \<lparr>opt_horizonYears = Some 3\<rparr> = Inr res"
      and sch: "res_loanSchedule res = buildLoanSchedule steep 3"
      unfolding hv by blast
    have m: "meta_auszahlung (res_meta res) = 100"
      using s by (auto simp: simulateExcelModel_def Let_def auszahlung_steep
          split: sum.splits list.splits prod.splits)
    show ?thesis
      unfolding s by (simp add: sch schedule_steep zeroEntry_def m)
  qed
  show ?thesis using A B C D by (simp only: simp_thms)
qed

section \<open>The tax cashflow\<close>

lemma runYear_cfs:
  assumes "runYear i n (d, c, ls, cfs, ccs, rs, bd) = (d', c', ls', cfs', ccs', rs', bd')"
  shows "cfs' = cfs @ [cashflowAfterTax i d]
       \<and> bd' = (if n = 1
                 then Some \<lparr>cb_rent = annualGrossRent i, cb_maintenance = rs_annualMaintenance i,
                        cb_other = in_otherCostsAnnual i, cb_interest = interestPayment i d,
                        cb_taxes = taxes i d\<rparr>
                 else bd)"
  using assms by (simp add: runYear_def Let_def)

lemma runLoop_cfs:
  assumes "runLoop i Y n (d, c, ls, cfs, ccs, rs, bd) = (d', c', ls', cfs', ccs', rs', bd')"
    and "\<forall>x \<in> set cfs. \<exists>d. x = cashflowAfterTax i d"
  shows "\<forall>x \<in> set cfs'. \<exists>d. x = cashflowAfterTax i d"
  using assms
proof (induction i Y n "(d, c, ls, cfs, ccs, rs, bd)" arbitrary: d c ls cfs ccs rs bd
    rule: runLoop.induct)
  case (1 i Y n)
  show ?case
  proof (cases "of_int n \<le> Y")
    case False
    then have "runLoop i Y n (d, c, ls, cfs, ccs, rs, bd) = (d, c, ls, cfs, ccs, rs, bd)"
      by (subst runLoop.simps) simp
    with "1.prems" show ?thesis by simp
  next
    case True
    obtain d1 c1 ls1 cfs1 ccs1 rs1 bd1 where
      y: "runYear i n (d, c, ls, cfs, ccs, rs, bd) = (d1, c1, ls1, cfs1, ccs1, rs1, bd1)"
      by (metis prod_cases7)
    have unf: "runLoop i Y (n + 1) (d1, c1, ls1, cfs1, ccs1, rs1, bd1)
                = (d', c', ls', cfs', ccs', rs', bd')"
      using "1.prems"(1) True y by (subst (asm) runLoop.simps) simp
    have "cfs1 = cfs @ [cashflowAfterTax i d]" using runYear_cfs[OF y] by simp
    then have inv: "\<forall>x \<in> set cfs1. \<exists>d. x = cashflowAfterTax i d"
      using "1.prems"(2) by auto
    show ?thesis using "1.hyps"[OF True y unf inv] .
  qed
qed

lemma runLoop_breakdown_keep:
  assumes "runLoop i Y n (d, c, ls, cfs, ccs, rs, bd) = (d', c', ls', cfs', ccs', rs', bd')"
    and "1 < n"
  shows "bd' = bd"
  using assms
proof (induction i Y n "(d, c, ls, cfs, ccs, rs, bd)" arbitrary: d c ls cfs ccs rs bd
    rule: runLoop.induct)
  case (1 i Y n)
  show ?case
  proof (cases "of_int n \<le> Y")
    case False
    then have "runLoop i Y n (d, c, ls, cfs, ccs, rs, bd) = (d, c, ls, cfs, ccs, rs, bd)"
      by (subst runLoop.simps) simp
    with "1.prems" show ?thesis by simp
  next
    case True
    obtain d1 c1 ls1 cfs1 ccs1 rs1 bd1 where
      y: "runYear i n (d, c, ls, cfs, ccs, rs, bd) = (d1, c1, ls1, cfs1, ccs1, rs1, bd1)"
      by (metis prod_cases7)
    have unf: "runLoop i Y (n + 1) (d1, c1, ls1, cfs1, ccs1, rs1, bd1)
                = (d', c', ls', cfs', ccs', rs', bd')"
      using "1.prems"(1) True y by (subst (asm) runLoop.simps) simp
    have "bd1 = bd" using runYear_cfs[OF y] "1.prems"(2) by simp
    moreover have "1 < n + 1" using "1.prems"(2) by simp
    ultimately show ?thesis using "1.hyps"[OF True y unf] by simp
  qed
qed


lemma runSimulation_loop:
  "\<exists>Y d' c' ls' cfs' ccs' rs' bd'.
     runLoop i Y 1 (rs_loanAmount i, 0, [], [], [], [], None) = (d', c', ls', cfs', ccs', rs', bd')
     \<and> annualCashflows (runSimulation i) = cfs'
     \<and> year1CostBreakdown (runSimulation i) = bd'"
proof -
  define Y where "Y = min (in_investmentYears i)
                    (if in_loanTermYears i \<noteq> 0 then in_loanTermYears i else in_investmentYears i)"
  obtain d' c' ls' cfs' ccs' rs' bd' where
    l: "runLoop i Y 1 (rs_loanAmount i, 0, [], [], [], [], None) = (d', c', ls', cfs', ccs', rs', bd')"
    by (metis prod_cases7)
  have "annualCashflows (runSimulation i) = cfs' \<and> year1CostBreakdown (runSimulation i) = bd'"
    using l by (simp add: runSimulation_def Let_def Y_def[symmetric])
  with l show ?thesis by blast
qed

lemma runSimulation_cashflows:
  "\<forall>x \<in> set (annualCashflows (runSimulation i)). \<exists>d. x = cashflowAfterTax i d"
proof -
  from runSimulation_loop[of i] obtain Y d' c' ls' cfs' ccs' rs' bd' where
    l: "runLoop i Y 1 (rs_loanAmount i, 0, [], [], [], [], None) = (d', c', ls', cfs', ccs', rs', bd')"
    and a: "annualCashflows (runSimulation i) = cfs'"
    by blast
  have "\<forall>x \<in> set cfs'. \<exists>d. x = cashflowAfterTax i d"
    using runLoop_cfs[OF l] by simp
  then show ?thesis by (simp add: a)
qed

lemma runSimulation_breakdown:
  assumes "year1CostBreakdown (runSimulation i) = Some cb"
  shows "cb_taxes cb = taxes i (rs_loanAmount i)"
proof -
  from runSimulation_loop[of i] obtain Y d' c' ls' cfs' ccs' rs' bd' where
    l: "runLoop i Y 1 (rs_loanAmount i, 0, [], [], [], [], None) = (d', c', ls', cfs', ccs', rs', bd')"
    and b: "year1CostBreakdown (runSimulation i) = bd'"
    by blast
  show ?thesis
  proof (cases "of_int 1 \<le> Y")
    case False
    then have "runLoop i Y 1 (rs_loanAmount i, 0, [], [], [], [], None)
               = (rs_loanAmount i, 0, [], [], [], [], None)"
      by (subst runLoop.simps) (simp only: if_False)
    with l b assms show ?thesis by simp
  next
    case True
    obtain d1 c1 ls1 cfs1 ccs1 rs1 bd1 where
      y: "runYear i 1 (rs_loanAmount i, 0, [], [], [], [], None)
            = (d1, c1, ls1, cfs1, ccs1, rs1, bd1)"
      by (metis prod_cases7)
    have unf: "runLoop i Y (1 + 1) (d1, c1, ls1, cfs1, ccs1, rs1, bd1)
                = (d', c', ls', cfs', ccs', rs', bd')"
      using l True y by (subst (asm) runLoop.simps) simp
    have "bd' = bd1" using runLoop_breakdown_keep[OF unf] by simp
    moreover have "bd1 = Some \<lparr>cb_rent = annualGrossRent i, cb_maintenance = rs_annualMaintenance i,
                        cb_other = in_otherCostsAnnual i,
                        cb_interest = interestPayment i (rs_loanAmount i),
                        cb_taxes = taxes i (rs_loanAmount i)\<rparr>"
      using runYear_cfs[OF y] by simp
    ultimately show ?thesis using b assms by auto
  qed
qed

text \<open>
  C3, as amended. In the detailed model the tax cashflow of every year is
  \<open>-taxRate \<sqdot> taxable\<close>, added to the cashflow before tax: for a negative taxable income
  and a positive rate it is a positive saving. The simplified model of the user
  interface computes its tax as \<open>max (taxableIncome \<sqdot> taxRate, 0)\<close> instead: with a
  negative taxable income and a positive rate the tax is zero, and the cashflow after tax
  of the year is the cashflow before it. Every yearly cashflow it returns is computed so,
  and so is the tax of year 1 in its cost breakdown.
\<close>

theorem tax_cashflow:
  "(simulateExcelModel p opts = Inr res \<longrightarrow>
      (\<forall>n < length (res_years res).
         taxCash (res_years res ! n) = js_mul (Fin (- taxRate p)) (taxable (res_years res ! n))
         \<and> cashAfterTax (res_years res ! n) =
             js_add (cashBeforeTax (res_years res ! n)) (taxCash (res_years res ! n))
         \<and> (\<forall>t. taxable (res_years res ! n) = Fin t \<longrightarrow>
               taxCash (res_years res ! n) = Fin (- taxRate p * t)
               \<and> (t < 0 \<and> 0 < taxRate p \<longrightarrow> 0 < - taxRate p * t))))
   \<and> taxes i d = max (taxableIncome i d * (in_taxRate i / 100)) 0
   \<and> (taxableIncome i d < 0 \<and> 0 < in_taxRate i \<longrightarrow>
         taxes i d = 0
         \<and> cashflowAfterTax i d =
             annualGrossRent i - rs_annualMaintenance i - in_otherCostsAnnual i
               - interestPayment i d)
   \<and> (\<forall>x \<in> set (annualCashflows (runSimulation i)). \<exists>d. x = cashflowAfterTax i d)
   \<and> (\<forall>cb. year1CostBreakdown (runSimulation i) = Some cb \<longrightarrow>
         cb_taxes cb = taxes i (rs_loanAmount i))"
proof (intro conjI impI allI)
  fix n
  assume sim: "simulateExcelModel p opts = Inr res" and n: "n < length (res_years res)"
  from simulate_InrD[OF sim] n obtain e where
    row: "yearRow p e (1 + int n)
            ((buildingValue p + fittingUp p)
               * (1 - buildingLossRate p + constructionCostGrowth p) ^ n)
            (landValue p * (1 + landGrowthRate p) ^ n) (res_years res ! n)"
    by auto
  then show tc: "taxCash (res_years res ! n) =
                   js_mul (Fin (- taxRate p)) (taxable (res_years res ! n))"
    by (simp add: yearRow_def)
  show "cashAfterTax (res_years res ! n) =
          js_add (cashBeforeTax (res_years res ! n)) (taxCash (res_years res ! n))"
    using row by (simp add: yearRow_def)
  fix t
  assume t: "taxable (res_years res ! n) = Fin t"
  show "taxCash (res_years res ! n) = Fin (- taxRate p * t)" using tc t by simp
  assume "t < 0 \<and> 0 < taxRate p"
  then show "0 < - taxRate p * t" by (simp add: mult_pos_neg)
next
  show "taxes i d = max (taxableIncome i d * (in_taxRate i / 100)) 0"
    by (simp add: taxes_def)
next
  assume a: "taxableIncome i d < 0 \<and> 0 < in_taxRate i"
  then have "taxableIncome i d * (in_taxRate i / 100) < 0" by (simp add: mult_neg_pos)
  then show z: "taxes i d = 0" by (simp add: taxes_def)
  show "cashflowAfterTax i d =
             annualGrossRent i - rs_annualMaintenance i - in_otherCostsAnnual i
               - interestPayment i d"
    by (simp add: cashflowAfterTax_def z)
next
  show "\<forall>x \<in> set (annualCashflows (runSimulation i)). \<exists>d. x = cashflowAfterTax i d"
    by (rule runSimulation_cashflows)
next
  fix cb
  assume "year1CostBreakdown (runSimulation i) = Some cb"
  then show "cb_taxes cb = taxes i (rs_loanAmount i)" by (rule runSimulation_breakdown)
qed


lemma first_year_entry:
  assumes Li: "loanTermYears p = of_int L" and Fi: "firstPhaseYears p = of_int F"
    and L: "1 \<le> L" and F: "0 \<le> F"
    and f1: "1 \<le> F \<Longrightarrow> \<not> (rate1 p = - 2 \<and> even L)"
    and f2: "F < L \<Longrightarrow> \<not> (rate2 p = - 2 \<and> even (L - F))"
  shows "\<exists>e. buildLoanSchedule p h 1 = Some e \<and> restStart e = Fin (auszahlung p)
            \<and> interest e = Fin (- (auszahlung p * rateOfYear p 1))"
proof -
  from loan_rows[OF Li Fi L f1 f2] obtain a1 a2 s where
    p2: "phase2 p = (Fin (balanceAfter p a1 a2 L),
            Fin (auszahlung p - balanceAfter p a1 a2 L), s)"
    and rows: "\<forall>k. 1 \<le> k \<and> k \<le> L \<longrightarrow>
               s (of_int k) = Some \<lparr>restStart = Fin (balanceAfter p a1 a2 (k - 1)),
                  interest = Fin (- (balanceAfter p a1 a2 (k - 1) * rateOfYear p k)),
                  annuity = Fin (paymentOfYear p a1 a2 k),
                  principal = Fin (paymentOfYear p a1 a2 k
                                   + balanceAfter p a1 a2 (k - 1) * rateOfYear p k),
                  cumPrincipal = Fin (auszahlung p - balanceAfter p a1 a2 k)\<rparr>"
    by blast
  have b0: "balanceAfter p a1 a2 0 = auszahlung p"
    using F by (simp add: balanceAfter_def twoPhase_def Fi)
  have "buildLoanSchedule p h (of_int 1) = s (of_int 1)"
    using L by (simp only: buildLoanSchedule_apply[OF p2 Li]) simp
  then show ?thesis using rows[rule_format, of 1] L by (simp add: b0)
qed

lemma decimal_1: "decimal (Suc 0) = ''1''"
  by code_simp

lemma runSimulation_sample:
  "year1CostBreakdown (runSimulation sample_inputs) =
     Some \<lparr>cb_rent = 0, cb_maintenance = 0, cb_other = 0, cb_interest = 0, cb_taxes = 0\<rparr>"
  "annualCashflows (runSimulation sample_inputs) = [0]"
proof -
  have l: "rs_loanAmount sample_inputs = 0"
    by (simp add: rs_loanAmount_def rs_totalInitialCost_def rs_purchasingCosts_def
        sample_inputs_def)
  have y: "runYear sample_inputs 1 (0, 0, [], [], [], [], None) =
             (0, 0, [''Year 1''], [0], [0], [0],
              Some \<lparr>cb_rent = 0, cb_maintenance = 0, cb_other = 0, cb_interest = 0,
                    cb_taxes = 0\<rparr>)"
    by (simp add: runYear_def Let_def interestPayment_def principalRepayment_def
        annualDebtService_def taxes_def taxableIncome_def cashflowAfterTax_def annualGrossRent_def
        rs_annualMaintenance_def annualDepreciation_def l sample_inputs_def decimal_1
        del: decimal.simps)
  have "runLoop sample_inputs 1 1 (0, 0, [], [], [], [], None) =
          runLoop sample_inputs 1 2 (runYear sample_inputs 1 (0, 0, [], [], [], [], None))"
    by (subst runLoop.simps) simp
  also have "\<dots> = runYear sample_inputs 1 (0, 0, [], [], [], [], None)"
    by (subst runLoop.simps) simp
  finally have loop: "runLoop sample_inputs 1 1 (0, 0, [], [], [], [], None) =
             (0, 0, [''Year 1''], [0], [0], [0],
              Some \<lparr>cb_rent = 0, cb_maintenance = 0, cb_other = 0, cb_interest = 0,
                    cb_taxes = 0\<rparr>)"
    by (simp only: y)
  have Y: "min (in_investmentYears sample_inputs)
             (if in_loanTermYears sample_inputs \<noteq> 0 then in_loanTermYears sample_inputs
              else in_investmentYears sample_inputs) = 1"
    by (simp add: sample_inputs_def)
  show "year1CostBreakdown (runSimulation sample_inputs) =
     Some \<lparr>cb_rent = 0, cb_maintenance = 0, cb_other = 0, cb_interest = 0, cb_taxes = 0\<rparr>"
    by (simp add: runSimulation_def Let_def Y l loop)
  show "annualCashflows (runSimulation sample_inputs) = [0]"
    by (simp add: runSimulation_def Let_def Y l loop)
qed

lemma taxable_sample_inputs:
  "taxableIncome sample_inputs 0 = - 3000" "in_taxRate sample_inputs = 30"
  "taxes sample_inputs 0 = 0" "rs_loanAmount sample_inputs = 0"
  by (simp_all add: taxableIncome_def taxes_def annualGrossRent_def rs_annualMaintenance_def
      interestPayment_def annualDepreciation_def rs_loanAmount_def rs_totalInitialCost_def
      rs_purchasingCosts_def sample_inputs_def)

text \<open>
  A purchase of 100000 from equity, without rent and with a depreciation of 3 percent:
  the taxable income of year 1 is \<open>-3000\<close> at a tax rate of 30 percent, yet the tax of the
  year is 0, not a saving of 900, and the cashflow after tax is 0.
\<close>

theorem tax_cashflow_counterexample:
  "taxableIncome sample_inputs (rs_loanAmount sample_inputs) = - 3000
   \<and> in_taxRate sample_inputs / 100 = 3 / 10
   \<and> - (in_taxRate sample_inputs / 100) * taxableIncome sample_inputs (rs_loanAmount sample_inputs)
       = 900
   \<and> year1CostBreakdown (runSimulation sample_inputs) =
       Some \<lparr>cb_rent = 0, cb_maintenance = 0, cb_other = 0, cb_interest = 0, cb_taxes = 0\<rparr>
   \<and> annualCashflows (runSimulation sample_inputs) = [0]"
  by (simp add: taxable_sample_inputs runSimulation_sample)


lemma sample_values:
  "auszahlung sample = 202000" "afaBasis sample = 200000" "disagio sample = 0"
  "rate1 sample = 3 / 100" "rate2 sample = 3 / 100" "rateOfYear sample 1 = 3 / 100"
  by (simp_all add: auszahlung_def auszahlungsKurs_def finanzbedarf_def totalInvest_def
      purchasePrice_def sideCostsTotal_def sideCostsVar_def sideCostRate_def afaBasis_def
      buildingShare_def disagio_def rate1_def rate2_def rateOfYear_def firstPhaseYears_def
      sample_def)

theorem tax_cashflow_witness:
  "\<exists>res. simulateExcelModel sample \<lparr>opt_horizonYears = Some 3\<rparr> = Inr res
     \<and> 0 < length (res_years res)
     \<and> taxable (res_years res ! 0) = Fin (- 1060)
     \<and> (- 1060 :: real) < 0 \<and> 0 < taxRate sample
     \<and> taxCash (res_years res ! 0) = Fin (- taxRate sample * (- 1060))
     \<and> 0 < - taxRate sample * (- 1060)
     \<and> taxableIncome sample_inputs 0 < 0 \<and> 0 < in_taxRate sample_inputs
     \<and> taxes sample_inputs 0 = 0
     \<and> cashflowAfterTax sample_inputs 0 =
         annualGrossRent sample_inputs - rs_annualMaintenance sample_inputs
           - in_otherCostsAnnual sample_inputs - interestPayment sample_inputs 0
     \<and> (0 :: real) \<in> set (annualCashflows (runSimulation sample_inputs))
     \<and> (\<exists>d. (0 :: real) = cashflowAfterTax sample_inputs d)
     \<and> (\<exists>cb. year1CostBreakdown (runSimulation sample_inputs) = Some cb
           \<and> cb_taxes cb = taxes sample_inputs (rs_loanAmount sample_inputs))"
proof -
  let ?o = "\<lparr>opt_horizonYears = Some 3\<rparr>"
  have h: "1 \<le> horizonOf sample ?o" by (simp add: horizonOf_def)
  from sample_rows[OF h] obtain res where
    s: "simulateExcelModel sample ?o = Inr res"
    and len: "length (res_years res) = nat \<lfloor>horizonOf sample ?o\<rfloor>"
    and rows: "\<forall>i < nat \<lfloor>horizonOf sample ?o\<rfloor>.
          \<exists>e. buildLoanSchedule sample (horizonOf sample ?o) (of_int (1 + int i)) = Some e
            \<and> yearRow sample e (1 + int i)
                 ((buildingValue sample + fittingUp sample)
                    * (1 - buildingLossRate sample + constructionCostGrowth sample) ^ i)
                 (landValue sample * (1 + landGrowthRate sample) ^ i) (res_years res ! i)"
    by blast
  have l0: "0 < length (res_years res)" using len by (simp add: horizonOf_def)
  have i0: "(0::nat) < nat \<lfloor>horizonOf sample ?o\<rfloor>" by (simp add: horizonOf_def)
  from rows[rule_format, OF i0] obtain e where
    e: "buildLoanSchedule sample (horizonOf sample ?o) 1 = Some e"
    and row: "yearRow sample e 1 (buildingValue sample + fittingUp sample) (landValue sample)
                (res_years res ! 0)"
    by auto
  have Li: "loanTermYears sample = of_int 2" and Fi: "firstPhaseYears sample = of_int 1"
    by (simp_all add: sample_def firstPhaseYears_def)
  have r1: "rate1 sample \<noteq> - 2" and r2: "rate2 sample \<noteq> - 2"
    by (simp_all add: sample_values)
  from first_year_entry[OF Li Fi, of "horizonOf sample ?o"] r1 r2 e
  have int: "interest e = Fin (- 6060)" by (auto simp: sample_values)
  have rent: "netRent (res_years res ! 0) = Fin 12000"
    using row_rent[OF row] by (simp add: sample_def)
  have mt: "maintenance (res_years res ! 0) = Fin (- 3000)"
    using row_maintenance[OF row] by (simp add: sample_def)
  have afa: "afaRate (afaArt sample) 1 (Some (case buildingLifetimeYears sample of
                None \<Rightarrow> 50 | Some l \<Rightarrow> l)) = Fin (2 / 100)"
    by (simp add: afaRate_def sample_def)
  have dep: "depreciation (res_years res ! 0) = Fin (- 4000)"
    using row by (simp add: yearRow_def afa sample_values)
  have tx: "taxable (res_years res ! 0) = Fin (- 1060)"
    using row by (simp add: yearRow_def rent mt int dep sample_values)
  have tr: "0 < taxRate sample" by (simp add: sample_def)
  have ti: "taxableIncome sample_inputs 0 < 0 \<and> 0 < in_taxRate sample_inputs"
    by (simp add: taxable_sample_inputs)
  have mem: "(0 :: real) \<in> set (annualCashflows (runSimulation sample_inputs))"
    by (simp add: runSimulation_sample)
  note t = tax_cashflow [of sample ?o res sample_inputs 0]
  have a: "taxCash (res_years res ! 0) = Fin (- taxRate sample * (- 1060))
     \<and> 0 < - taxRate sample * (- 1060)"
    using t s l0 tx tr by auto
  have b: "taxes sample_inputs 0 = 0
     \<and> cashflowAfterTax sample_inputs 0 =
         annualGrossRent sample_inputs - rs_annualMaintenance sample_inputs
           - in_otherCostsAnnual sample_inputs - interestPayment sample_inputs 0"
    using t ti by blast
  have c: "\<exists>d. (0 :: real) = cashflowAfterTax sample_inputs d"
    using t mem by blast
  have d: "\<exists>cb. year1CostBreakdown (runSimulation sample_inputs) = Some cb
           \<and> cb_taxes cb = taxes sample_inputs (rs_loanAmount sample_inputs)"
    using t runSimulation_sample(1) by blast
  show ?thesis using s l0 tx tr ti a b c d mem by auto
qed
end
